theory Spec2Isabelle
  imports Complex_Main
begin

section \<open>JavaScript values used by the server\<close>

subsection \<open>Strings\<close>

text \<open>
  A string is a list of UTF-16 code units. The model has the code units below 256: a
  \<open>char\<close> is the code unit of that number, \<open>CHR 0xA0\<close> is U+00A0. Strings with a code unit
  above 255 are outside the model.

  \<open>String.prototype.trim\<close> removes the white space and the line terminators of ECMAScript
  from both ends. Below 256 these are TAB, LF, VT, FF, CR, SPACE and NO-BREAK SPACE
  (U+00A0); the others (U+1680, U+2000 to U+200A, U+2028, U+2029, U+202F, U+205F, U+3000,
  U+FEFF) are above 255.
\<close>

definition isWhiteSpace :: "char \<Rightarrow> bool" where
  "isWhiteSpace c =
     (c \<in> set [CHR 0x09, CHR 0x0A, CHR 0x0B, CHR 0x0C, CHR 0x0D, CHR '' '', CHR 0xA0])"

definition trim :: "string \<Rightarrow> string" where
  "trim s = rev (dropWhile isWhiteSpace (rev (dropWhile isWhiteSpace s)))"

text \<open>
  The letters below 256 that have another case: \<open>A\<close>..\<open>Z\<close> and U+00C0..U+00DE without the
  multiplication sign U+00D7 are upper case, and the lower-case form of each is the code
  unit 32 above it.
\<close>

definition upperCaseLetters :: "char list" where
  "upperCaseLetters =
     ''ABCDEFGHIJKLMNOPQRSTUVWXYZ'' @
     [CHR 0xC0, CHR 0xC1, CHR 0xC2, CHR 0xC3, CHR 0xC4, CHR 0xC5, CHR 0xC6, CHR 0xC7,
      CHR 0xC8, CHR 0xC9, CHR 0xCA, CHR 0xCB, CHR 0xCC, CHR 0xCD, CHR 0xCE, CHR 0xCF,
      CHR 0xD0, CHR 0xD1, CHR 0xD2, CHR 0xD3, CHR 0xD4, CHR 0xD5, CHR 0xD6,
      CHR 0xD8, CHR 0xD9, CHR 0xDA, CHR 0xDB, CHR 0xDC, CHR 0xDD, CHR 0xDE]"

definition lowerCaseLetters :: "char list" where
  "lowerCaseLetters =
     ''abcdefghijklmnopqrstuvwxyz'' @
     [CHR 0xE0, CHR 0xE1, CHR 0xE2, CHR 0xE3, CHR 0xE4, CHR 0xE5, CHR 0xE6, CHR 0xE7,
      CHR 0xE8, CHR 0xE9, CHR 0xEA, CHR 0xEB, CHR 0xEC, CHR 0xED, CHR 0xEE, CHR 0xEF,
      CHR 0xF0, CHR 0xF1, CHR 0xF2, CHR 0xF3, CHR 0xF4, CHR 0xF5, CHR 0xF6,
      CHR 0xF8, CHR 0xF9, CHR 0xFA, CHR 0xFB, CHR 0xFC, CHR 0xFD, CHR 0xFE]"

text \<open>\<open>String.prototype.toLowerCase\<close>: every other code unit below 256 is its own lower case.\<close>

definition toLower :: "char \<Rightarrow> char" where
  "toLower c = (case map_of (zip upperCaseLetters lowerCaseLetters) c of None \<Rightarrow> c | Some l \<Rightarrow> l)"

definition toLowerCase :: "string \<Rightarrow> string" where
  "toLowerCase s = map toLower s"

text \<open>
  \<open>String.prototype.toUpperCase\<close>. The upper case of U+00DF (sharp s) is \<open>SS\<close>. The upper
  case of U+00B5 (micro sign) is U+039C and that of U+00FF is U+0178, both above 255: the
  result for a string with one of them is \<open>None\<close>, a string outside the model.
\<close>

definition toUpper :: "char \<Rightarrow> string" where
  "toUpper c =
     (if c = CHR 0xDF then ''SS''
      else case map_of (zip lowerCaseLetters upperCaseLetters) c of None \<Rightarrow> [c] | Some l \<Rightarrow> [l])"

definition toUpperCase :: "string \<Rightarrow> string option" where
  "toUpperCase s =
     (if CHR 0xB5 \<in> set s \<or> CHR 0xFF \<in> set s then None else Some (concat (map toUpper s)))"

text \<open>\<open>w.includes(g)\<close>: \<open>g\<close> occurs in \<open>w\<close> at some position (the empty string always does).\<close>

fun str_includes :: "string \<Rightarrow> string \<Rightarrow> bool" where
  "str_includes [] g = (g = [])"
| "str_includes (c # cs) g = (take (length g) (c # cs) = g \<or> str_includes cs g)"

text \<open>\<open>parts.join(sep)\<close>.\<close>

fun join :: "string \<Rightarrow> string list \<Rightarrow> string" where
  "join sep [] = []"
| "join sep [x] = x"
| "join sep (x # y # ys) = x @ sep @ join sep (y # ys)"

subsection \<open>Numbers\<close>

text \<open>
  A JavaScript number is an IEEE 754 double. A finite double is a rational, and \<open>fl x\<close> is
  the double nearest to the rational \<open>x\<close>, ties to even, as the hardware rounds: the
  significand has 53 bits, the exponent is that of \<open>x\<close>. A rational \<open>x\<close> is a double when
  \<open>fl x = x\<close>. The exponent range is not modelled (no overflow to \<open>Infinity\<close>, no
  subnormals), nor are \<open>NaN\<close> and the infinities.

  The numbers a room takes from the \<open>create_room\<close> payload and the ones computed from
  them (\<open>totalRounds\<close>, \<open>timePerTurn\<close>, \<open>timeRemaining\<close>) are rationals, and every operation on
  them is the double operation. The payload fields are taken to be finite numbers or
  missing. The counters the program starts at a constant and increments (\<open>roundNumber\<close>,
  \<open>currentDrawerIndex\<close>, \<open>hintsRevealed\<close>) and the scores, sums of results of \<open>Math.round\<close>,
  are modelled as \<open>int\<close>: doubles add integers below \<open>2^53\<close> exactly.
\<close>

function lg_up :: "rat \<Rightarrow> nat" where
  "lg_up a = (if 2 \<le> a then Suc (lg_up (a / 2)) else 0)"
  by pat_completeness auto
termination
proof (relation "measure (\<lambda>a. nat \<lfloor>a\<rfloor>)")
  show "wf (measure (\<lambda>a::rat. nat \<lfloor>a\<rfloor>))" by simp
next
  fix a :: rat
  assume h: "2 \<le> a"
  have "a / 2 \<le> a - 1" using h by simp
  then have "\<lfloor>a / 2\<rfloor> \<le> \<lfloor>a - 1\<rfloor>" by (rule floor_mono)
  moreover have "1 \<le> \<lfloor>a\<rfloor>" using h by linarith
  ultimately show "(a / 2, a) \<in> measure (\<lambda>a. nat \<lfloor>a\<rfloor>)" by simp
qed

function lg_dn :: "rat \<Rightarrow> nat" where
  "lg_dn a = (if 0 < a \<and> a < 1 then Suc (lg_dn (a * 2)) else 0)"
  by pat_completeness auto
termination
proof (relation "measure (\<lambda>a. nat \<lfloor>1 / a\<rfloor>)")
  show "wf (measure (\<lambda>a::rat. nat \<lfloor>1 / a\<rfloor>))" by simp
next
  fix a :: rat
  assume h: "0 < a \<and> a < 1"
  define y where "y = 1 / a"
  have y: "1 < y" using h by (simp add: y_def)
  have e: "1 / (a * 2) = y / 2" by (simp add: y_def)
  have "\<lfloor>y / 2\<rfloor> < \<lfloor>y\<rfloor>"
  proof (cases "2 \<le> y")
    case True
    then have "y / 2 \<le> y - 1" by simp
    then have "\<lfloor>y / 2\<rfloor> \<le> \<lfloor>y - 1\<rfloor>" by (rule floor_mono)
    then show ?thesis by simp
  next
    case False
    then have "y / 2 < 1" by simp
    moreover have "0 \<le> y / 2" using y by simp
    ultimately have "\<lfloor>y / 2\<rfloor> = 0" by (simp add: floor_eq_iff)
    moreover have "1 \<le> \<lfloor>y\<rfloor>" using y by linarith
    ultimately show ?thesis by simp
  qed
  moreover have "0 < \<lfloor>y\<rfloor>" using y by linarith
  ultimately have "nat \<lfloor>y / 2\<rfloor> < nat \<lfloor>y\<rfloor>" by simp
  then show "(a * 2, a) \<in> measure (\<lambda>a. nat \<lfloor>1 / a\<rfloor>)"
    unfolding in_measure e y_def [symmetric] .
qed

declare lg_up.simps [simp del] lg_dn.simps [simp del]

text \<open>The binary exponent of a positive rational: \<open>2 ^ exponent a \<le> a < 2 ^ (exponent a + 1)\<close>.\<close>

definition exponent :: "rat \<Rightarrow> int" where
  "exponent a = (if 1 \<le> a then int (lg_up a) else - int (lg_dn a))"

definition roundTiesToEven :: "rat \<Rightarrow> int" where
  "roundTiesToEven m =
     (let f = \<lfloor>m\<rfloor>; d = m - of_int f
      in if d < 1 / 2 then f else if 1 / 2 < d then f + 1 else if even f then f else f + 1)"

definition fl :: "rat \<Rightarrow> rat" where
  "fl x =
     (if x = 0 then 0
      else let s = 2 powi (52 - exponent \<bar>x\<bar>)
           in sgn x * of_int (roundTiesToEven (\<bar>x\<bar> * s)) / s)"

definition js_add :: "rat \<Rightarrow> rat \<Rightarrow> rat" where
  "js_add x y = fl (x + y)"

definition js_sub :: "rat \<Rightarrow> rat \<Rightarrow> rat" where
  "js_sub x y = fl (x - y)"

definition js_mul :: "rat \<Rightarrow> rat \<Rightarrow> rat" where
  "js_mul x y = fl (x * y)"

text \<open>
  \<open>x / y\<close> for \<open>y \<noteq> 0\<close>. The one divisor of the program, \<open>timePerTurn\<close>, is never 0: room
  creation replaces 0 by 40 and \<open>start_game\<close> sets at least 15.
\<close>

definition js_div :: "rat \<Rightarrow> rat \<Rightarrow> rat" where
  "js_div x y = fl (x / y)"

text \<open>The number a decimal literal of the source denotes.\<close>

definition js_literal :: "rat \<Rightarrow> rat" where
  "js_literal x = fl x"

text \<open>\<open>Math.round\<close>: the nearest integer, a tie going up. \<open>Math.floor\<close> is \<open>\<lfloor>_\<rfloor>\<close>.\<close>

definition Math_round :: "rat \<Rightarrow> int" where
  "Math_round x = \<lfloor>x + 1 / 2\<rfloor>"

text \<open>
  \<open>Math.floor(Math.random() * n)\<close> and \<open>arr[Math.floor(Math.random() * arr.length)]\<close>, where
  \<open>u\<close> is the value of \<open>Math.random()\<close>, a double with \<open>0 \<le> u < 1\<close>. The product is the
  double product. (For such \<open>u\<close> the index is inside the array: lemma
  \<open>randomIndex_in_range\<close>.)
\<close>

definition randomIndex :: "rat \<Rightarrow> nat \<Rightarrow> nat" where
  "randomIndex u n = nat \<lfloor>js_mul u (of_nat n)\<rfloor>"

definition randomElement :: "rat \<Rightarrow> 'a list \<Rightarrow> 'a" where
  "randomElement u arr = arr ! randomIndex u (length arr)"

text \<open>\<open>x || d\<close> for a payload field that is a number or missing: 0 and missing are falsy.\<close>

definition orDefault :: "rat option \<Rightarrow> rat \<Rightarrow> rat" where
  "orDefault x d = (case x of None \<Rightarrow> d | Some n \<Rightarrow> if n = 0 then d else n)"

text \<open>
  The fields of the \<open>start_game\<close> payload go through \<open>parseInt\<close> and truthiness tests, so
  they are modelled as arbitrary JSON values.
\<close>

datatype jsval = JUndefined | JNull | JBool bool | JNum rat | JStr string | JObject

fun truthy :: "jsval \<Rightarrow> bool" where
  "truthy JUndefined = False"
| "truthy JNull = False"
| "truthy (JBool b) = b"
| "truthy (JNum x) = (x \<noteq> 0)"
| "truthy (JStr s) = (s \<noteq> [])"
| "truthy JObject = True"

subsection \<open>Map and Set\<close>

text \<open>
  A JavaScript \<open>Map\<close> iterates in insertion order: an association list with distinct
  keys. \<open>get\<close> of a key that is \<open>undefined\<close> (\<open>None\<close>) finds nothing, as no entry has that key.
  A \<open>Set\<close> is a list without duplicates, in insertion order.
\<close>

fun Map_set :: "'k \<Rightarrow> 'v \<Rightarrow> ('k \<times> 'v) list \<Rightarrow> ('k \<times> 'v) list" where
  "Map_set k v [] = [(k, v)]"
| "Map_set k v (e # es) = (if fst e = k then (k, v) # es else e # Map_set k v es)"

definition Map_delete :: "'k \<Rightarrow> ('k \<times> 'v) list \<Rightarrow> ('k \<times> 'v) list" where
  "Map_delete k m = filter (\<lambda>e. fst e \<noteq> k) m"

definition Map_get :: "('k \<times> 'v) list \<Rightarrow> 'k option \<Rightarrow> 'v option" where
  "Map_get m k = (case k of None \<Rightarrow> None | Some k' \<Rightarrow> map_of m k')"

definition Map_keys :: "('k \<times> 'v) list \<Rightarrow> 'k list" where
  "Map_keys m = map fst m"

definition Set_add :: "'a \<Rightarrow> 'a list \<Rightarrow> 'a list" where
  "Set_add x s = (if x \<in> set s then s else s @ [x])"

text \<open>\<open>arr[i]\<close>: \<open>undefined\<close> outside the array.\<close>

definition at_index :: "'a list \<Rightarrow> int \<Rightarrow> 'a option" where
  "at_index arr i = (if 0 \<le> i \<and> i < int (length arr) then Some (arr ! nat i) else None)"

section \<open>The data model (server.js, lines 14-63)\<close>

definition WORD_LIST :: "string list" where
  "WORD_LIST =
    [''Queen'', ''Sales Tax'', ''Megillah'', ''Throne'', ''Haman'', ''Desk'', ''Coffee'',
     ''Laptop'', ''Party'', ''Delaware'', ''Hamantaschen'', ''Real Estate'', ''Pension'',
     ''King'', ''10 Sons of Haman'', ''Calculator'', ''Shekels'', ''US Flag'',
     ''Foreign Income'', ''Mordechai'', ''Water Bottle'', ''Transfer Pricing'',
     ''Achashverosh'', ''Mouse'', ''Deadline'', ''Israeli Flag'', ''Mask'', ''Grogger'',
     ''Royal Decree'', ''Bank Account'', ''Crown'', ''Florida'', ''Beit Hamikdash'',
     ''Costumes'', ''California'', ''Tax Refund'', ''Headset'', ''Depreciation'',
     ''Pennsylvania'', ''New York'', ''Olim'', ''Tax Treaty'', ''Palace'', ''Gallows'',
     ''Pencil'', ''Keyboard'', ''Horse'', ''Perfume'', ''Tzedaka'', ''Esther'', ''Wine'']"

type_synonym socketId = string

record player =
  name :: string
  score :: int

datatype room_state = Lobby | Playing | BetweenRounds | Finished | Championship

text \<open>
  The room object. \<open>timer\<close> tells whether the interval the field refers to is live;
  \<open>hintInterval\<close> is \<open>None\<close> when that interval is not live and otherwise holds the two
  variables its callback closes over, \<open>drawerId\<close> and \<open>hintTimes\<close>. \<open>drawingData\<close> (the
  relayed strokes) is left out: no decision of the server reads it.
\<close>

record room =
  code :: string
  hostId :: socketId
  players :: "(socketId \<times> player) list"
  state :: room_state
  currentDrawerIndex :: int
  currentWord :: string
  roundNumber :: int
  totalRounds :: rat
  timePerTurn :: rat
  timer :: bool
  timeRemaining :: rat
  usedWords :: "string list"
  correctGuessers :: "socketId list"
  turnActive :: bool
  playerOrder :: "socketId list"
  isChampionship :: bool
  spectators :: "(socketId \<times> string) list"
  hintsRevealed :: int
  hintInterval :: "(socketId option \<times> int list) option"

text \<open>
  What a handler sends and schedules. \<open>ToRoom c\<close> is \<open>io.to(c)\<close>, \<open>ToSpectators c\<close> is
  \<open>io.to(c + '_spectators')\<close>, \<open>ToSocket i\<close> is \<open>io.to(i)\<close> or \<open>socket.emit\<close>. The
  \<open>players\<close> snapshot that most messages carry is left out of the payloads.
  \<open>SetTimeout cb ms\<close> is a pending \<open>setTimeout\<close>: \<open>FirstTurn\<close> is the callback of
  \<open>start_game\<close> (line 442), \<open>NextTurn\<close> the one of \<open>endTurn\<close> (lines 226-230).
\<close>

datatype target = ToRoom string | ToSpectators string | ToSocket socketId

datatype message =
    RoomCreated string
  | RoomJoined string
  | JoinedAsSpectator string room_state
  | PlayerJoined string
  | SpectatorJoined string
  | ErrorMessage string
  | GameStarted rat
  | TurnStart socketId string int rat rat
  | YourWord string
  | TimerUpdate rat
  | HintUpdate string
  | CorrectGuess socketId int int
  | YouGuessedCorrectly string
  | ChatMessage socketId string bool
  | TurnEnd string bool int rat
  | GameOver "socketId option" bool
  | PlayerLeft string
  | SpectatorLeft
  | NewHost socketId

datatype callback = FirstTurn | NextTurn

datatype effect = Emit target message | SetTimeout callback nat

text \<open>The state of one connection: the variables of the \<open>io.on('connection')\<close> closure.\<close>

record socket =
  socket_id :: socketId
  currentRoom :: "string option"
  isSpectator :: bool

type_synonym rooms = "string \<rightharpoonup> room"

section \<open>Room operations (server.js, lines 30-325)\<close>

text \<open>\<open>rnd i\<close> is the value of \<open>Math.random()\<close> in the iteration with loop index \<open>i\<close>.\<close>

definition generateRoomCode :: "(nat \<Rightarrow> rat) \<Rightarrow> string" where
  "generateRoomCode rnd =
     map (\<lambda>i. randomElement (rnd i) ''ABCDEFGHJKLMNPQRSTUVWXYZ23456789'') [0..<4]"

definition createRoom ::
  "(nat \<Rightarrow> rat) \<Rightarrow> socketId \<Rightarrow> string \<Rightarrow> rat option \<Rightarrow> rat option \<Rightarrow> bool \<Rightarrow> rooms \<Rightarrow> room \<times> rooms"
where
  "createRoom rnd host hostName settingsTotalRounds settingsTimePerTurn settingsIsChampionship rs =
     (let c = generateRoomCode rnd;
          r = \<lparr> code = c, hostId = host, players = [], state = Lobby,
                currentDrawerIndex = - 1, currentWord = [], roundNumber = 0,
                totalRounds = orDefault settingsTotalRounds 10,
                timePerTurn = orDefault settingsTimePerTurn 40,
                timer = False, timeRemaining = 0, usedWords = [], correctGuessers = [],
                turnActive = False, playerOrder = [],
                isChampionship = settingsIsChampionship, spectators = [],
                hintsRevealed = 0, hintInterval = None \<rparr>
      in (r, rs(c \<mapsto> r)))"

definition getRandomWord :: "rat \<Rightarrow> room \<Rightarrow> string \<times> room" where
  "getRandomWord u r =
     (let available = filter (\<lambda>w. w \<notin> set (usedWords r)) WORD_LIST
      in if length available = 0 then (randomElement u WORD_LIST, r\<lparr>usedWords := []\<rparr>)
         else let word = randomElement u available
              in (word, r\<lparr>usedWords := Set_add word (usedWords r)\<rparr>))"

text \<open>The list \<open>getPlayerList\<close> returns, without the \<open>isHost\<close> and \<open>isDrawing\<close> flags.\<close>

definition getPlayerList :: "room \<Rightarrow> (socketId \<times> player) list" where
  "getPlayerList r = sort_key (\<lambda>e. - score (snd e)) (players r)"

definition generateHint :: "string \<Rightarrow> int \<Rightarrow> string" where
  "generateHint word revealCount =
     join '' ''
       (map (\<lambda>(ch, i). if ch = CHR '' '' then ''  '' else if int i < revealCount then [ch] else ''_'')
            (zip word [0..<length word]))"

text \<open>\<open>room.playerOrder[room.currentDrawerIndex]\<close>.\<close>

definition currentDrawer :: "room \<Rightarrow> socketId option" where
  "currentDrawer r = at_index (playerOrder r) (currentDrawerIndex r)"

definition endGame :: "room \<Rightarrow> room \<times> effect list" where
  "endGame r =
     (let r1 = r\<lparr>state := Finished, timer := False, hintInterval := None\<rparr>;
          ps = getPlayerList r1;
          winner = (case ps of [] \<Rightarrow> None | p # _ \<Rightarrow> Some (fst p))
      in (r1, [Emit (ToRoom (code r1)) (GameOver winner (isChampionship r1)),
               Emit (ToSpectators (code r1)) (GameOver winner (isChampionship r1))]))"

definition endTurn :: "room \<Rightarrow> bool \<Rightarrow> room \<times> effect list" where
  "endTurn r wasGuessed =
     (let r1 = r\<lparr>turnActive := False, timer := False, hintInterval := None\<rparr>;
          drawerId = currentDrawer r1;
          nonDrawerCount = length (filter (\<lambda>i. Some i \<noteq> drawerId) (Map_keys (players r1)));
          allGuessed = (nonDrawerCount \<le> length (correctGuessers r1))
      in (r1, [Emit (ToRoom (code r1))
                 (TurnEnd (currentWord r1) wasGuessed (roundNumber r1) (totalRounds r1)),
               Emit (ToSpectators (code r1))
                 (TurnEnd (currentWord r1) wasGuessed (roundNumber r1) (totalRounds r1)),
               SetTimeout NextTurn (if allGuessed \<or> \<not> wasGuessed then 3000 else 5000)]))"

text \<open>
  The reveal thresholds of a turn (lines 176-179), \<open>tpt\<close> the room's \<open>timePerTurn\<close>, and the
  number of tiers due (line 184).
\<close>

definition wordLen :: "string \<Rightarrow> nat" where
  "wordLen word = length (filter (\<lambda>c. c \<noteq> CHR '' '') word)"

definition hintTimes :: "string \<Rightarrow> rat \<Rightarrow> int list" where
  "hintTimes word tpt =
     (if 3 < wordLen word then [\<lfloor>js_mul tpt (js_literal (5 / 10))\<rfloor>] else []) @
     (if 5 < wordLen word then [\<lfloor>js_mul tpt (js_literal (25 / 100))\<rfloor>] else [])"

definition shouldReveal :: "int list \<Rightarrow> rat \<Rightarrow> rat \<Rightarrow> int" where
  "shouldReveal hts tpt elapsed =
     int (length (filter (\<lambda>t. js_sub tpt (of_int t) \<le> elapsed) hts))"

text \<open>
  \<open>startTurn\<close>; \<open>u\<close> is the value of \<open>Math.random()\<close> in \<open>getRandomWord\<close>. Each recursive
  call has a larger \<open>roundNumber\<close>, and none is made beyond \<open>totalRounds\<close>.
\<close>

function startTurn :: "rat \<Rightarrow> room \<Rightarrow> room \<times> effect list" where
  "startTurn u r =
     (let i = currentDrawerIndex r + 1;
          r1 = r\<lparr>currentDrawerIndex := (if int (length (playerOrder r)) \<le> i then 0 else i),
                  roundNumber := roundNumber r + 1\<rparr>
      in if totalRounds r1 < of_int (roundNumber r1) then endGame r1
         else
           (case (currentDrawer r1, Map_get (players r1) (currentDrawer r1)) of
              (Some drawerId, Some drawer) \<Rightarrow>
                (let (word, r2) = getRandomWord u r1;
                     r3 = r2\<lparr>currentWord := word, correctGuessers := [], turnActive := True,
                             timeRemaining := timePerTurn r2, hintsRevealed := 0,
                             state := Playing\<rparr>;
                     hint = generateHint (currentWord r3) 0;
                     r4 = r3\<lparr>timer := True,
                             hintInterval :=
                               Some (Some drawerId, hintTimes (currentWord r3) (timePerTurn r3))\<rparr>
                 in (r4, [Emit (ToRoom (code r4))
                            (TurnStart drawerId hint (roundNumber r4) (totalRounds r4) (timeRemaining r4)),
                          Emit (ToSocket drawerId) (YourWord (currentWord r4)),
                          Emit (ToSpectators (code r4))
                            (TurnStart drawerId hint (roundNumber r4) (totalRounds r4) (timeRemaining r4))]))
            | _ \<Rightarrow> (if of_int (roundNumber r1) \<le> totalRounds r1 then startTurn u r1 else (r1, []))))"
  by pat_completeness auto
termination
  by (relation "measure (\<lambda>(u, r). nat (\<lfloor>totalRounds r\<rfloor> - roundNumber r))")
     (auto simp: less_floor_iff)

declare startTurn.simps [simp del]

text \<open>The countdown callback (lines 164-173), run once a second while \<open>timer\<close> is live.\<close>

definition timerTick :: "room \<Rightarrow> room \<times> effect list" where
  "timerTick r =
     (let r1 = r\<lparr>timeRemaining := js_sub (timeRemaining r) 1\<rparr>;
          es = [Emit (ToRoom (code r1)) (TimerUpdate (timeRemaining r1)),
                Emit (ToSpectators (code r1)) (TimerUpdate (timeRemaining r1))]
      in if timeRemaining r1 \<le> 0
         then (let (r2, es2) = endTurn r1 False in (r2, es @ es2))
         else (r1, es))"

text \<open>The hint callback (lines 181-196), run once a second while \<open>hintInterval\<close> is live.\<close>

definition hintTick :: "room \<Rightarrow> room \<times> effect list" where
  "hintTick r =
     (case hintInterval r of
        None \<Rightarrow> (r, [])
      | Some (drawerId, hts) \<Rightarrow>
          if \<not> turnActive r then (r, [])
          else
            (let elapsed = js_sub (timePerTurn r) (timeRemaining r);
                 n = shouldReveal hts (timePerTurn r) elapsed
             in if hintsRevealed r < n
                then (let r1 = r\<lparr>hintsRevealed := n\<rparr>;
                          hint = generateHint (currentWord r1) (hintsRevealed r1)
                      in (r1,
                          map (\<lambda>i. Emit (ToSocket i) (HintUpdate hint))
                            (filter (\<lambda>i. Some i \<noteq> drawerId \<and> i \<notin> set (correctGuessers r1))
                               (Map_keys (players r1)))
                          @ [Emit (ToSpectators (code r1)) (HintUpdate hint)]))
                else (r, [])))"

text \<open>The two \<open>setTimeout\<close> callbacks.\<close>

definition firstTurnCallback :: "rat \<Rightarrow> room \<Rightarrow> room \<times> effect list" where
  "firstTurnCallback u r = startTurn u r"

definition nextTurnCallback :: "rat \<Rightarrow> room \<Rightarrow> room \<times> effect list" where
  "nextTurnCallback u r =
     (if state r \<noteq> Finished \<and> state r \<noteq> Lobby then startTurn u r else (r, []))"

text \<open>\<open>p.score += n\<close> on the entry of \<open>k\<close>.\<close>

definition addScore :: "socketId \<Rightarrow> int \<Rightarrow> (socketId \<times> player) list \<Rightarrow> (socketId \<times> player) list" where
  "addScore k n m = map (\<lambda>e. if fst e = k then (fst e, (snd e)\<lparr>score := score (snd e) + n\<rparr>) else e) m"

text \<open>The score of a correct guess (lines 271-275).\<close>

definition orderBonus :: "int \<Rightarrow> rat" where
  "orderBonus guessOrder = max 0 (js_sub 1 (js_mul (of_int (guessOrder - 1)) (js_literal (15 / 100))))"

definition guesserPoints :: "rat \<Rightarrow> int \<Rightarrow> int" where
  "guesserPoints timeRatio guessOrder =
     Math_round (js_mul (js_add 200 (js_mul 300 timeRatio)) (orderBonus guessOrder))"

definition drawerPoints :: "rat \<Rightarrow> int" where
  "drawerPoints timeRatio = Math_round (js_add 50 (js_mul 100 timeRatio))"

definition handleGuess :: "room \<Rightarrow> socketId \<Rightarrow> string \<Rightarrow> room \<times> effect list" where
  "handleGuess r playerId guess =
     (if \<not> turnActive r then (r, [])
      else
        let drawerId = currentDrawer r
        in if Some playerId = drawerId then (r, [])
           else if playerId \<in> set (correctGuessers r) then (r, [])
           else
             (case Map_get (players r) (Some playerId) of
                None \<Rightarrow> (r, [])
              | Some p \<Rightarrow>
                  let normalizedGuess = toLowerCase (trim guess);
                      normalizedWord = toLowerCase (trim (currentWord r))
                  in if normalizedGuess = normalizedWord
                     then
                       (let r1 = r\<lparr>correctGuessers := Set_add playerId (correctGuessers r)\<rparr>;
                            timeRatio = js_div (timeRemaining r1) (timePerTurn r1);
                            guessOrder = int (length (correctGuessers r1));
                            gp = guesserPoints timeRatio guessOrder;
                            dp = drawerPoints timeRatio;
                            r2 = r1\<lparr>players := addScore playerId gp (players r1)\<rparr>;
                            r3 = (case (drawerId, Map_get (players r2) drawerId) of
                                    (Some d, Some drawer) \<Rightarrow> r2\<lparr>players := addScore d dp (players r2)\<rparr>
                                  | _ \<Rightarrow> r2);
                            es = [Emit (ToRoom (code r3)) (CorrectGuess playerId gp dp),
                                  Emit (ToSpectators (code r3)) (CorrectGuess playerId gp dp),
                                  Emit (ToSocket playerId) (YouGuessedCorrectly (currentWord r3))];
                            nonDrawerCount =
                              length (filter (\<lambda>i. Some i \<noteq> drawerId) (Map_keys (players r3)))
                        in if nonDrawerCount \<le> length (correctGuessers r3)
                           then (let (r4, es4) = endTurn r3 True in (r4, es @ es4))
                           else (r3, es))
                     else
                       (let isClose =
                              ((str_includes normalizedWord normalizedGuess \<and> 3 \<le> length normalizedGuess)
                               \<or> str_includes normalizedGuess normalizedWord)
                        in (r, [Emit (ToRoom (code r))
                                  (ChatMessage playerId guess (isClose \<and> normalizedGuess \<noteq> normalizedWord)),
                                Emit (ToSpectators (code r))
                                  (ChatMessage playerId guess (isClose \<and> normalizedGuess \<noteq> normalizedWord))]))))"

section \<open>Socket event handlers (server.js, lines 328-530)\<close>

text \<open>
  A handler takes the connection's variables and the room registry and returns both,
  updated, with what it emitted and scheduled. A room object is shared between the
  registry and the callbacks that hold it; the model keeps the one copy in the registry.
\<close>

definition create_room ::
  "(nat \<Rightarrow> rat) \<Rightarrow> socket \<Rightarrow> string \<Rightarrow> rat option \<Rightarrow> rat option \<Rightarrow> bool \<Rightarrow> rooms
     \<Rightarrow> socket \<times> rooms \<times> effect list"
where
  "create_room rnd sock playerName reqTotalRounds reqTimePerTurn reqIsChampionship rs =
     (let (r, rs1) = createRoom rnd (socket_id sock) playerName
                       (Some (orDefault reqTotalRounds 10)) (Some (orDefault reqTimePerTurn 40))
                       reqIsChampionship rs;
          r1 = r\<lparr>players := Map_set (socket_id sock) \<lparr>name = playerName, score = 0\<rparr> (players r)\<rparr>
      in (sock\<lparr>currentRoom := Some (code r1)\<rparr>, rs1(code r1 \<mapsto> r1),
          [Emit (ToSocket (socket_id sock)) (RoomCreated (code r1))]))"

text \<open>
  \<open>join_room\<close>. A code with a code unit above 255 is the code of no room: the codes of
  the registry are made by \<open>generateRoomCode\<close>.
\<close>

definition join_room ::
  "socket \<Rightarrow> string \<Rightarrow> string \<Rightarrow> bool \<Rightarrow> rooms \<Rightarrow> socket \<times> rooms \<times> effect list"
where
  "join_room sock roomCode playerName asSpectator rs =
     (let notFound = (sock, rs, [Emit (ToSocket (socket_id sock))
                                   (ErrorMessage ''Room not found! Check the code and try again.'')])
      in case toUpperCase roomCode of
           None \<Rightarrow> notFound
         | Some c \<Rightarrow>
             (case rs c of
                None \<Rightarrow> notFound
              | Some r \<Rightarrow>
                  if asSpectator
                  then (let r1 = r\<lparr>spectators := Map_set (socket_id sock) playerName (spectators r)\<rparr>
                        in (sock\<lparr>currentRoom := Some c, isSpectator := True\<rparr>, rs(c \<mapsto> r1),
                            [Emit (ToSocket (socket_id sock)) (JoinedAsSpectator c (state r1)),
                             Emit (ToRoom c) (SpectatorJoined playerName)]))
                  else if state r \<noteq> Lobby
                  then (sock, rs, [Emit (ToSocket (socket_id sock))
                                     (ErrorMessage ''Game already in progress! You can join as a spectator.'')])
                  else if 10 \<le> length (players r)
                  then (sock, rs, [Emit (ToSocket (socket_id sock))
                                     (ErrorMessage ''Room is full! (max 10 players)'')])
                  else (let r1 = r\<lparr>players := Map_set (socket_id sock) \<lparr>name = playerName, score = 0\<rparr>
                                                  (players r)\<rparr>
                        in (sock\<lparr>currentRoom := Some c\<rparr>, rs(c \<mapsto> r1),
                            [Emit (ToSocket (socket_id sock)) (RoomJoined c),
                             Emit (ToRoom c) (PlayerJoined playerName)]))))"

text \<open>
  The Fisher-Yates loop of \<open>start_game\<close> (lines 424-427), from index \<open>i\<close> down to 1;
  \<open>rnd i\<close> is the value of \<open>Math.random()\<close> in the iteration with index \<open>i\<close>.
\<close>

fun shuffle_from :: "(nat \<Rightarrow> rat) \<Rightarrow> nat \<Rightarrow> 'a list \<Rightarrow> 'a list" where
  "shuffle_from rnd 0 xs = xs"
| "shuffle_from rnd (Suc i) xs =
     (let j = randomIndex (rnd (Suc i)) (Suc i + 1)
      in shuffle_from rnd i (xs[Suc i := xs ! j, j := xs ! Suc i]))"

definition shuffle :: "(nat \<Rightarrow> rat) \<Rightarrow> 'a list \<Rightarrow> 'a list" where
  "shuffle rnd xs = shuffle_from rnd (length xs - 1) xs"

text \<open>
  The payload of \<open>start_game\<close>. \<open>parseInt\<close> is the JavaScript builtin; the handler takes
  it as a parameter, its result \<open>None\<close> for \<open>NaN\<close> and \<open>Some n\<close> for the integer \<open>n\<close>.
  \<open>clampSetting parseInt v d lo hi\<close> is \<open>Math.min(Math.max(parseInt(v) || d, lo), hi)\<close>.
\<close>

record start_settings =
  settingsTotalRounds :: jsval
  settingsTimePerTurn :: jsval
  settingsIsChampionship :: jsval

definition clampSetting :: "(jsval \<Rightarrow> int option) \<Rightarrow> jsval \<Rightarrow> int \<Rightarrow> int \<Rightarrow> int \<Rightarrow> int" where
  "clampSetting parseInt v d lo hi =
     min (max (case parseInt v of None \<Rightarrow> d | Some n \<Rightarrow> if n = 0 then d else n) lo) hi"

text \<open>
  Lines 415-419 of \<open>start_game\<close>; \<open>settings\<close> is \<open>None\<close> when the request carries none.
\<close>

definition applySettings :: "(jsval \<Rightarrow> int option) \<Rightarrow> start_settings option \<Rightarrow> room \<Rightarrow> room" where
  "applySettings parseInt settings r =
     (case settings of
        None \<Rightarrow> r
      | Some s \<Rightarrow>
          (let r1 = (if truthy (settingsTotalRounds s)
                     then r\<lparr>totalRounds := of_int (clampSetting parseInt (settingsTotalRounds s) 10 3 30)\<rparr>
                     else r);
               r2 = (if truthy (settingsTimePerTurn s)
                     then r1\<lparr>timePerTurn := of_int (clampSetting parseInt (settingsTimePerTurn s) 40 15 90)\<rparr>
                     else r1)
           in if settingsIsChampionship s \<noteq> JUndefined
              then r2\<lparr>isChampionship := truthy (settingsIsChampionship s)\<rparr>
              else r2))"

definition start_game ::
  "(jsval \<Rightarrow> int option) \<Rightarrow> (nat \<Rightarrow> rat) \<Rightarrow> socket \<Rightarrow> start_settings option \<Rightarrow> rooms
     \<Rightarrow> rooms \<times> effect list"
where
  "start_game parseInt rnd sock settings rs =
     (case currentRoom sock of
        None \<Rightarrow> (rs, [])
      | Some c \<Rightarrow>
          (case rs c of
             None \<Rightarrow> (rs, [])
           | Some r \<Rightarrow>
               if socket_id sock \<noteq> hostId r then (rs, [])
               else if length (players r) < 2
               then (rs, [Emit (ToSocket (socket_id sock))
                            (ErrorMessage ''Need at least 2 players to start!'')])
               else
                 (let r1 = applySettings parseInt settings r;
                      r2 = r1\<lparr>state := Playing,
                              playerOrder := shuffle rnd (Map_keys (players r1)),
                              currentDrawerIndex := - 1, roundNumber := 0\<rparr>
                  in (rs(c \<mapsto> r2),
                      [Emit (ToRoom (code r2)) (GameStarted (totalRounds r2)),
                       Emit (ToSpectators (code r2)) (GameStarted (totalRounds r2)),
                       SetTimeout FirstTurn 2000]))))"

definition guess_event :: "socket \<Rightarrow> string \<Rightarrow> rooms \<Rightarrow> rooms \<times> effect list" where
  "guess_event sock msg rs =
     (case currentRoom sock of
        None \<Rightarrow> (rs, [])
      | Some c \<Rightarrow>
          (case rs c of
             None \<Rightarrow> (rs, [])
           | Some r \<Rightarrow> (let (r1, es) = handleGuess r (socket_id sock) msg in (rs(c \<mapsto> r1), es))))"

definition skip_word :: "socket \<Rightarrow> rooms \<Rightarrow> rooms \<times> effect list" where
  "skip_word sock rs =
     (case currentRoom sock of
        None \<Rightarrow> (rs, [])
      | Some c \<Rightarrow>
          (case rs c of
             None \<Rightarrow> (rs, [])
           | Some r \<Rightarrow>
               if \<not> turnActive r then (rs, [])
               else if Some (socket_id sock) \<noteq> currentDrawer r then (rs, [])
               else (let (r1, es) = endTurn r False in (rs(c \<mapsto> r1), es))))"

text \<open>
  The part of the \<open>disconnect\<close> handler that works on the room of a departing player
  (lines 498-527). The third component tells whether the room was removed from the
  registry (line 520).
\<close>

definition playerLeaves :: "socketId \<Rightarrow> player \<Rightarrow> room \<Rightarrow> room \<times> effect list \<times> bool" where
  "playerLeaves sid p r =
     (let r1 = r\<lparr>players := Map_delete sid (players r),
                  playerOrder := filter (\<lambda>i. i \<noteq> sid) (playerOrder r)\<rparr>;
          es1 = [Emit (ToRoom (code r1)) (PlayerLeft (name p))];
          (r2, es2) = (if turnActive r1 \<and> currentDrawer r1 = Some sid
                       then endTurn r1 False else (r1, []));
          (r3, es3) = (if state r2 = Playing \<and> length (players r2) < 2
                       then endGame r2 else (r2, []));
          empty = (length (players r3) = 0 \<and> length (spectators r3) = 0);
          r4 = (if empty then r3\<lparr>timer := False, hintInterval := None\<rparr> else r3);
          (r5, es5) = (if sid = hostId r4 \<and> 0 < length (players r4)
                       then (let r' = r4\<lparr>hostId := fst (hd (players r4))\<rparr>
                             in (r', [Emit (ToRoom (code r')) (NewHost (hostId r'))]))
                       else (r4, []))
      in (r5, es1 @ es2 @ es3 @ es5, empty))"

definition disconnect :: "socket \<Rightarrow> rooms \<Rightarrow> rooms \<times> effect list" where
  "disconnect sock rs =
     (case currentRoom sock of
        None \<Rightarrow> (rs, [])
      | Some c \<Rightarrow>
          (case rs c of
             None \<Rightarrow> (rs, [])
           | Some r \<Rightarrow>
               if isSpectator sock
               then (let r1 = r\<lparr>spectators := Map_delete (socket_id sock) (spectators r)\<rparr>
                     in (rs(c \<mapsto> r1), [Emit (ToRoom c) SpectatorLeft]))
               else
                 (case Map_get (players r) (Some (socket_id sock)) of
                    None \<Rightarrow> (rs, [])
                  | Some p \<Rightarrow>
                      (let (r1, es, deleted) = playerLeaves (socket_id sock) p r
                       in (if deleted then rs(c := None) else rs(c \<mapsto> r1), es)))))"

text \<open>A timer callback that holds the room registered under \<open>c\<close> runs on it.\<close>

definition onRoom :: "string \<Rightarrow> (room \<Rightarrow> room \<times> effect list) \<Rightarrow> rooms \<Rightarrow> rooms \<times> effect list" where
  "onRoom c f rs =
     (case rs c of None \<Rightarrow> (rs, []) | Some r \<Rightarrow> (let (r1, es) = f r in (rs(c \<mapsto> r1), es)))"

section \<open>Notions of the statements and proofs\<close>

subsection \<open>Values of \<open>Math.random()\<close>\<close>

text \<open>What \<open>Math.random()\<close> returns: a double that is at least 0 and less than 1.\<close>

definition randomValue :: "rat \<Rightarrow> bool" where
  "randomValue u = (fl u = u \<and> 0 \<le> u \<and> u < 1)"

subsection \<open>Successive word draws of a room\<close>

text \<open>The array \<open>available\<close> of \<open>getRandomWord\<close>: the catalog words not in the used set.\<close>

definition unusedWords :: "room \<Rightarrow> string list" where
  "unusedWords r = filter (\<lambda>w. w \<notin> set (usedWords r)) WORD_LIST"

text \<open>
  The words a room draws in its successive turns: one call of \<open>getRandomWord\<close> per
  turn, each on the room the previous call left, with \<open>us\<close> the values of
  \<open>Math.random()\<close> in order. No other code reads or writes \<open>usedWords\<close>.
\<close>

fun drawWords :: "rat list \<Rightarrow> room \<Rightarrow> string list" where
  "drawWords [] r = []"
| "drawWords (u # us) r = (let (w, r1) = getRandomWord u r in w # drawWords us r1)"

subsection \<open>Names for the parts of \<open>startTurn\<close>\<close>

text \<open>
  The room after lines 102-109 of \<open>startTurn\<close> (drawer index and round number advanced),
  and the room after lines 127-196 (the turn of drawer \<open>drawerId\<close> started). The proofs
  about \<open>startTurn\<close> go through these two.
\<close>

definition advanced :: "room \<Rightarrow> room" where
  "advanced r =
     r\<lparr>currentDrawerIndex :=
         (if int (length (playerOrder r)) \<le> currentDrawerIndex r + 1 then 0
          else currentDrawerIndex r + 1),
       roundNumber := roundNumber r + 1\<rparr>"

definition begun :: "rat \<Rightarrow> socketId \<Rightarrow> room \<Rightarrow> room" where
  "begun u drawerId r1 =
     (let (word, r2) = getRandomWord u r1
      in r2\<lparr>currentWord := word, correctGuessers := [], turnActive := True,
             timeRemaining := timePerTurn r2, hintsRevealed := 0, state := Playing,
             timer := True,
             hintInterval := Some (Some drawerId, hintTimes word (timePerTurn r2))\<rparr>)"

subsection \<open>An invariant of the correct guessers\<close>

text \<open>The invariant of \<open>correctGuessers\<close> that turn start and guess handling keep.\<close>

definition guessers_ok :: "room \<Rightarrow> bool" where
  "guessers_ok r =
     (distinct (correctGuessers r) \<and>
      (\<forall>i\<in>set (correctGuessers r). Some i \<noteq> currentDrawer r \<and> Map_get (players r) (Some i) \<noteq> None))"

subsection \<open>The formulas of the claims, over the rationals\<close>


text \<open>
  The points by the words of claim C2, \<open>round((200 + 300 t) * max(0, 1 - 0.15 (r - 1)))\<close>
  and \<open>round(50 + 100 t)\<close>, the arithmetic exact and \<open>round\<close> the nearest integer, a tie
  going up.
\<close>

definition claimedGuesserPoints :: "rat \<Rightarrow> int \<Rightarrow> int" where
  "claimedGuesserPoints t r = Math_round ((200 + 300 * t) * max 0 (1 - (15 / 100) * of_int (r - 1)))"

definition claimedDrawerPoints :: "rat \<Rightarrow> int" where
  "claimedDrawerPoints t = Math_round (50 + 100 * t)"

section \<open>Concrete rooms and event sequences of the examples\<close>

text \<open>The room \<open>createRoom\<close> makes for host \<open>A\<close> when every \<open>Math.random()\<close> is 0.\<close>

definition newRoom :: room where
  "newRoom = fst (createRoom (\<lambda>_. 0) ''A'' ''Ann'' None None False Map.empty)"

text \<open>
  A game of three players, from an empty registry: \<open>A\<close> creates the room (every
  \<open>Math.random()\<close> is 0, so its code is \<open>AAAA\<close>), \<open>B\<close> and \<open>C\<close> join, \<open>A\<close> starts the game
  without settings, and the callback of the grace delay starts the first turn.
  \<open>fresh i\<close> is a new connection, \<open>player_conn i\<close> the connection once it is in the room.
\<close>

definition fresh :: "socketId \<Rightarrow> socket" where
  "fresh i = \<lparr>socket_id = i, currentRoom = None, isSpectator = False\<rparr>"

definition player_conn :: "socketId \<Rightarrow> socket" where
  "player_conn i = \<lparr>socket_id = i, currentRoom = Some ''AAAA'', isSpectator = False\<rparr>"

definition rooms1 :: rooms where
  "rooms1 = fst (snd (create_room (\<lambda>_. 0) (fresh ''A'') ''Ann'' None None False Map.empty))"

definition rooms2 :: rooms where
  "rooms2 = fst (snd (join_room (fresh ''B'') ''aaaa'' ''Bob'' False rooms1))"

definition rooms3 :: rooms where
  "rooms3 = fst (snd (join_room (fresh ''C'') ''aaaa'' ''Cy'' False rooms2))"

definition rooms4 :: rooms where
  "rooms4 = fst (start_game (\<lambda>_. None) (\<lambda>_. 0) (player_conn ''A'') None rooms3)"

definition rooms5 :: rooms where
  "rooms5 = fst (onRoom ''AAAA'' (firstTurnCallback 0) rooms4)"

text \<open>The room of that game after \<open>start_game\<close> and after the first turn has started.\<close>

definition room4 :: room where
  "room4 = \<lparr>code = ''AAAA'', hostId = ''A'',
      players = [(''A'', \<lparr>name = ''Ann'', score = 0\<rparr>), (''B'', \<lparr>name = ''Bob'', score = 0\<rparr>),
                 (''C'', \<lparr>name = ''Cy'', score = 0\<rparr>)],
      state = Playing, currentDrawerIndex = - 1, currentWord = [], roundNumber = 0,
      totalRounds = 10, timePerTurn = 40, timer = False, timeRemaining = 0,
      usedWords = [], correctGuessers = [], turnActive = False,
      playerOrder = [''B'', ''C'', ''A''],
      isChampionship = False, spectators = [], hintsRevealed = 0, hintInterval = None\<rparr>"

definition room5 :: room where
  "room5 = \<lparr>code = ''AAAA'', hostId = ''A'',
      players = [(''A'', \<lparr>name = ''Ann'', score = 0\<rparr>), (''B'', \<lparr>name = ''Bob'', score = 0\<rparr>),
                 (''C'', \<lparr>name = ''Cy'', score = 0\<rparr>)],
      state = Playing, currentDrawerIndex = 0, currentWord = ''Queen'', roundNumber = 1,
      totalRounds = 10, timePerTurn = 40, timer = True, timeRemaining = 40,
      usedWords = [''Queen''], correctGuessers = [], turnActive = True,
      playerOrder = [''B'', ''C'', ''A''],
      isChampionship = False, spectators = [], hintsRevealed = 0,
      hintInterval = Some (Some ''B'', [20])\<rparr>"

text \<open>
  A room created with \<open>totalRounds = 100\<close> and \<open>timePerTurn = 5\<close>, joined by \<open>B\<close> and started
  by its host without settings. \<open>parseInt_of_100\<close> gives the one value of \<open>parseInt\<close> the
  examples use, \<open>parseInt(100) = 100\<close>.
\<close>

definition longRooms1 :: rooms where
  "longRooms1 =
     fst (snd (create_room (\<lambda>_. 0) (fresh ''A'') ''Ann'' (Some 100) (Some 5) False Map.empty))"

definition longRooms2 :: rooms where
  "longRooms2 = fst (snd (join_room (fresh ''B'') ''aaaa'' ''Bob'' False longRooms1))"

definition parseInt_of_100 :: "jsval \<Rightarrow> int option" where
  "parseInt_of_100 v = (if v = JNum 100 then Some 100 else None)"

definition longRoom2 :: room where
  "longRoom2 = \<lparr>code = ''AAAA'', hostId = ''A'',
      players = [(''A'', \<lparr>name = ''Ann'', score = 0\<rparr>), (''B'', \<lparr>name = ''Bob'', score = 0\<rparr>)],
      state = Lobby, currentDrawerIndex = - 1, currentWord = [], roundNumber = 0,
      totalRounds = 100, timePerTurn = 5, timer = False, timeRemaining = 0,
      usedWords = [], correctGuessers = [], turnActive = False, playerOrder = [],
      isChampionship = False, spectators = [], hintsRevealed = 0, hintInterval = None\<rparr>"

text \<open>
  Continuations of the three-player game from its first turn (word \<open>Queen\<close>, drawer \<open>B\<close>):
  the drawer disconnects; or \<open>C\<close> guesses the word and then the drawer disconnects; or \<open>A\<close>
  guesses the word and disconnects, and then \<open>C\<close> guesses the word.
\<close>

definition drawerGone :: "rooms \<times> effect list" where
  "drawerGone = disconnect (player_conn ''B'') rooms5"

definition guessedC :: rooms where
  "guessedC = fst (guess_event (player_conn ''C'') ''queen'' rooms5)"

definition guessedC_drawerGone :: rooms where
  "guessedC_drawerGone = fst (disconnect (player_conn ''B'') guessedC)"

definition guessedA :: rooms where
  "guessedA = fst (guess_event (player_conn ''A'') ''queen'' rooms5)"

definition guessedA_goneA :: rooms where
  "guessedA_goneA = fst (disconnect (player_conn ''A'') guessedA)"

definition guessedA_goneA_guessedC :: rooms where
  "guessedA_goneA_guessedC = fst (guess_event (player_conn ''C'') ''queen'' guessedA_goneA)"

text \<open>
  A game of two players: \<open>A\<close> creates the room, \<open>B\<close> joins, \<open>A\<close> starts the game, \<open>B\<close>
  disconnects during the grace delay, and then the callback of the grace delay runs.
\<close>

definition duo2 :: rooms where
  "duo2 = fst (snd (join_room (fresh ''B'') ''aaaa'' ''Bob'' False rooms1))"

definition duo3 :: "rooms \<times> effect list" where
  "duo3 = start_game (\<lambda>_. None) (\<lambda>_. 0) (player_conn ''A'') None duo2"

definition duo4 :: "rooms \<times> effect list" where
  "duo4 = disconnect (player_conn ''B'') (fst duo3)"

definition duo5 :: "rooms \<times> effect list" where
  "duo5 = onRoom ''AAAA'' (firstTurnCallback 0) (fst duo4)"

text \<open>
  A room with a spectator: \<open>A\<close> creates the room, \<open>S\<close> joins as a spectator, \<open>A\<close> disconnects,
  and then \<open>S\<close> disconnects.
\<close>

definition spectator_conn :: "socketId \<Rightarrow> socket" where
  "spectator_conn i = \<lparr>socket_id = i, currentRoom = Some ''AAAA'', isSpectator = True\<rparr>"

definition watched2 :: "socket \<times> rooms \<times> effect list" where
  "watched2 = join_room (fresh ''S'') ''aaaa'' ''Sam'' True rooms1"

definition watched3 :: "rooms \<times> effect list" where
  "watched3 = disconnect (player_conn ''A'') (fst (snd watched2))"

definition watched4 :: "rooms \<times> effect list" where
  "watched4 = disconnect (spectator_conn ''S'') (fst watched3)"

text \<open>
  One second of a turn of room \<open>AAAA\<close>: the countdown callback runs, then the hint callback
  (the countdown interval is the older of the two).
\<close>

definition second :: "rooms \<Rightarrow> rooms" where
  "second rs = fst (onRoom ''AAAA'' hintTick (fst (onRoom ''AAAA'' timerTick rs)))"

text \<open>
  A game of four players with the default settings: \<open>D\<close> joins the room of \<open>A\<close>, \<open>B\<close> and \<open>C\<close>
  before the start; the first turn starts (drawer \<open>B\<close>, word \<open>Queen\<close>), 18 seconds pass, and
  then \<open>A\<close>, \<open>C\<close> and \<open>D\<close> guess the word, in this order. \<open>quadRoom t\<close> is the room during that
  turn with \<open>t\<close> seconds left, before the guesses.
\<close>

definition quadRooms1 :: rooms where
  "quadRooms1 = fst (snd (join_room (fresh ''D'') ''aaaa'' ''Dee'' False rooms3))"

definition quadRooms2 :: rooms where
  "quadRooms2 = fst (start_game (\<lambda>_. None) (\<lambda>_. 0) (player_conn ''A'') None quadRooms1)"

definition quadRooms3 :: rooms where
  "quadRooms3 = fst (onRoom ''AAAA'' (firstTurnCallback 0) quadRooms2)"

definition quadRooms4 :: rooms where
  "quadRooms4 = (second ^^ 18) quadRooms3"

definition quadGuessA :: "rooms \<times> effect list" where
  "quadGuessA = guess_event (player_conn ''A'') ''queen'' quadRooms4"

definition quadGuessC :: "rooms \<times> effect list" where
  "quadGuessC = guess_event (player_conn ''C'') ''queen'' (fst quadGuessA)"

definition quadGuessD :: "rooms \<times> effect list" where
  "quadGuessD = guess_event (player_conn ''D'') ''queen'' (fst quadGuessC)"

definition quadRoom :: "rat \<Rightarrow> room" where
  "quadRoom t =
     \<lparr>code = ''AAAA'', hostId = ''A'',
      players = [(''A'', \<lparr>name = ''Ann'', score = 0\<rparr>), (''B'', \<lparr>name = ''Bob'', score = 0\<rparr>),
                 (''C'', \<lparr>name = ''Cy'', score = 0\<rparr>), (''D'', \<lparr>name = ''Dee'', score = 0\<rparr>)],
      state = Playing, currentDrawerIndex = 0, currentWord = ''Queen'', roundNumber = 1,
      totalRounds = 10, timePerTurn = 40, timer = True, timeRemaining = t,
      usedWords = [''Queen''], correctGuessers = [], turnActive = True,
      playerOrder = [''B'', ''C'', ''D'', ''A''], isChampionship = False, spectators = [],
      hintsRevealed = 0, hintInterval = Some (Some ''B'', [20])\<rparr>"






text \<open>
  Two games in one room. \<open>A\<close> creates a room with \<open>totalRounds = 50\<close>, \<open>B\<close> joins and \<open>A\<close>
  starts the game. Every \<open>Math.random()\<close> is 0, and every turn is skipped by its drawer
  (\<open>skippedTurn cb d\<close>: the callback \<open>cb\<close> starts the turn and the drawer \<open>d\<close> sends
  \<open>skip_word\<close>). After the 50 turns the next callback ends the game. Then \<open>A\<close> sends
  \<open>start_game\<close> again, the first turn of the new game starts and is skipped by its drawer
  \<open>B\<close>, and the second turn starts with \<open>Math.random() = 255/256\<close>. \<open>marathonRoom k i\<close> is the
  room of the first game after its \<open>k\<close>-th turn, with drawer index \<open>i\<close>.
\<close>

definition marathon1 :: rooms where
  "marathon1 =
     fst (snd (create_room (\<lambda>_. 0) (fresh ''A'') ''Ann'' (Some 50) None False Map.empty))"

definition marathon2 :: rooms where
  "marathon2 = fst (snd (join_room (fresh ''B'') ''aaaa'' ''Bob'' False marathon1))"

definition marathon3 :: rooms where
  "marathon3 = fst (start_game (\<lambda>_. None) (\<lambda>_. 0) (player_conn ''A'') None marathon2)"

definition skippedTurn :: "(room \<Rightarrow> room \<times> effect list) \<Rightarrow> socketId \<Rightarrow> rooms \<Rightarrow> rooms" where
  "skippedTurn cb drawer rs = fst (skip_word (player_conn drawer) (fst (onRoom ''AAAA'' cb rs)))"

definition twoTurns :: "rooms \<Rightarrow> rooms" where
  "twoTurns rs =
     skippedTurn (nextTurnCallback 0) ''A'' (skippedTurn (nextTurnCallback 0) ''B'' rs)"

definition marathon50 :: rooms where
  "marathon50 =
     (twoTurns ^^ 24)
       (skippedTurn (nextTurnCallback 0) ''A'' (skippedTurn (firstTurnCallback 0) ''B'' marathon3))"

definition marathonOver :: "rooms \<times> effect list" where
  "marathonOver = onRoom ''AAAA'' (nextTurnCallback 0) marathon50"

definition rematch :: "rooms \<times> effect list" where
  "rematch = start_game (\<lambda>_. None) (\<lambda>_. 0) (player_conn ''A'') None (fst marathonOver)"

definition rematchTurn1 :: "rooms \<times> effect list" where
  "rematchTurn1 = onRoom ''AAAA'' (firstTurnCallback 0) (fst rematch)"

definition rematchTurn2 :: "rooms \<times> effect list" where
  "rematchTurn2 =
     onRoom ''AAAA'' (nextTurnCallback (255 / 256))
       (fst (skip_word (player_conn ''B'') (fst rematchTurn1)))"

definition marathonRoom :: "nat \<Rightarrow> int \<Rightarrow> room" where
  "marathonRoom k idx =
     \<lparr>code = ''AAAA'', hostId = ''A'',
      players = [(''A'', \<lparr>name = ''Ann'', score = 0\<rparr>), (''B'', \<lparr>name = ''Bob'', score = 0\<rparr>)],
      state = Playing, currentDrawerIndex = idx, currentWord = WORD_LIST ! (k - 1),
      roundNumber = int k, totalRounds = 50, timePerTurn = 40, timer = False,
      timeRemaining = 40, usedWords = take k WORD_LIST, correctGuessers = [],
      turnActive = False, playerOrder = [''B'', ''A''], isChampionship = False,
      spectators = [], hintsRevealed = 0, hintInterval = None\<rparr>"

section \<open>Verified properties\<close>

subsection \<open>Double arithmetic\<close>

lemma floor_numeral_div: "\<lfloor>(numeral a / numeral b :: rat)\<rfloor> = numeral a div numeral b"
  using floor_divide_of_int_eq [of "numeral a" "numeral b", where ?'a = rat] by simp

lemmas fl_eval =
  fl_def exponent_def lg_dn.simps lg_up.simps roundTiesToEven_def Let_def floor_numeral_div

lemmas js_eval =
  js_add_def js_sub_def js_mul_def js_div_def js_literal_def Math_round_def

lemma lg_up_lower: "1 \<le> a \<Longrightarrow> 2 ^ lg_up a \<le> a"
proof (induction a rule: lg_up.induct)
  case (1 a)
  show ?case
  proof (cases "2 \<le> a")
    case True
    then have "2 ^ lg_up (a / 2) \<le> a / 2" using "1.IH" by simp
    then show ?thesis using True by (subst lg_up.simps) simp
  next
    case False
    then show ?thesis using "1.prems" by (subst lg_up.simps) simp
  qed
qed

lemma lg_dn_lower: "0 < a \<Longrightarrow> a < 1 \<Longrightarrow> 1 \<le> a * 2 ^ lg_dn a"
proof (induction a rule: lg_dn.induct)
  case (1 a)
  have step: "lg_dn a = Suc (lg_dn (a * 2))" using "1.prems" by (subst lg_dn.simps) simp
  show ?case
  proof (cases "a * 2 < 1")
    case True
    then have "1 \<le> a * 2 * 2 ^ lg_dn (a * 2)" using "1.IH" "1.prems" by simp
    then show ?thesis by (simp add: step mult.assoc)
  next
    case False
    then have "lg_dn (a * 2) = 0" by (subst lg_dn.simps) simp
    then show ?thesis using False by (simp add: step)
  qed
qed

lemma exponent_lower:
  assumes "0 < a"
  shows "2 powi (exponent a) \<le> a"
proof (cases "1 \<le> a")
  case True
  then show ?thesis using lg_up_lower [OF True] by (simp add: exponent_def)
next
  case False
  then have "1 \<le> a * 2 ^ lg_dn a" using assms lg_dn_lower by simp
  then have "1 / 2 ^ lg_dn a \<le> a" by (simp add: pos_divide_le_eq)
  then show ?thesis using False by (simp add: exponent_def power_int_minus_divide)
qed

text \<open>The scale of a positive rational below \<open>2^53\<close>: a power of two, at least 1.\<close>

lemma scale_props:
  assumes "0 < a" and "a < 2 ^ 53"
  shows "(2::rat) powi (52 - exponent a) = of_int (2 ^ nat (52 - exponent a))"
    and "2 ^ 52 \<le> a * 2 powi (52 - exponent a)"
proof -
  have low: "2 powi (exponent a) \<le> a" by (rule exponent_lower [OF assms(1)])
  have e: "exponent a \<le> 52"
  proof (rule ccontr)
    assume "\<not> exponent a \<le> 52"
    then have "(53::int) \<le> exponent a" by simp
    then have "(2::rat) powi 53 \<le> 2 powi (exponent a)" by (rule power_int_increasing) simp
    then have "(2::rat) ^ 53 \<le> a" using low by simp
    then show False using assms(2) by simp
  qed
  then have "52 - exponent a = int (nat (52 - exponent a))" by simp
  then have "(2::rat) powi (52 - exponent a) = 2 ^ nat (52 - exponent a)"
    by (metis power_int_of_nat)
  then show "(2::rat) powi (52 - exponent a) = of_int (2 ^ nat (52 - exponent a))" by simp
  have "(2::rat) powi (exponent a + (52 - exponent a)) = 2 powi (exponent a) * 2 powi (52 - exponent a)"
    by (rule power_int_add) simp
  moreover have "exponent a + (52 - exponent a) = 52" by simp
  ultimately have "(2::rat) powi 52 = 2 powi (exponent a) * 2 powi (52 - exponent a)" by (simp only:)
  moreover have "2 powi (exponent a) * 2 powi (52 - exponent a) \<le> a * 2 powi (52 - exponent a)"
    using low by (intro mult_right_mono) simp_all
  ultimately show "2 ^ 52 \<le> a * 2 powi (52 - exponent a)" by simp
qed

lemma roundTiesToEven_ge_floor: "\<lfloor>m\<rfloor> \<le> roundTiesToEven m"
  by (simp add: roundTiesToEven_def Let_def)

lemma roundTiesToEven_of_int: "roundTiesToEven (of_int n) = n"
  by (simp add: roundTiesToEven_def Let_def)

lemma roundTiesToEven_less:
  assumes "y < of_int n - 1 / 2"
  shows "roundTiesToEven y < n"
proof -
  have "y < of_int n" using assms by simp
  then have f: "\<lfloor>y\<rfloor> < n" by (simp add: floor_less_iff)
  show ?thesis
  proof (cases "\<lfloor>y\<rfloor> = n - 1")
    case True
    then have "y - of_int \<lfloor>y\<rfloor> < 1 / 2" using assms by simp
    then show ?thesis using f by (simp add: roundTiesToEven_def Let_def)
  next
    case False
    then have "\<lfloor>y\<rfloor> + 1 < n" using f by simp
    moreover have "roundTiesToEven y \<le> \<lfloor>y\<rfloor> + 1" by (simp add: roundTiesToEven_def Let_def)
    ultimately show ?thesis by simp
  qed
qed

lemma fl_pos:
  assumes "0 < x"
  shows "fl x = of_int (roundTiesToEven (x * 2 powi (52 - exponent x))) / 2 powi (52 - exponent x)"
  using assms by (simp add: fl_def Let_def)

lemma fl_ge_int:
  assumes "0 \<le> m" and "of_int m \<le> x" and "x < 2 ^ 53"
  shows "of_int m \<le> fl x"
proof (cases "x = 0")
  case True
  then show ?thesis using assms by (simp add: fl_def)
next
  case False
  then have pos: "0 < x" using assms(1,2) by simp
  define k where "k = nat (52 - exponent x)"
  define s :: rat where "s = 2 powi (52 - exponent x)"
  have s: "s = of_int (2 ^ k)" unfolding s_def k_def by (rule scale_props(1) [OF pos assms(3)])
  have spos: "0 < s" by (simp add: s_def)
  have "of_int m * s \<le> x * s" using assms(2) spos by (simp add: mult_right_mono)
  then have "of_int (m * 2 ^ k) \<le> x * s" by (simp add: s)
  then have "m * 2 ^ k \<le> \<lfloor>x * s\<rfloor>" by (simp only: le_floor_iff)
  then have "m * 2 ^ k \<le> roundTiesToEven (x * s)"
    using roundTiesToEven_ge_floor [of "x * s"] by linarith
  then have "(of_int (m * 2 ^ k) :: rat) \<le> of_int (roundTiesToEven (x * s))"
    by (simp only: of_int_le_iff)
  then have "of_int m * s \<le> of_int (roundTiesToEven (x * s))" by (simp add: s)
  then have "of_int m \<le> of_int (roundTiesToEven (x * s)) / s"
    using spos by (simp add: pos_le_divide_eq)
  then show ?thesis unfolding fl_pos [OF pos] s_def .
qed

lemma fl_less_int:
  assumes "0 < x" and "x \<le> of_int m * (1 - 1 / 2 ^ 53)" and "x < 2 ^ 53"
  shows "fl x < of_int m"
proof -
  define k where "k = nat (52 - exponent x)"
  define s :: rat where "s = 2 powi (52 - exponent x)"
  have s: "s = of_int (2 ^ k)" unfolding s_def k_def by (rule scale_props(1) [OF assms(1,3)])
  have big: "2 ^ 52 \<le> x * s" unfolding s_def by (rule scale_props(2) [OF assms(1,3)])
  have spos: "0 < s" by (simp add: s_def)
  have mpos: "(0::rat) < of_int m"
  proof (rule ccontr)
    assume "\<not> (0::rat) < of_int m"
    then have "(of_int m :: rat) \<le> 0" by simp
    moreover have "(0::rat) \<le> 1 - 1 / 2 ^ 53" by simp
    ultimately have "(of_int m :: rat) * (1 - 1 / 2 ^ 53) \<le> 0"
      by (rule mult_nonpos_nonneg)
    then show False using assms(1,2) by linarith
  qed
  have le: "x \<le> of_int m - of_int m / 2 ^ 53" using assms(2) by (simp add: algebra_simps)
  have "(0::rat) < of_int m / 2 ^ 53" using mpos by simp
  then have "x < of_int m" using le by linarith
  then have "x / 2 ^ 53 < of_int m / 2 ^ 53" by (simp add: divide_strict_right_mono)
  then have gap: "x / 2 ^ 53 < of_int m - x" using le by linarith
  have "x * s / 2 ^ 53 = x / 2 ^ 53 * s" by simp
  also have "\<dots> < (of_int m - x) * s" using gap spos by (rule mult_strict_right_mono)
  finally have "x * s / 2 ^ 53 < of_int m * s - x * s" by (simp add: algebra_simps)
  moreover have "(1::rat) / 2 \<le> x * s / 2 ^ 53" using big by simp
  ultimately have "x * s < of_int m * s - 1 / 2" by linarith
  then have "x * s < of_int (m * 2 ^ k) - 1 / 2" by (simp add: s)
  then have "roundTiesToEven (x * s) < m * 2 ^ k" by (rule roundTiesToEven_less)
  then have "(of_int (roundTiesToEven (x * s)) :: rat) < of_int (m * 2 ^ k)"
    by (simp only: of_int_less_iff)
  then have "of_int (roundTiesToEven (x * s)) < of_int m * s" by (simp add: s)
  then have "of_int (roundTiesToEven (x * s)) / s < of_int m"
    using spos by (simp add: pos_divide_less_eq)
  then show ?thesis unfolding fl_pos [OF assms(1)] s_def .
qed

lemma fl_nonneg:
  assumes "0 \<le> x"
  shows "0 \<le> fl x"
proof (cases "x = 0")
  case True
  then show ?thesis by (simp add: fl_def)
next
  case False
  then have pos: "0 < x" using assms by simp
  have "0 \<le> \<lfloor>x * 2 powi (52 - exponent x)\<rfloor>" using pos by simp
  then have "0 \<le> roundTiesToEven (x * 2 powi (52 - exponent x))"
    using roundTiesToEven_ge_floor [of "x * 2 powi (52 - exponent x)"] by linarith
  then show ?thesis unfolding fl_pos [OF pos] by simp
qed

text \<open>The largest double below 1 is \<open>1 - 2^-53\<close>.\<close>

lemma double_below_one:
  assumes "fl u = u" and "0 \<le> u" and "u < 1"
  shows "u \<le> 1 - 1 / 2 ^ 53"
proof (cases "u < 1 / 2")
  case True
  moreover have "(1::rat) / 2 \<le> 1 - 1 / 2 ^ 53" by simp
  ultimately show ?thesis by linarith
next
  case False
  then have pos: "0 < u" by simp
  have "lg_dn (u * 2) = 0" using False by (subst lg_dn.simps) simp
  then have "lg_dn u = 1" using pos assms(3) by (subst lg_dn.simps) simp
  then have e: "exponent u = - 1" using assms(3) by (simp add: exponent_def)
  define n where "n = roundTiesToEven (u * 2 ^ 53)"
  have "u = of_int n / 2 ^ 53" using fl_pos [OF pos] assms(1) by (simp add: e n_def)
  then have u: "u * 2 ^ 53 = of_int n" by simp
  then have "(of_int n :: rat) < 2 ^ 53" using assms(3) by simp
  then have "(of_int n :: rat) < of_int (2 ^ 53)" by simp
  then have "n < 2 ^ 53" by (simp only: of_int_less_iff)
  then have "n \<le> 2 ^ 53 - 1" by simp
  then have "(of_int n :: rat) \<le> of_int (2 ^ 53 - 1)" by (simp only: of_int_le_iff)
  then have "u * 2 ^ 53 \<le> 2 ^ 53 - 1" using u by simp
  then show ?thesis by (simp add: field_simps)
qed

lemma randomIndex_in_range:
  assumes "fl u = u" and "0 \<le> u" and "u < 1" and "0 < n" and "n < 2 ^ 53"
  shows "randomIndex u n < n"
proof (cases "u = 0")
  case True
  then show ?thesis using assms(4) by (simp add: randomIndex_def js_mul_def fl_def)
next
  case False
  then have pos: "0 < u * of_nat n" using assms(2,4) by simp
  have npos: "(0::rat) < of_nat n" using assms(4) by simp
  have "u * of_nat n \<le> (1 - 1 / 2 ^ 53) * of_nat n"
    using double_below_one [OF assms(1-3)] npos by (simp add: mult_right_mono)
  then have le: "u * of_nat n \<le> of_int (int n) * (1 - 1 / 2 ^ 53)" by (simp add: mult.commute)
  have "u * of_nat n < 1 * of_nat n" using assms(3) npos by (rule mult_strict_right_mono)
  moreover have "(of_nat n :: rat) < 2 ^ 53" using assms(5) by (metis of_nat_less_iff of_nat_numeral of_nat_power)
  ultimately have b: "u * of_nat n < 2 ^ 53" by simp
  have "fl (u * of_nat n) < of_int (int n)" by (rule fl_less_int [OF pos le b])
  then have "\<lfloor>fl (u * of_nat n)\<rfloor> < int n" by (simp add: floor_less_iff)
  then show ?thesis using assms(4) by (simp add: randomIndex_def js_mul_def)
qed

text \<open>
  The values of \<open>Math.random()\<close> that give index \<open>i\<close> are those of the interval
  \<open>[i / n, (i + 1) / n)\<close>, up to one rounding of the product at each end.
\<close>

lemma randomIndex_inner:
  assumes "of_nat i \<le> u * of_nat n" and "u * of_nat n \<le> (of_nat i + 1) * (1 - 1 / 2 ^ 53)"
    and "i < 2 ^ 53"
  shows "randomIndex u n = i"
proof -
  define x where "x = u * of_nat n"
  have x0: "0 \<le> x" using assms(1) unfolding x_def by (meson of_nat_0_le_iff order_trans)
  have i53: "(of_nat i :: rat) + 1 \<le> 2 ^ 53"
  proof -
    have "int i + 1 \<le> 2 ^ 53" using assms(3) by simp
    then have "(of_int (int i + 1) :: rat) \<le> of_int (2 ^ 53)" by (simp only: of_int_le_iff)
    then show ?thesis by simp
  qed
  have "(of_nat i + 1) * (1 - 1 / 2 ^ 53) < (of_nat i + 1 :: rat)" by (simp add: algebra_simps)
  then have xi: "x < of_nat i + 1" using assms(2) unfolding x_def by linarith
  then have b: "x < 2 ^ 53" using i53 by linarith
  have lo: "of_int (int i) \<le> fl x" using assms(1) b by (intro fl_ge_int) (simp_all add: x_def)
  have hi: "fl x < of_int (int i + 1)"
  proof (cases "x = 0")
    case True
    then show ?thesis by (simp add: fl_def)
  next
    case False
    then have "0 < x" using x0 by simp
    then show ?thesis using assms(2) b by (intro fl_less_int) (simp_all add: x_def)
  qed
  have "\<lfloor>fl x\<rfloor> = int i" using lo hi by (simp add: floor_eq_iff)
  then show ?thesis by (simp add: randomIndex_def js_mul_def x_def)
qed

lemma randomIndex_outer:
  assumes "randomIndex u n = i" and "0 \<le> u" and "u * of_nat n < 2 ^ 53"
  shows "of_nat i * (1 - 1 / 2 ^ 53) \<le> u * of_nat n" and "u * of_nat n < of_nat i + 1"
proof -
  define x where "x = u * of_nat n"
  have x0: "0 \<le> x" using assms(2) by (simp add: x_def)
  have idx: "nat \<lfloor>fl x\<rfloor> = i" using assms(1) by (simp add: randomIndex_def js_mul_def x_def)
  have f0: "0 \<le> \<lfloor>fl x\<rfloor>" using fl_nonneg [OF x0] by simp
  show "of_nat i * (1 - 1 / 2 ^ 53) \<le> u * of_nat n"
  proof (rule ccontr)
    assume "\<not> of_nat i * (1 - 1 / 2 ^ 53) \<le> u * of_nat n"
    then have lt: "x < of_int (int i) * (1 - 1 / 2 ^ 53)" by (simp add: x_def)
    have "\<lfloor>fl x\<rfloor> < int i"
    proof (cases "x = 0")
      case True
      then have "0 < i" using lt by (cases i) simp_all
      then show ?thesis using True by (simp add: fl_def)
    next
      case False
      then have "0 < x" using x0 by simp
      then have "fl x < of_int (int i)" using lt assms(3) by (intro fl_less_int) (simp_all add: x_def)
      then show ?thesis by (simp add: floor_less_iff)
    qed
    then show False using idx f0 by linarith
  qed
  show "u * of_nat n < of_nat i + 1"
  proof (rule ccontr)
    assume "\<not> u * of_nat n < of_nat i + 1"
    then have "of_int (int i + 1) \<le> x" by (simp add: x_def)
    then have "of_int (int i + 1) \<le> fl x" using assms(3) by (intro fl_ge_int) (simp_all add: x_def)
    then have "int i + 1 \<le> \<lfloor>fl x\<rfloor>" by (simp only: le_floor_iff)
    then show False using idx by linarith
  qed
qed

lemma fl_quarters:
  assumes "\<bar>k\<bar> < 2 ^ 50"
  shows "fl (of_int k / 4) = of_int k / 4"
proof (cases "k = 0")
  case True
  then show ?thesis by (simp add: fl_def)
next
  case False
  define a :: rat where "a = \<bar>of_int k / 4\<bar>"
  have a: "a = of_int \<bar>k\<bar> / 4" by (simp add: a_def)
  have pos: "0 < a" using False by (simp add: a)
  have "(of_int \<bar>k\<bar> :: rat) < of_int (2 ^ 50)" using assms by (simp only: of_int_less_iff)
  then have a48: "a < 2 ^ 48" by (simp add: a)
  then have a53: "a < 2 ^ 53" by simp
  have low: "2 powi (exponent a) \<le> a" by (rule exponent_lower [OF pos])
  have e: "exponent a \<le> 47"
  proof (rule ccontr)
    assume "\<not> exponent a \<le> 47"
    then have "(48::int) \<le> exponent a" by simp
    then have "(2::rat) powi 48 \<le> 2 powi (exponent a)" by (rule power_int_increasing) simp
    then have "(2::rat) ^ 48 \<le> a" using low by simp
    then show False using a48 by simp
  qed
  define m where "m = nat (50 - exponent a)"
  define s :: rat where "s = 2 powi (52 - exponent a)"
  have spos: "0 < s" by (simp add: s_def)
  have "52 - exponent a = 2 + int m" using e by (simp add: m_def)
  then have "s = 2 powi (2 + int m)" unfolding s_def by (simp only:)
  also have "\<dots> = 2 powi 2 * 2 powi (int m)" by (rule power_int_add) simp
  finally have s: "s = 4 * of_int (2 ^ m)" by (simp add: power_int_of_nat)
  have "a * s = of_int (\<bar>k\<bar> * 2 ^ m)" by (simp add: a s)
  then have r: "of_int (roundTiesToEven (a * s)) = a * s"
    by (simp only: roundTiesToEven_of_int)
  have ne: "of_int k / 4 \<noteq> (0::rat)" using False by simp
  have "fl (of_int k / 4) = sgn (of_int k / 4) * of_int (roundTiesToEven (a * s)) / s"
    using ne by (simp add: fl_def Let_def a_def s_def)
  also have "\<dots> = sgn (of_int k / 4) * a" using spos by (simp add: r)
  also have "\<dots> = of_int k / 4" unfolding a_def by (simp only: sgn_mult_abs)
  finally show ?thesis .
qed

lemma fl_of_int:
  assumes "\<bar>n\<bar> < 2 ^ 48"
  shows "fl (of_int n) = of_int n"
proof -
  have "\<bar>4 * n\<bar> < 2 ^ 50" using assms by simp
  then have "fl (of_int (4 * n) / 4) = of_int (4 * n) / 4" by (rule fl_quarters)
  then show ?thesis by simp
qed


lemma randomValue_zero: "randomValue 0"
  by (simp add: randomValue_def fl_def)

lemma randomIndex_zero: "randomIndex 0 n = 0"
  by (simp add: randomIndex_def js_mul_def fl_def)

subsection \<open>Random choice and the word bank\<close>

lemma WORD_LIST_length: "length WORD_LIST = 51"
  by (simp add: WORD_LIST_def)

lemma WORD_LIST_distinct: "distinct WORD_LIST"
  by (simp add: WORD_LIST_def)

lemma WORD_LIST_nonempty: "WORD_LIST \<noteq> []"
  using WORD_LIST_length by auto

lemma unusedWords_props:
  "distinct (unusedWords r)" "length (unusedWords r) < 2 ^ 53"
  "set (unusedWords r) = set WORD_LIST - set (usedWords r)"
proof -
  show "distinct (unusedWords r)" using WORD_LIST_distinct by (simp add: unusedWords_def)
  have "length (unusedWords r) \<le> 51"
    using length_filter_le [of _ WORD_LIST] by (simp add: unusedWords_def WORD_LIST_length)
  then show "length (unusedWords r) < 2 ^ 53" by simp
  show "set (unusedWords r) = set WORD_LIST - set (usedWords r)"
    by (auto simp: unusedWords_def)
qed

lemma randomElement_index:
  assumes "randomValue u" and "arr \<noteq> []" and "length arr < 2 ^ 53"
  shows "randomIndex u (length arr) < length arr"
  using assms by (intro randomIndex_in_range) (simp_all add: randomValue_def)

lemma randomElement_member:
  assumes "randomValue u" and "arr \<noteq> []" and "length arr < 2 ^ 53"
  shows "randomElement u arr \<in> set arr"
  unfolding randomElement_def using randomElement_index [OF assms] by simp

text \<open>
  The element chosen is the \<open>i\<close>-th one for every \<open>u\<close> with \<open>i \<le> u n \<le> (i + 1) (1 - 2^-53)\<close>,
  and only for \<open>u\<close> with \<open>i (1 - 2^-53) \<le> u n < i + 1\<close>, \<open>n\<close> the length of the array: the
  interval \<open>[i / n, (i + 1) / n)\<close> up to one rounding of the double product.
\<close>

lemma randomElement_interval:
  assumes d: "distinct arr" and i: "i < length arr" and u: "randomValue u"
    and n: "length arr < 2 ^ 53"
  shows "of_nat i \<le> u * of_nat (length arr) \<and>
         u * of_nat (length arr) \<le> (of_nat i + 1) * (1 - 1 / 2 ^ 53)
         \<longrightarrow> randomElement u arr = arr ! i"
    and "randomElement u arr = arr ! i
         \<longrightarrow> of_nat i * (1 - 1 / 2 ^ 53) \<le> u * of_nat (length arr) \<and>
             u * of_nat (length arr) < of_nat i + 1"
proof -
  have i53: "i < 2 ^ 53" using i n by simp
  show "of_nat i \<le> u * of_nat (length arr) \<and>
         u * of_nat (length arr) \<le> (of_nat i + 1) * (1 - 1 / 2 ^ 53)
         \<longrightarrow> randomElement u arr = arr ! i"
    using randomIndex_inner [of i u "length arr"] i53 by (simp add: randomElement_def)
  have ne: "arr \<noteq> []" using i by auto
  have npos: "(0::rat) < of_nat (length arr)" using ne by simp
  have "u * of_nat (length arr) < 1 * of_nat (length arr)"
    using u npos by (intro mult_strict_right_mono) (simp_all add: randomValue_def)
  moreover have "(of_nat (length arr) :: rat) < 2 ^ 53"
    using n by (metis of_nat_less_iff of_nat_numeral of_nat_power)
  ultimately have b: "u * of_nat (length arr) < 2 ^ 53" by simp
  have u0: "0 \<le> u" using u by (simp add: randomValue_def)
  show "randomElement u arr = arr ! i
         \<longrightarrow> of_nat i * (1 - 1 / 2 ^ 53) \<le> u * of_nat (length arr) \<and>
             u * of_nat (length arr) < of_nat i + 1"
  proof
    assume "randomElement u arr = arr ! i"
    then have "randomIndex u (length arr) = i"
      unfolding randomElement_def
      using nth_eq_iff_index_eq [OF d randomElement_index [OF u ne n] i] by simp
    then show "of_nat i * (1 - 1 / 2 ^ 53) \<le> u * of_nat (length arr) \<and>
             u * of_nat (length arr) < of_nat i + 1"
      using randomIndex_outer [OF _ u0 b] by simp
  qed
qed

lemma getRandomWord_fresh:
  assumes "unusedWords r \<noteq> []"
  shows "getRandomWord u r =
           (randomElement u (unusedWords r),
            r\<lparr>usedWords := Set_add (randomElement u (unusedWords r)) (usedWords r)\<rparr>)"
  using assms by (simp add: getRandomWord_def unusedWords_def Let_def)

lemma getRandomWord_exhausted:
  assumes "unusedWords r = []"
  shows "getRandomWord u r = (randomElement u WORD_LIST, r\<lparr>usedWords := []\<rparr>)"
  using assms by (simp add: getRandomWord_def unusedWords_def Let_def)

lemma exhausted_iff: "(unusedWords r = []) = (set WORD_LIST \<subseteq> set (usedWords r))"
  by (auto simp: unusedWords_def filter_empty_conv)

lemma getRandomWord_fresh_props:
  assumes u: "randomValue u" and ne: "unusedWords r \<noteq> []"
  shows "fst (getRandomWord u r) \<in> set WORD_LIST"
    and "fst (getRandomWord u r) \<notin> set (usedWords r)"
    and "usedWords (snd (getRandomWord u r)) = usedWords r @ [fst (getRandomWord u r)]"
proof -
  from randomElement_member [OF u ne unusedWords_props(2)]
  have m: "fst (getRandomWord u r) \<in> set WORD_LIST - set (usedWords r)"
    by (simp add: getRandomWord_fresh [OF ne] unusedWords_props(3))
  then show a: "fst (getRandomWord u r) \<in> set WORD_LIST"
    and b: "fst (getRandomWord u r) \<notin> set (usedWords r)" by auto
  show "usedWords (snd (getRandomWord u r)) = usedWords r @ [fst (getRandomWord u r)]"
    using b by (simp add: getRandomWord_fresh [OF ne] Set_add_def)
qed

text \<open>
  The invariant of a room's draws: with \<open>pre\<close> the words drawn so far, either the used
  set is exactly the words drawn, or every catalog word has been drawn.
\<close>

lemma drawWords_repeat_after_all:
  assumes "set (usedWords r) = set pre \<or> set WORD_LIST \<subseteq> set pre"
    and "\<forall>u\<in>set us. randomValue u"
    and "length pre \<le> j" and "j < length (pre @ drawWords us r)"
    and "(pre @ drawWords us r) ! j \<in> set (take j (pre @ drawWords us r))"
  shows "set WORD_LIST \<subseteq> set (take j (pre @ drawWords us r))"
  using assms
proof (induction us arbitrary: r pre)
  case Nil
  then show ?case by simp
next
  case (Cons u us)
  obtain w r1 where g: "getRandomWord u r = (w, r1)" by (cases "getRandomWord u r")
  have u: "randomValue u" using Cons.prems(2) by auto
  have dw: "drawWords (u # us) r = w # drawWords us r1" using g by simp
  have app: "pre @ drawWords (u # us) r = (pre @ [w]) @ drawWords us r1" using dw by simp
  have inv: "set (usedWords r1) = set (pre @ [w]) \<or> set WORD_LIST \<subseteq> set (pre @ [w])"
  proof (cases "unusedWords r = []")
    case True
    then have "set WORD_LIST \<subseteq> set (usedWords r)" by (simp add: exhausted_iff)
    with Cons.prems(1) have "set WORD_LIST \<subseteq> set pre" by auto
    then show ?thesis by auto
  next
    case False
    from getRandomWord_fresh_props(3) [OF u False] g
    have "usedWords r1 = usedWords r @ [w]" by simp
    with Cons.prems(1) show ?thesis by auto
  qed
  show ?case
  proof (cases "j = length pre")
    case True
    then have tk: "take j (pre @ drawWords (u # us) r) = pre" by simp
    have wj: "(pre @ drawWords (u # us) r) ! j = w" using True dw by (simp add: nth_append)
    from Cons.prems(5) have wpre: "w \<in> set pre" unfolding tk wj .
    show ?thesis
    proof (cases "unusedWords r = []")
      case True
      then have all: "set WORD_LIST \<subseteq> set (usedWords r)" by (simp add: exhausted_iff)
      from Cons.prems(1) all have "set WORD_LIST \<subseteq> set pre" by auto
      then show ?thesis using tk by simp
    next
      case False
      from getRandomWord_fresh_props(2) [OF u False] g have "w \<notin> set (usedWords r)" by simp
      with Cons.prems(1) wpre have "set WORD_LIST \<subseteq> set pre" by auto
      then show ?thesis using tk by simp
    qed
  next
    case False
    with Cons.prems(3) have "length (pre @ [w]) \<le> j" by simp
    moreover have "\<forall>u\<in>set us. randomValue u" using Cons.prems(2) by simp
    moreover have "j < length ((pre @ [w]) @ drawWords us r1)"
      using Cons.prems(4) unfolding app .
    moreover have "((pre @ [w]) @ drawWords us r1) ! j \<in> set (take j ((pre @ [w]) @ drawWords us r1))"
      using Cons.prems(5) unfolding app .
    ultimately have "set WORD_LIST \<subseteq> set (take j ((pre @ [w]) @ drawWords us r1))"
      using Cons.IH [OF inv] by blast
    then show ?thesis unfolding app .
  qed
qed

lemma start_game_keeps_usedWords:
  assumes "rs c = Some r1" and "fst (start_game parseInt rnd sock settings rs) c = Some r2"
  shows "usedWords r2 = usedWords r1"
proof -
  have a: "usedWords (applySettings parseInt settings r) = usedWords r" for r
    by (simp add: applySettings_def Let_def split: option.splits)
  show ?thesis
    using assms
    by (auto simp: start_game_def Let_def a split: option.splits if_splits)
qed

lemma createRoom_no_usedWords: "usedWords (fst (createRoom rnd h hn tr tpt ch rs)) = []"
  by (simp add: createRoom_def Let_def)

text \<open>
  Claim C6, amended. A call of \<open>getRandomWord\<close> with a catalog word still unused and
  \<open>Math.random() = u\<close> returns the unused word at index \<open>\<lfloor>u * n\<rfloor>\<close>, \<open>n\<close> the number of unused
  words and the product the double product; the word is a catalog word that is not in the
  used set, and the call records it as used. It is the \<open>i\<close>-th unused word for every \<open>u\<close>
  with \<open>i \<le> u n \<le> (i + 1) (1 - 2^-53)\<close> and only for \<open>u\<close> with \<open>i (1 - 2^-53) \<le> u n < i + 1\<close>:
  each unused word for the \<open>u\<close> of an interval \<open>[i / n, (i + 1) / n)\<close>, up to one rounding of
  the product at each end of it. A call with every catalog word used clears the set and
  picks in the same way among all 51 words. A room is created with the used set empty,
  and in the draws of a room since its creation a word drawn for the second time at
  position \<open>j\<close> comes after every catalog word has been drawn. The used set belongs to the
  room: \<open>start_game\<close> leaves it as it is.
\<close>

theorem word_selection_without_repeats:
  "(randomValue u \<and> unusedWords r \<noteq> [] \<longrightarrow>
      fst (getRandomWord u r) \<in> set WORD_LIST - set (usedWords r) \<and>
      usedWords (snd (getRandomWord u r)) = usedWords r @ [fst (getRandomWord u r)] \<and>
      fst (getRandomWord u r) = unusedWords r ! nat \<lfloor>js_mul u (of_nat (length (unusedWords r)))\<rfloor> \<and>
      (\<forall>i < length (unusedWords r).
         (of_nat i \<le> u * of_nat (length (unusedWords r)) \<and>
          u * of_nat (length (unusedWords r)) \<le> (of_nat i + 1) * (1 - 1 / 2 ^ 53)
            \<longrightarrow> fst (getRandomWord u r) = unusedWords r ! i) \<and>
         (fst (getRandomWord u r) = unusedWords r ! i
            \<longrightarrow> of_nat i * (1 - 1 / 2 ^ 53) \<le> u * of_nat (length (unusedWords r)) \<and>
                u * of_nat (length (unusedWords r)) < of_nat i + 1)))
   \<and> (randomValue u' \<and> set WORD_LIST \<subseteq> set (usedWords r') \<longrightarrow>
      usedWords (snd (getRandomWord u' r')) = [] \<and>
      fst (getRandomWord u' r') = WORD_LIST ! nat \<lfloor>js_mul u' (of_nat (length WORD_LIST))\<rfloor> \<and>
      (\<forall>i < length WORD_LIST.
         (of_nat i \<le> u' * of_nat (length WORD_LIST) \<and>
          u' * of_nat (length WORD_LIST) \<le> (of_nat i + 1) * (1 - 1 / 2 ^ 53)
            \<longrightarrow> fst (getRandomWord u' r') = WORD_LIST ! i) \<and>
         (fst (getRandomWord u' r') = WORD_LIST ! i
            \<longrightarrow> of_nat i * (1 - 1 / 2 ^ 53) \<le> u' * of_nat (length WORD_LIST) \<and>
                u' * of_nat (length WORD_LIST) < of_nat i + 1)))
   \<and> usedWords (fst (createRoom rnd h hn tr tpt ch rs)) = []
   \<and> (usedWords r0 = [] \<and> (\<forall>v\<in>set us. randomValue v) \<and> i < j \<and> j < length (drawWords us r0) \<and>
        drawWords us r0 ! i = drawWords us r0 ! j \<longrightarrow>
      set WORD_LIST \<subseteq> set (take j (drawWords us r0)))
   \<and> (rs' c = Some r1 \<and> fst (start_game parseInt rnd' sock settings rs') c = Some r2 \<longrightarrow>
      usedWords r2 = usedWords r1)"
proof (intro conjI impI)
  assume h: "randomValue u \<and> unusedWords r \<noteq> []"
  then have u: "randomValue u" and ne: "unusedWords r \<noteq> []" by auto
  show "fst (getRandomWord u r) \<in> set WORD_LIST - set (usedWords r)"
    using getRandomWord_fresh_props(1,2) [OF u ne] by simp
  show "usedWords (snd (getRandomWord u r)) = usedWords r @ [fst (getRandomWord u r)]"
    using getRandomWord_fresh_props(3) [OF u ne] .
  show "fst (getRandomWord u r) = unusedWords r ! nat \<lfloor>js_mul u (of_nat (length (unusedWords r)))\<rfloor>"
    by (simp add: getRandomWord_fresh [OF ne] randomElement_def randomIndex_def)
  show "\<forall>i < length (unusedWords r).
         (of_nat i \<le> u * of_nat (length (unusedWords r)) \<and>
          u * of_nat (length (unusedWords r)) \<le> (of_nat i + 1) * (1 - 1 / 2 ^ 53)
            \<longrightarrow> fst (getRandomWord u r) = unusedWords r ! i) \<and>
         (fst (getRandomWord u r) = unusedWords r ! i
            \<longrightarrow> of_nat i * (1 - 1 / 2 ^ 53) \<le> u * of_nat (length (unusedWords r)) \<and>
                u * of_nat (length (unusedWords r)) < of_nat i + 1)"
    using randomElement_interval [OF unusedWords_props(1) _ u unusedWords_props(2)]
    by (simp add: getRandomWord_fresh [OF ne])
next
  assume h: "randomValue u' \<and> set WORD_LIST \<subseteq> set (usedWords r')"
  then have u: "randomValue u'" and ex: "unusedWords r' = []"
    by (auto simp: exhausted_iff)
  have l: "length WORD_LIST < 2 ^ 53" by (simp add: WORD_LIST_length)
  show "usedWords (snd (getRandomWord u' r')) = []"
    by (simp add: getRandomWord_exhausted [OF ex])
  show "fst (getRandomWord u' r') = WORD_LIST ! nat \<lfloor>js_mul u' (of_nat (length WORD_LIST))\<rfloor>"
    by (simp add: getRandomWord_exhausted [OF ex] randomElement_def randomIndex_def)
  show "\<forall>i < length WORD_LIST.
         (of_nat i \<le> u' * of_nat (length WORD_LIST) \<and>
          u' * of_nat (length WORD_LIST) \<le> (of_nat i + 1) * (1 - 1 / 2 ^ 53)
            \<longrightarrow> fst (getRandomWord u' r') = WORD_LIST ! i) \<and>
         (fst (getRandomWord u' r') = WORD_LIST ! i
            \<longrightarrow> of_nat i * (1 - 1 / 2 ^ 53) \<le> u' * of_nat (length WORD_LIST) \<and>
                u' * of_nat (length WORD_LIST) < of_nat i + 1)"
    using randomElement_interval [OF WORD_LIST_distinct _ u l]
    by (simp add: getRandomWord_exhausted [OF ex])
next
  show "usedWords (fst (createRoom rnd h hn tr tpt ch rs)) = []"
    by (rule createRoom_no_usedWords)
next
  assume h: "usedWords r0 = [] \<and> (\<forall>v\<in>set us. randomValue v) \<and> i < j \<and> j < length (drawWords us r0) \<and>
        drawWords us r0 ! i = drawWords us r0 ! j"
  then have "drawWords us r0 ! j \<in> set (take j (drawWords us r0))"
    by (metis in_set_conv_nth length_take min.absorb4 nth_take)
  with h show "set WORD_LIST \<subseteq> set (take j (drawWords us r0))"
    using drawWords_repeat_after_all [of r0 "[]" us j] by simp
next
  assume "rs' c = Some r1 \<and> fst (start_game parseInt rnd' sock settings rs') c = Some r2"
  then show "usedWords r2 = usedWords r1" using start_game_keeps_usedWords by blast
qed

subsection \<open>The example game\<close>

lemma generateRoomCode_zero: "generateRoomCode (\<lambda>_. 0) = ''AAAA''"
  by (simp add: generateRoomCode_def randomElement_def randomIndex_zero upt_rec)

lemma create_conn:
  "fst (create_room (\<lambda>_. 0) (fresh ''A'') ''Ann'' None None False Map.empty) = player_conn ''A''"
  by (simp add: create_room_def createRoom_def generateRoomCode_zero Let_def fresh_def player_conn_def)

lemma rooms1_eq:
  "rooms1 = [''AAAA'' \<mapsto>
     \<lparr>code = ''AAAA'', hostId = ''A'', players = [(''A'', \<lparr>name = ''Ann'', score = 0\<rparr>)],
      state = Lobby, currentDrawerIndex = - 1, currentWord = [], roundNumber = 0,
      totalRounds = 10, timePerTurn = 40, timer = False, timeRemaining = 0,
      usedWords = [], correctGuessers = [], turnActive = False, playerOrder = [],
      isChampionship = False, spectators = [], hintsRevealed = 0, hintInterval = None\<rparr>]"
  by (simp add: rooms1_def create_room_def createRoom_def generateRoomCode_zero Let_def fresh_def
      orDefault_def)

lemma toUpperCase_aaaa: "toUpperCase ''aaaa'' = Some ''AAAA''"
  by (simp add: toUpperCase_def toUpper_def upperCaseLetters_def lowerCaseLetters_def)

lemma rooms3_eq:
  "rooms3 = [''AAAA'' \<mapsto>
     \<lparr>code = ''AAAA'', hostId = ''A'',
      players = [(''A'', \<lparr>name = ''Ann'', score = 0\<rparr>), (''B'', \<lparr>name = ''Bob'', score = 0\<rparr>),
                 (''C'', \<lparr>name = ''Cy'', score = 0\<rparr>)],
      state = Lobby, currentDrawerIndex = - 1, currentWord = [], roundNumber = 0,
      totalRounds = 10, timePerTurn = 40, timer = False, timeRemaining = 0,
      usedWords = [], correctGuessers = [], turnActive = False, playerOrder = [],
      isChampionship = False, spectators = [], hintsRevealed = 0, hintInterval = None\<rparr>]"
  by (simp add: rooms3_def rooms2_def rooms1_eq join_room_def toUpperCase_aaaa Let_def fresh_def)

lemma rooms4_eq: "rooms4 = [''AAAA'' \<mapsto> room4]"
  by (simp add: rooms4_def rooms3_eq start_game_def player_conn_def applySettings_def shuffle_def
      randomIndex_zero Map_keys_def Let_def numeral_2_eq_2 room4_def)

lemma literal_half: "js_literal (1 / 2) = 1 / 2" "js_literal (1 / 4) = 1 / 4"
  by (simp_all add: js_eval fl_eval)

lemma product_40: "js_mul 40 (1 / 2) = 20" "js_mul 40 (1 / 4) = 10"
  by (simp_all add: js_eval fl_eval)

lemma threshold_40: "\<lfloor>js_mul 40 (js_literal (1 / 2))\<rfloor> = 20" "\<lfloor>js_mul 40 (js_literal (1 / 4))\<rfloor> = 10"
  by (simp_all add: literal_half product_40)

lemma startTurn_room4:
  "startTurn 0 room4 =
     (room5, [Emit (ToRoom ''AAAA'') (TurnStart ''B'' ''_ _ _ _ _'' 1 10 40),
              Emit (ToSocket ''B'') (YourWord ''Queen''),
              Emit (ToSpectators ''AAAA'') (TurnStart ''B'' ''_ _ _ _ _'' 1 10 40)])"
  by (simp add: room4_def room5_def startTurn.simps
      currentDrawer_def at_index_def Map_get_def getRandomWord_def randomElement_def randomIndex_zero
      Set_add_def generateHint_def hintTimes_def wordLen_def threshold_40 Let_def)
     (simp add: WORD_LIST_def)

lemma rooms5_eq: "rooms5 = [''AAAA'' \<mapsto> room5]"
  by (simp add: rooms5_def rooms4_eq onRoom_def firstTurnCallback_def startTurn_room4)

subsection \<open>Draws in catalog order and across the exhaustion\<close>

lemma newRoom_eq: "newRoom = \<lparr> code = ''AAAA'', hostId = ''A'', players = [], state = Lobby,
                currentDrawerIndex = - 1, currentWord = [], roundNumber = 0,
                totalRounds = 10, timePerTurn = 40,
                timer = False, timeRemaining = 0, usedWords = [], correctGuessers = [],
                turnActive = False, playerOrder = [],
                isChampionship = False, spectators = [],
                hintsRevealed = 0, hintInterval = None \<rparr>"
  by (simp add: newRoom_def createRoom_def generateRoomCode_zero orDefault_def Let_def)

lemma hd_filter_take:
  "distinct xs \<Longrightarrow> filter (\<lambda>w. w \<notin> set (take k xs)) xs = drop k xs"
proof (induction xs arbitrary: k)
  case Nil
  then show ?case by simp
next
  case (Cons x xs)
  show ?case
  proof (cases k)
    case 0
    then show ?thesis by simp
  next
    case (Suc m)
    have "filter (\<lambda>w. w \<notin> set (take m xs)) xs = drop m xs" using Cons by simp
    moreover have "filter (\<lambda>w. w \<noteq> x \<and> w \<notin> set (take m xs)) xs = filter (\<lambda>w. w \<notin> set (take m xs)) xs"
      using Cons.prems by (intro filter_cong) auto
    ultimately show ?thesis using Suc by simp
  qed
qed

lemma draw_in_order:
  assumes "usedWords r = take k WORD_LIST" and "k < 51"
  shows "getRandomWord 0 r = (WORD_LIST ! k, r\<lparr>usedWords := take (Suc k) WORD_LIST\<rparr>)"
proof -
  have f: "unusedWords r = drop k WORD_LIST"
    using hd_filter_take [OF WORD_LIST_distinct] assms(1) by (simp add: unusedWords_def)
  have kl: "k < length WORD_LIST" using assms(2) WORD_LIST_length by simp
  have ne: "unusedWords r \<noteq> []" using kl f by simp
  have pick: "randomElement 0 (drop k WORD_LIST) = WORD_LIST ! k"
    using kl by (simp add: randomElement_def randomIndex_zero)
  have "WORD_LIST ! k \<notin> set (take k WORD_LIST)"
  proof
    assume "WORD_LIST ! k \<in> set (take k WORD_LIST)"
    then obtain m where m: "m < k" "take k WORD_LIST ! m = WORD_LIST ! k"
      by (auto simp: in_set_conv_nth)
    then have "WORD_LIST ! m = WORD_LIST ! k" by simp
    with WORD_LIST_distinct m(1) kl show False
      by (simp add: nth_eq_iff_index_eq)
  qed
  then have add: "Set_add (WORD_LIST ! k) (usedWords r) = take (Suc k) WORD_LIST"
    using kl by (simp add: Set_add_def assms(1) take_Suc_conv_app_nth)
  show ?thesis
    unfolding getRandomWord_fresh [OF ne] f pick add ..
qed

lemma draws_in_order:
  assumes "usedWords r = take k WORD_LIST" and "k + n \<le> 51"
  shows "drawWords (replicate n 0 @ us) r =
         take n (drop k WORD_LIST) @ drawWords us (r\<lparr>usedWords := take (k + n) WORD_LIST\<rparr>)"
  using assms
proof (induction n arbitrary: r k)
  case 0
  then have "r\<lparr>usedWords := take k WORD_LIST\<rparr> = r" by (cases r) simp
  then show ?case by simp
next
  case (Suc n)
  have k: "k < 51" using Suc.prems(2) by simp
  have "drawWords (replicate (Suc n) 0 @ us) r =
        WORD_LIST ! k # drawWords (replicate n 0 @ us) (r\<lparr>usedWords := take (Suc k) WORD_LIST\<rparr>)"
    by (simp add: draw_in_order [OF Suc.prems(1) k])
  also have "drawWords (replicate n 0 @ us) (r\<lparr>usedWords := take (Suc k) WORD_LIST\<rparr>) =
        take n (drop (Suc k) WORD_LIST) @ drawWords us (r\<lparr>usedWords := take (Suc k + n) WORD_LIST\<rparr>)"
    using Suc.IH [of "r\<lparr>usedWords := take (Suc k) WORD_LIST\<rparr>" "Suc k"] Suc.prems(2) by simp
  finally show ?case
    using k WORD_LIST_length by (simp add: Cons_nth_drop_Suc [symmetric])
qed

lemma exhausted_draw_zero:
  "getRandomWord 0 (r\<lparr>usedWords := WORD_LIST\<rparr>) = (''Queen'', r\<lparr>usedWords := []\<rparr>)"
proof -
  have "unusedWords (r\<lparr>usedWords := WORD_LIST\<rparr>) = []" by (simp add: exhausted_iff)
  then show ?thesis
    by (simp add: getRandomWord_exhausted randomElement_def randomIndex_zero) (simp add: WORD_LIST_def)
qed

lemma draws_52: "drawWords (replicate 51 0 @ [0]) newRoom = WORD_LIST @ [''Queen'']"
proof -
  have u: "usedWords newRoom = take 0 WORD_LIST" by (simp add: newRoom_eq)
  have "drawWords (replicate 51 0 @ [0]) newRoom =
        take 51 (drop 0 WORD_LIST) @ drawWords [0] (newRoom\<lparr>usedWords := take (0 + 51) WORD_LIST\<rparr>)"
    by (rule draws_in_order [OF u]) simp
  then show ?thesis using WORD_LIST_length by (simp add: exhausted_draw_zero)
qed

text \<open>
  The example of the amended claim C6: a new room draws \<open>Queen\<close> first and records it; with
  \<open>Math.random()\<close> always 0 its first 51 draws are the catalog in order and the 52nd is
  \<open>Queen\<close> again; \<open>start_game\<close> starts the three-player game with the used set as it was.
\<close>

theorem word_selection_without_repeats_witness:
  "fst (getRandomWord 0 newRoom) \<in> set WORD_LIST - set (usedWords newRoom) \<and>
   usedWords (snd (getRandomWord 0 newRoom)) = [''Queen''] \<and>
   fst (getRandomWord 0 newRoom) = unusedWords newRoom ! 0 \<and>
   usedWords (snd (getRandomWord 0 (newRoom\<lparr>usedWords := WORD_LIST\<rparr>))) = [] \<and>
   drawWords (replicate 51 0 @ [0]) newRoom ! 0 = drawWords (replicate 51 0 @ [0]) newRoom ! 51 \<and>
   set WORD_LIST \<subseteq> set (take 51 (drawWords (replicate 51 0 @ [0]) newRoom)) \<and>
   usedWords room4 = []"
proof -
  have u0: "usedWords newRoom = []" by (simp add: newRoom_eq)
  have un: "unusedWords newRoom = WORD_LIST" by (simp add: unusedWords_def u0)
  have h1: "randomValue 0 \<and> unusedWords newRoom \<noteq> []"
    using WORD_LIST_nonempty by (simp add: un randomValue_zero)
  have h2: "randomValue 0 \<and> set WORD_LIST \<subseteq> set (usedWords (newRoom\<lparr>usedWords := WORD_LIST\<rparr>))"
    by (simp add: randomValue_zero)
  have q: "WORD_LIST ! 0 = ''Queen''" by (simp add: WORD_LIST_def)
  have h3: "usedWords newRoom = [] \<and> (\<forall>v\<in>set (replicate 51 0 @ [0::rat]). randomValue v) \<and>
            (0::nat) < 51 \<and> 51 < length (drawWords (replicate 51 0 @ [0]) newRoom) \<and>
            drawWords (replicate 51 0 @ [0]) newRoom ! 0 = drawWords (replicate 51 0 @ [0]) newRoom ! 51"
    using WORD_LIST_length q by (simp add: u0 draws_52 nth_append randomValue_zero)
  have h4: "rooms3 ''AAAA'' = Some (room4\<lparr>state := Lobby, playerOrder := []\<rparr>) \<and>
            fst (start_game (\<lambda>_. None) (\<lambda>_. 0) (player_conn ''A'') None rooms3) ''AAAA'' = Some room4"
    using rooms4_eq by (simp add: rooms4_def rooms3_eq room4_def)
  have h5: "(0::nat) < length (unusedWords newRoom) \<and>
            of_nat (0::nat) \<le> (0::rat) * of_nat (length (unusedWords newRoom)) \<and>
            (0::rat) * of_nat (length (unusedWords newRoom)) \<le> (of_nat (0::nat) + 1) * (1 - 1 / 2 ^ 53)"
    by (simp add: un WORD_LIST_length)
  have t: "take (Suc 0) WORD_LIST = [''Queen'']" by (simp add: WORD_LIST_def)
  have g: "getRandomWord 0 newRoom = (''Queen'', newRoom\<lparr>usedWords := [''Queen'']\<rparr>)"
    using draw_in_order [of newRoom 0] q by (simp add: u0 t)
  note inst = word_selection_without_repeats
         [where u = 0 and r = newRoom and u' = 0 and r' = "newRoom\<lparr>usedWords := WORD_LIST\<rparr>"
            and ?r0.0 = newRoom and us = "replicate 51 0 @ [0]" and i = 0 and j = 51
            and rs' = rooms3 and c = "''AAAA''" and ?r1.0 = "room4\<lparr>state := Lobby, playerOrder := []\<rparr>"
            and ?r2.0 = room4 and parseInt = "\<lambda>_. None" and rnd' = "\<lambda>_. 0"
            and sock = "player_conn ''A''" and settings = None]
  from inst h1 have a: "fst (getRandomWord 0 newRoom) \<in> set WORD_LIST - set (usedWords newRoom)"
    and b: "usedWords (snd (getRandomWord 0 newRoom)) = usedWords newRoom @ [fst (getRandomWord 0 newRoom)]"
    and c: "\<forall>i < length (unusedWords newRoom).
         (of_nat i \<le> (0::rat) * of_nat (length (unusedWords newRoom)) \<and>
          (0::rat) * of_nat (length (unusedWords newRoom)) \<le> (of_nat i + 1) * (1 - 1 / 2 ^ 53)
            \<longrightarrow> fst (getRandomWord 0 newRoom) = unusedWords newRoom ! i)"
    by blast+
  from c h5 have c': "fst (getRandomWord 0 newRoom) = unusedWords newRoom ! 0" by blast
  from inst h2 have d: "usedWords (snd (getRandomWord 0 (newRoom\<lparr>usedWords := WORD_LIST\<rparr>))) = []"
    by blast
  from inst h3 have e: "set WORD_LIST \<subseteq> set (take 51 (drawWords (replicate 51 0 @ [0]) newRoom))"
    by blast
  from inst h4 have f: "usedWords room4 = usedWords (room4\<lparr>state := Lobby, playerOrder := []\<rparr>)"
    by blast
  from a b c' d e f h3 show ?thesis by (simp add: g room4_def)
qed

text \<open>
  Claim C10. Called with every catalog word in the used set and with \<open>Math.random() = u\<close>,
  \<open>getRandomWord\<close> returns the catalog word at index \<open>\<lfloor>u * 51\<rfloor>\<close>, the product being the
  double product, and leaves the used set empty: the word returned is not recorded. Each
  catalog word is returned for the \<open>u\<close> of an interval \<open>[i / 51, (i + 1) / 51)\<close>, up to one
  rounding of the product at each end of it. The call that follows, with the same value
  of \<open>Math.random()\<close>, returns the very same word.
\<close>

theorem exhausted_pick_not_recorded:
  assumes "set WORD_LIST \<subseteq> set (usedWords r)" and "randomValue u"
  shows "fst (getRandomWord u r) = WORD_LIST ! nat \<lfloor>js_mul u 51\<rfloor> \<and>
         nat \<lfloor>js_mul u 51\<rfloor> < 51 \<and>
         fst (getRandomWord u r) \<in> set WORD_LIST \<and>
         (\<forall>i < 51.
            (of_nat i \<le> u * 51 \<and> u * 51 \<le> (of_nat i + 1) * (1 - 1 / 2 ^ 53)
               \<longrightarrow> fst (getRandomWord u r) = WORD_LIST ! i) \<and>
            (fst (getRandomWord u r) = WORD_LIST ! i
               \<longrightarrow> of_nat i * (1 - 1 / 2 ^ 53) \<le> u * 51 \<and> u * 51 < of_nat i + 1)) \<and>
         usedWords (snd (getRandomWord u r)) = [] \<and>
         fst (getRandomWord u (snd (getRandomWord u r))) = fst (getRandomWord u r)"
proof -
  have ex: "unusedWords r = []" using assms(1) by (simp add: exhausted_iff)
  have g: "getRandomWord u r = (randomElement u WORD_LIST, r\<lparr>usedWords := []\<rparr>)"
    by (rule getRandomWord_exhausted [OF ex])
  have un: "unusedWords (r\<lparr>usedWords := []\<rparr>) = WORD_LIST" by (simp add: unusedWords_def)
  have ne: "unusedWords (r\<lparr>usedWords := []\<rparr>) \<noteq> []" using WORD_LIST_nonempty by (simp add: un)
  have g2: "fst (getRandomWord u (r\<lparr>usedWords := []\<rparr>)) = randomElement u WORD_LIST"
    by (simp add: getRandomWord_fresh [OF ne] un)
  have l: "length WORD_LIST < 2 ^ 53" by (simp add: WORD_LIST_length)
  have e: "randomElement u WORD_LIST = WORD_LIST ! nat \<lfloor>js_mul u 51\<rfloor>"
    by (simp add: randomElement_def randomIndex_def WORD_LIST_length)
  have r: "nat \<lfloor>js_mul u 51\<rfloor> < 51"
    using randomElement_index [OF assms(2) WORD_LIST_nonempty l]
    by (simp add: randomIndex_def WORD_LIST_length)
  have m: "randomElement u WORD_LIST \<in> set WORD_LIST"
    by (rule randomElement_member [OF assms(2) WORD_LIST_nonempty l])
  have iv: "\<forall>i < 51.
            (of_nat i \<le> u * 51 \<and> u * 51 \<le> (of_nat i + 1) * (1 - 1 / 2 ^ 53)
               \<longrightarrow> randomElement u WORD_LIST = WORD_LIST ! i) \<and>
            (randomElement u WORD_LIST = WORD_LIST ! i
               \<longrightarrow> of_nat i * (1 - 1 / 2 ^ 53) \<le> u * 51 \<and> u * 51 < of_nat i + 1)"
    using randomElement_interval [OF WORD_LIST_distinct _ assms(2) l]
    by (simp add: WORD_LIST_length)
  show ?thesis
    unfolding g fst_conv snd_conv g2 using e r m iv by simp
qed

text \<open>
  The examples of claim C10: with \<open>Math.random() = 0\<close>, \<open>Queen\<close> twice in a row across the
  exhaustion; with \<open>Math.random() = 0.0196078431372549\<close>, a double below \<open>1/51\<close> whose
  double product with 51 is 1, \<open>Sales Tax\<close> twice in a row.
\<close>

theorem exhausted_pick_not_recorded_witness:
  "fst (getRandomWord 0 (newRoom\<lparr>usedWords := WORD_LIST\<rparr>)) = ''Queen'' \<and>
   usedWords (snd (getRandomWord 0 (newRoom\<lparr>usedWords := WORD_LIST\<rparr>))) = [] \<and>
   fst (getRandomWord 0 (snd (getRandomWord 0 (newRoom\<lparr>usedWords := WORD_LIST\<rparr>)))) = ''Queen'' \<and>
   (1412894000743685 / 72057594037927936 :: rat) * 51 < 1 \<and>
   fst (getRandomWord (1412894000743685 / 72057594037927936) (newRoom\<lparr>usedWords := WORD_LIST\<rparr>))
     = ''Sales Tax'' \<and>
   fst (getRandomWord (1412894000743685 / 72057594037927936)
          (snd (getRandomWord (1412894000743685 / 72057594037927936)
                  (newRoom\<lparr>usedWords := WORD_LIST\<rparr>))))
     = ''Sales Tax''"
proof -
  have h: "set WORD_LIST \<subseteq> set (usedWords (newRoom\<lparr>usedWords := WORD_LIST\<rparr>))" by simp
  have v: "randomValue (1412894000743685 / 72057594037927936)"
    by (simp add: randomValue_def fl_eval)
  have p: "js_mul 0 51 = 0" "js_mul (1412894000743685 / 72057594037927936) 51 = 1"
    by (simp_all add: js_eval fl_eval)
  have q: "WORD_LIST ! 0 = ''Queen''" "WORD_LIST ! Suc 0 = ''Sales Tax''"
    by (simp_all add: WORD_LIST_def)
  have s: "(1412894000743685 / 72057594037927936 :: rat) * 51 < 1" by simp
  note zero = exhausted_pick_not_recorded [OF h randomValue_zero]
    and below = exhausted_pick_not_recorded [OF h v]
  have z1: "fst (getRandomWord 0 (newRoom\<lparr>usedWords := WORD_LIST\<rparr>)) = ''Queen''"
    using zero [THEN conjunct1] by (simp add: p q)
  have b1: "fst (getRandomWord (1412894000743685 / 72057594037927936) (newRoom\<lparr>usedWords := WORD_LIST\<rparr>))
              = ''Sales Tax''"
    using below [THEN conjunct1] by (simp add: p q)
  note rest = conjunct2 [OF conjunct2 [OF conjunct2 [OF conjunct2]]]
  from zero [THEN rest] below [THEN rest] z1 b1 s show ?thesis by simp
qed

subsection \<open>Two games in one room\<close>

lemma marathon3_eq:
  "marathon3 = [''AAAA'' \<mapsto> (marathonRoom 0 (- 1))\<lparr>currentWord := [], timeRemaining := 0\<rparr>]"
  by (simp add: marathon3_def marathon2_def marathon1_def create_room_def createRoom_def
      generateRoomCode_zero join_room_def toUpperCase_aaaa Let_def fresh_def orDefault_def
      start_game_def player_conn_def applySettings_def shuffle_def randomIndex_zero Map_keys_def
      marathonRoom_def)

lemma startTurn_marathon:
  assumes "k < 50"
  shows "fst (startTurn 0 (marathonRoom k 1)) =
           (marathonRoom (Suc k) 0)\<lparr>turnActive := True, timer := True,
              hintInterval := Some (Some ''B'', hintTimes (WORD_LIST ! k) 40)\<rparr>"
    and "fst (startTurn 0 (marathonRoom k 0)) =
           (marathonRoom (Suc k) 1)\<lparr>turnActive := True, timer := True,
              hintInterval := Some (Some ''A'', hintTimes (WORD_LIST ! k) 40)\<rparr>"
  using assms
  by (subst startTurn.simps,
      simp add: marathonRoom_def currentDrawer_def at_index_def Map_get_def Let_def
        draw_in_order [where k = k])+

lemma marathon_turn:
  assumes "k < 50"
  shows "skippedTurn (nextTurnCallback 0) ''B'' [''AAAA'' \<mapsto> marathonRoom k 1]
           = [''AAAA'' \<mapsto> marathonRoom (Suc k) 0]"
    and "skippedTurn (nextTurnCallback 0) ''A'' [''AAAA'' \<mapsto> marathonRoom k 0]
           = [''AAAA'' \<mapsto> marathonRoom (Suc k) 1]"
proof -
  have st: "state (marathonRoom k i) = Playing" for i by (simp add: marathonRoom_def)
  show "skippedTurn (nextTurnCallback 0) ''B'' [''AAAA'' \<mapsto> marathonRoom k 1]
           = [''AAAA'' \<mapsto> marathonRoom (Suc k) 0]"
    by (simp add: skippedTurn_def onRoom_def nextTurnCallback_def st split_beta
        startTurn_marathon(1) [OF assms] skip_word_def player_conn_def)
       (simp add: marathonRoom_def endTurn_def currentDrawer_def at_index_def Let_def)
  show "skippedTurn (nextTurnCallback 0) ''A'' [''AAAA'' \<mapsto> marathonRoom k 0]
           = [''AAAA'' \<mapsto> marathonRoom (Suc k) 1]"
    by (simp add: skippedTurn_def onRoom_def nextTurnCallback_def st split_beta
        startTurn_marathon(2) [OF assms] skip_word_def player_conn_def)
       (simp add: marathonRoom_def endTurn_def currentDrawer_def at_index_def Let_def)
qed

lemma marathon_first_turn:
  "skippedTurn (firstTurnCallback 0) ''B'' marathon3 = [''AAAA'' \<mapsto> marathonRoom 1 0]"
proof -
  have "fst (startTurn 0 ((marathonRoom 0 (- 1))\<lparr>currentWord := [], timeRemaining := 0\<rparr>)) =
           (marathonRoom 1 0)\<lparr>turnActive := True, timer := True,
              hintInterval := Some (Some ''B'', hintTimes (WORD_LIST ! 0) 40)\<rparr>"
    by (subst startTurn.simps)
       (simp add: marathonRoom_def currentDrawer_def at_index_def Map_get_def Let_def
          draw_in_order [where k = 0])
  then show ?thesis
    by (simp add: skippedTurn_def onRoom_def firstTurnCallback_def marathon3_eq split_beta
        skip_word_def player_conn_def)
       (simp add: marathonRoom_def endTurn_def currentDrawer_def at_index_def Let_def)
qed

lemma marathon_two_turns:
  assumes "k + 2 * n \<le> 50"
  shows "(twoTurns ^^ n) [''AAAA'' \<mapsto> marathonRoom k 1] = [''AAAA'' \<mapsto> marathonRoom (k + 2 * n) 1]"
  using assms
proof (induction n)
  case 0
  then show ?case by simp
next
  case (Suc n)
  have k: "k + 2 * n < 50" "Suc (k + 2 * n) < 50" using Suc.prems by simp_all
  have ih: "(twoTurns ^^ n) [''AAAA'' \<mapsto> marathonRoom k 1] = [''AAAA'' \<mapsto> marathonRoom (k + 2 * n) 1]"
    by (rule Suc.IH) (use Suc.prems in simp)
  have "(twoTurns ^^ Suc n) [''AAAA'' \<mapsto> marathonRoom k 1] =
          twoTurns [''AAAA'' \<mapsto> marathonRoom (k + 2 * n) 1]"
    unfolding funpow.simps comp_def ih ..
  also have "\<dots> = [''AAAA'' \<mapsto> marathonRoom (Suc (Suc (k + 2 * n))) 1]"
    unfolding twoTurns_def marathon_turn(1) [OF k(1)] marathon_turn(2) [OF k(2)] ..
  finally have "(twoTurns ^^ Suc n) [''AAAA'' \<mapsto> marathonRoom k 1] =
                  [''AAAA'' \<mapsto> marathonRoom (Suc (Suc (k + 2 * n))) 1]" .
  moreover have "Suc (Suc (k + 2 * n)) = k + 2 * Suc n" by simp
  ultimately show ?case by (simp only:)
qed

lemma marathon50_eq: "marathon50 = [''AAAA'' \<mapsto> marathonRoom 50 1]"
proof -
  have "skippedTurn (nextTurnCallback 0) ''A'' (skippedTurn (firstTurnCallback 0) ''B'' marathon3)
          = [''AAAA'' \<mapsto> marathonRoom 2 1]"
    using marathon_turn(2) [of 1] by (simp add: marathon_first_turn numeral_2_eq_2)
  then show ?thesis
    using marathon_two_turns [of 2 24] by (simp add: marathon50_def)
qed

lemma marathonOver_eq:
  "marathonOver =
     ([''AAAA'' \<mapsto> (marathonRoom 50 0)\<lparr>roundNumber := 51, state := Finished\<rparr>],
      [Emit (ToRoom ''AAAA'') (GameOver (Some ''A'') False),
       Emit (ToSpectators ''AAAA'') (GameOver (Some ''A'') False)])"
  by (simp add: marathonOver_def marathon50_eq onRoom_def nextTurnCallback_def split_beta)
     (subst startTurn.simps,
      simp add: marathonRoom_def Let_def endGame_def getPlayerList_def)+

lemma rematch_eq:
  "rematch =
     ([''AAAA'' \<mapsto> (marathonRoom 50 (- 1))\<lparr>roundNumber := 0\<rparr>],
      [Emit (ToRoom ''AAAA'') (GameStarted 50), Emit (ToSpectators ''AAAA'') (GameStarted 50),
       SetTimeout FirstTurn 2000])"
  by (simp add: rematch_def marathonOver_eq start_game_def player_conn_def applySettings_def
      shuffle_def randomIndex_zero Map_keys_def Let_def marathonRoom_def)

lemma wine: "WORD_LIST ! 50 = ''Wine''" "take 51 WORD_LIST = WORD_LIST"
  by (simp_all add: WORD_LIST_def)

lemma rematchTurn1_eq:
  "rematchTurn1 =
     ([''AAAA'' \<mapsto> (marathonRoom 51 0)\<lparr>roundNumber := 1, turnActive := True, timer := True,
                          hintInterval := Some (Some ''B'', [20])\<rparr>],
      [Emit (ToRoom ''AAAA'') (TurnStart ''B'' ''_ _ _ _'' 1 50 40),
       Emit (ToSocket ''B'') (YourWord ''Wine''),
       Emit (ToSpectators ''AAAA'') (TurnStart ''B'' ''_ _ _ _'' 1 50 40)])"
  by (simp add: rematchTurn1_def rematch_eq onRoom_def firstTurnCallback_def)
     (subst startTurn.simps,
      simp add: marathonRoom_def currentDrawer_def at_index_def Map_get_def Let_def
        draw_in_order [where k = 50] wine generateHint_def hintTimes_def wordLen_def threshold_40)

lemma index_255_256: "randomIndex (255 / 256) 51 = 50"
  by (simp add: randomIndex_def js_eval fl_eval)

lemma rematchTurn2_eq:
  "rematchTurn2 =
     ([''AAAA'' \<mapsto> (marathonRoom 51 1)\<lparr>roundNumber := 2, usedWords := [], turnActive := True,
                          timer := True, hintInterval := Some (Some ''A'', [20])\<rparr>],
      [Emit (ToRoom ''AAAA'') (TurnStart ''A'' ''_ _ _ _'' 2 50 40),
       Emit (ToSocket ''A'') (YourWord ''Wine''),
       Emit (ToSpectators ''AAAA'') (TurnStart ''A'' ''_ _ _ _'' 2 50 40)])"
proof -
  have ex: "getRandomWord (255 / 256) (r\<lparr>usedWords := WORD_LIST\<rparr>) = (''Wine'', r\<lparr>usedWords := []\<rparr>)" for r
  proof -
    have "unusedWords (r\<lparr>usedWords := WORD_LIST\<rparr>) = []" by (simp add: exhausted_iff)
    then show ?thesis
      by (simp add: getRandomWord_exhausted randomElement_def WORD_LIST_length index_255_256 wine)
  qed
  have sk: "fst (skip_word (player_conn ''B'') (fst rematchTurn1)) =
              [''AAAA'' \<mapsto> (marathonRoom 51 0)\<lparr>roundNumber := 1\<rparr>]"
    by (simp add: rematchTurn1_eq skip_word_def player_conn_def split_beta)
       (simp add: marathonRoom_def endTurn_def currentDrawer_def at_index_def Let_def)
  have r: "(marathonRoom 51 0)\<lparr>roundNumber := 1, currentDrawerIndex := 1, roundNumber := 2\<rparr> =
           ((marathonRoom 51 1)\<lparr>roundNumber := 2\<rparr>)\<lparr>usedWords := WORD_LIST\<rparr>"
    by (simp add: marathonRoom_def wine)
  show ?thesis
    unfolding rematchTurn2_def sk
    by (simp add: onRoom_def nextTurnCallback_def marathonRoom_def)
       (subst startTurn.simps,
        simp add: currentDrawer_def at_index_def Map_get_def Let_def wine
          ex [of "\<lparr>code = ''AAAA'', hostId = ''A'',
      players = [(''A'', \<lparr>name = ''Ann'', score = 0\<rparr>), (''B'', \<lparr>name = ''Bob'', score = 0\<rparr>)],
      state = Playing, currentDrawerIndex = 1, currentWord = ''Wine'',
      roundNumber = 2, totalRounds = 50, timePerTurn = 40, timer = False,
      timeRemaining = 40, usedWords = [], correctGuessers = [],
      turnActive = False, playerOrder = [''B'', ''A''], isChampionship = False,
      spectators = [], hintsRevealed = 0, hintInterval = None\<rparr>", simplified]
          generateHint_def hintTimes_def wordLen_def threshold_40)
qed

lemma random_255_256: "randomValue (255 / 256)"
  by (simp add: randomValue_def fl_eval)

text \<open>
  Claim C6 fails as stated. \<open>A\<close> creates a room with \<open>totalRounds = 50\<close>, \<open>B\<close> joins and \<open>A\<close>
  starts the game. With \<open>Math.random()\<close> always 0 its 50 turns, each skipped by its drawer,
  draw the first 50 catalog words, and the callback after the last turn ends the game.
  \<open>A\<close> starts a new game in the room: the used set still holds the 50 words. The first
  turn of the new game draws \<open>Wine\<close>, the one unused word. The second turn, with
  \<open>Math.random() = 255/256\<close>, finds every word used, clears the set and draws \<open>Wine\<close> again:
  a second time in that game, in which no other catalog word has appeared.
\<close>

theorem restarted_game_repeats_word:
  "marathon50 = [''AAAA'' \<mapsto> marathonRoom 50 1] \<and>
   usedWords (marathonRoom 50 1) = take 50 WORD_LIST \<and>
   marathonOver =
     ([''AAAA'' \<mapsto> (marathonRoom 50 0)\<lparr>roundNumber := 51, state := Finished\<rparr>],
      [Emit (ToRoom ''AAAA'') (GameOver (Some ''A'') False),
       Emit (ToSpectators ''AAAA'') (GameOver (Some ''A'') False)]) \<and>
   rematch =
     ([''AAAA'' \<mapsto> (marathonRoom 50 (- 1))\<lparr>roundNumber := 0\<rparr>],
      [Emit (ToRoom ''AAAA'') (GameStarted 50), Emit (ToSpectators ''AAAA'') (GameStarted 50),
       SetTimeout FirstTurn 2000]) \<and>
   state ((marathonRoom 50 (- 1))\<lparr>roundNumber := 0\<rparr>) = Playing \<and>
   usedWords ((marathonRoom 50 (- 1))\<lparr>roundNumber := 0\<rparr>) = take 50 WORD_LIST \<and>
   snd rematchTurn1 =
     [Emit (ToRoom ''AAAA'') (TurnStart ''B'' ''_ _ _ _'' 1 50 40),
      Emit (ToSocket ''B'') (YourWord ''Wine''),
      Emit (ToSpectators ''AAAA'') (TurnStart ''B'' ''_ _ _ _'' 1 50 40)] \<and>
   randomValue (255 / 256) \<and>
   snd rematchTurn2 =
     [Emit (ToRoom ''AAAA'') (TurnStart ''A'' ''_ _ _ _'' 2 50 40),
      Emit (ToSocket ''A'') (YourWord ''Wine''),
      Emit (ToSpectators ''AAAA'') (TurnStart ''A'' ''_ _ _ _'' 2 50 40)] \<and>
   ''Queen'' \<in> set WORD_LIST \<and> ''Queen'' \<noteq> ''Wine''"
proof -
  have q: "''Queen'' \<in> set WORD_LIST" by (simp add: WORD_LIST_def)
  show ?thesis
    using q random_255_256
    by (simp add: marathon50_eq marathonOver_eq rematch_eq rematchTurn1_eq rematchTurn2_eq)
       (simp add: marathonRoom_def)
qed

subsection \<open>Guess evaluation\<close>

lemma take_length_eq_iff: "(take (length g) w = g) = (\<exists>ss. w = g @ ss)"
proof
  assume "take (length g) w = g"
  then have "w = g @ drop (length g) w" by (metis append_take_drop_id)
  then show "\<exists>ss. w = g @ ss" ..
next
  assume "\<exists>ss. w = g @ ss"
  then show "take (length g) w = g" by auto
qed

lemma str_includes_iff: "str_includes w g = (\<exists>ps ss. w = ps @ g @ ss)"
proof (induction w)
  case Nil
  then show ?case by simp
next
  case (Cons c cs)
  have "(\<exists>ps ss. c # cs = ps @ g @ ss) = ((\<exists>ss. c # cs = g @ ss) \<or> (\<exists>ps ss. cs = ps @ g @ ss))"
  proof
    assume "\<exists>ps ss. c # cs = ps @ g @ ss"
    then obtain ps ss where e: "c # cs = ps @ g @ ss" by blast
    show "(\<exists>ss. c # cs = g @ ss) \<or> (\<exists>ps ss. cs = ps @ g @ ss)"
    proof (cases ps)
      case Nil
      with e show ?thesis by auto
    next
      case (Cons p ps')
      with e have "cs = ps' @ g @ ss" by simp
      then show ?thesis by blast
    qed
  next
    assume "(\<exists>ss. c # cs = g @ ss) \<or> (\<exists>ps ss. cs = ps @ g @ ss)"
    then show "\<exists>ps ss. c # cs = ps @ g @ ss"
    proof
      assume "\<exists>ss. c # cs = g @ ss"
      then obtain ss where "c # cs = [] @ g @ ss" by auto
      then show ?thesis by blast
    next
      assume "\<exists>ps ss. cs = ps @ g @ ss"
      then obtain ps ss where "c # cs = (c # ps) @ g @ ss" by auto
      then show ?thesis by blast
    qed
  qed
  then show ?case
    using Cons.IH take_length_eq_iff [of g "c # cs"] by simp
qed

lemma trim_decomposition:
  "\<exists>a b. g = a @ trim g @ b \<and> (\<forall>c\<in>set (a @ b). isWhiteSpace c)"
proof -
  let ?t = "dropWhile isWhiteSpace g"
  have "rev (rev ?t) = rev (dropWhile isWhiteSpace (rev ?t)) @ rev (takeWhile isWhiteSpace (rev ?t))"
    by (metis rev_append takeWhile_dropWhile_id)
  then have "?t = trim g @ rev (takeWhile isWhiteSpace (rev ?t))"
    by (simp only: rev_rev_ident trim_def)
  then have "takeWhile isWhiteSpace g @ ?t =
             takeWhile isWhiteSpace g @ trim g @ rev (takeWhile isWhiteSpace (rev ?t))"
    by simp
  then have "g = takeWhile isWhiteSpace g @ trim g @ rev (takeWhile isWhiteSpace (rev ?t))"
    by (simp only: takeWhile_dropWhile_id)
  moreover have "\<forall>c\<in>set (takeWhile isWhiteSpace g @ rev (takeWhile isWhiteSpace (rev ?t))). isWhiteSpace c"
    by (auto dest: set_takeWhileD)
  ultimately show ?thesis by blast
qed

text \<open>
  Claim C7. A guess handled during an active turn, from a roster player who is neither
  the drawer nor already credited, whose normalisation \<open>toLowerCase (trim g)\<close> differs from
  that of the word, changes nothing in the room and is broadcast (to the room and to the
  spectators) as a chat message with the original text, whose \<open>isClose\<close> flag holds exactly
  when the normalised word contains the normalised guess and that guess has at least 3
  characters, or the normalised guess contains the normalised word. The normalisation
  strips white space at the two ends only: the guess is its trimmed form between two
  runs of white space (TAB, LF, VT, FF, CR, SPACE, NO-BREAK SPACE).
\<close>

theorem wrong_guess_is_chat_message:
  assumes "turnActive r"
    and "currentDrawer r \<noteq> Some p"
    and "p \<notin> set (correctGuessers r)"
    and "Map_get (players r) (Some p) = Some pl"
    and "toLowerCase (trim g) \<noteq> toLowerCase (trim (currentWord r))"
  shows "handleGuess r p g =
           (r, [Emit (ToRoom (code r))
                  (ChatMessage p g
                     (((\<exists>ps ss. toLowerCase (trim (currentWord r)) = ps @ toLowerCase (trim g) @ ss) \<and>
                       3 \<le> length (toLowerCase (trim g))) \<or>
                      (\<exists>ps ss. toLowerCase (trim g) = ps @ toLowerCase (trim (currentWord r)) @ ss))),
                Emit (ToSpectators (code r))
                  (ChatMessage p g
                     (((\<exists>ps ss. toLowerCase (trim (currentWord r)) = ps @ toLowerCase (trim g) @ ss) \<and>
                       3 \<le> length (toLowerCase (trim g))) \<or>
                      (\<exists>ps ss. toLowerCase (trim g) = ps @ toLowerCase (trim (currentWord r)) @ ss)))]) \<and>
         (\<exists>a b. g = a @ trim g @ b \<and> (\<forall>c\<in>set (a @ b). isWhiteSpace c))"
proof -
  have d: "Some p \<noteq> currentDrawer r" using assms(2) by auto
  show ?thesis
    using assms(1,3,4,5) d trim_decomposition [of g]
    by (simp add: handleGuess_def Let_def str_includes_iff)
qed

lemmas string_eval =
  toLowerCase_def trim_def toLower_def isWhiteSpace_def upperCaseLetters_def lowerCaseLetters_def

lemma trim_quee: "toLowerCase (trim '' Quee '') = ''quee''"
  by (simp add: string_eval)

lemma trim_Queen: "toLowerCase (trim ''Queen'') = ''queen''"
  by (simp add: string_eval)

lemma trim_queen: "toLowerCase (trim ''queen'') = ''queen''"
  by (simp add: string_eval)

text \<open>A no-break space (U+00A0) at an end of the guess is stripped as well.\<close>

lemma trim_no_break_space: "toLowerCase (trim (CHR 0xA0 # ''queen'' @ [CHR 0xA0])) = ''queen''"
  by (simp add: string_eval)

text \<open>
  The example of claim C7: in the first turn of the three-player game (word \<open>Queen\<close>,
  drawer \<open>B\<close>), the guess \<open>" Quee "\<close> of \<open>A\<close> is a close guess.
\<close>

theorem wrong_guess_is_chat_message_witness:
  "handleGuess room5 ''A'' '' Quee '' =
     (room5, [Emit (ToRoom ''AAAA'') (ChatMessage ''A'' '' Quee '' True),
              Emit (ToSpectators ''AAAA'') (ChatMessage ''A'' '' Quee '' True)])"
proof -
  have h1: "turnActive room5" by (simp add: room5_def)
  have h2: "currentDrawer room5 \<noteq> Some ''A''"
    by (simp add: room5_def currentDrawer_def at_index_def)
  have h3: "''A'' \<notin> set (correctGuessers room5)" by (simp add: room5_def)
  have h4: "Map_get (players room5) (Some ''A'') = Some \<lparr>name = ''Ann'', score = 0\<rparr>"
    by (simp add: room5_def Map_get_def)
  have w: "currentWord room5 = ''Queen''" by (simp add: room5_def)
  have h5: "toLowerCase (trim '' Quee '') \<noteq> toLowerCase (trim (currentWord room5))"
    by (simp add: w trim_quee trim_Queen)
  have c: "code room5 = ''AAAA''" by (simp add: room5_def)
  have sub: "\<exists>ps ss. ''queen'' = ps @ ''quee'' @ ss"
    using str_includes_iff [of "''queen''" "''quee''"] by simp
  from wrong_guess_is_chat_message [OF h1 h2 h3 h4 h5] sub
  show ?thesis by (simp add: w c trim_quee trim_Queen)
qed

subsection \<open>Hint schedule and turn start\<close>






lemma js_sub_int:
  assumes "\<bar>a\<bar> < 2 ^ 47" and "\<bar>b\<bar> < 2 ^ 47"
  shows "js_sub (of_int a) (of_int b) = of_int (a - b)"
proof -
  have "\<bar>a - b\<bar> < 2 ^ 48" using assms by simp
  then have "fl (of_int (a - b)) = of_int (a - b)" by (rule fl_of_int)
  then show ?thesis by (simp add: js_sub_def)
qed


lemma startTurn_ends_game:
  assumes "totalRounds (advanced r) < of_int (roundNumber (advanced r))"
  shows "startTurn u r = endGame (advanced r)"
  using assms unfolding advanced_def
  by (subst startTurn.simps) (simp add: Let_def)

lemma startTurn_begins:
  assumes "\<not> totalRounds (advanced r) < of_int (roundNumber (advanced r))"
    and "currentDrawer (advanced r) = Some d"
    and "Map_get (players (advanced r)) (Some d) = Some p"
  shows "fst (startTurn u r) = begun u d (advanced r)"
  using assms unfolding advanced_def begun_def
  by (subst startTurn.simps) (simp add: Let_def split: prod.splits)

lemma startTurn_skips:
  assumes "\<not> totalRounds (advanced r) < of_int (roundNumber (advanced r))"
    and "Map_get (players (advanced r)) (currentDrawer (advanced r)) = None"
  shows "startTurn u r = startTurn u (advanced r)"
  using assms unfolding advanced_def
  by (subst startTurn.simps) (auto simp: Let_def Map_get_def split: option.splits)

lemma startTurn_induct_rule:
  assumes "\<And>r. (\<not> totalRounds (advanced r) < of_int (roundNumber (advanced r)) \<Longrightarrow>
                   Map_get (players (advanced r)) (currentDrawer (advanced r)) = None \<Longrightarrow>
                   P (advanced r)) \<Longrightarrow> P r"
  shows "P r"
proof (induction "nat (\<lfloor>totalRounds r\<rfloor> - roundNumber r)" arbitrary: r rule: less_induct)
  case less
  show ?case
  proof (rule assms)
    assume "\<not> totalRounds (advanced r) < of_int (roundNumber (advanced r))"
    then have "of_int (roundNumber r + 1) \<le> totalRounds r" by (simp add: advanced_def)
    then have "roundNumber r + 1 \<le> \<lfloor>totalRounds r\<rfloor>" by (simp only: le_floor_iff)
    then have "nat (\<lfloor>totalRounds (advanced r)\<rfloor> - roundNumber (advanced r))
                 < nat (\<lfloor>totalRounds r\<rfloor> - roundNumber r)"
      by (simp add: advanced_def)
    then show "P (advanced r)" by (rule less)
  qed
qed

lemma begun_fields:
  "turnActive (begun u d r)" "correctGuessers (begun u d r) = []" "hintsRevealed (begun u d r) = 0"
  "timeRemaining (begun u d r) = timePerTurn (begun u d r)" "timer (begun u d r)"
  "state (begun u d r) = Playing"
  "hintInterval (begun u d r) = Some (Some d, hintTimes (currentWord (begun u d r)) (timePerTurn (begun u d r)))"
  "players (begun u d r) = players r" "playerOrder (begun u d r) = playerOrder r"
  "currentDrawerIndex (begun u d r) = currentDrawerIndex r"
  "timePerTurn (begun u d r) = timePerTurn r" "totalRounds (begun u d r) = totalRounds r"
  by (simp_all add: begun_def getRandomWord_def Let_def split: prod.splits)

text \<open>What \<open>startTurn\<close> leaves when it does not end the game: a started turn.\<close>

lemma startTurn_started:
  "state (fst (startTurn u r)) \<noteq> Finished \<Longrightarrow>
     turnActive (fst (startTurn u r)) \<and>
     correctGuessers (fst (startTurn u r)) = [] \<and>
     hintsRevealed (fst (startTurn u r)) = 0 \<and>
     timeRemaining (fst (startTurn u r)) = timePerTurn (fst (startTurn u r)) \<and>
     timer (fst (startTurn u r)) \<and>
     hintInterval (fst (startTurn u r)) =
       Some (currentDrawer (fst (startTurn u r)),
             hintTimes (currentWord (fst (startTurn u r))) (timePerTurn (fst (startTurn u r))))"
proof (induction r rule: startTurn_induct_rule)
  case (1 r)
  show ?case
  proof (cases "totalRounds (advanced r) < of_int (roundNumber (advanced r))")
    case True
    with "1.prems" show ?thesis
      by (simp add: startTurn_ends_game endGame_def Let_def)
  next
    case False
    show ?thesis
    proof (cases "Map_get (players (advanced r)) (currentDrawer (advanced r))")
      case None
      with False "1.IH" "1.prems" show ?thesis
        by (simp add: startTurn_skips)
    next
      case (Some p)
      then obtain d where d: "currentDrawer (advanced r) = Some d"
        by (cases "currentDrawer (advanced r)") (auto simp: Map_get_def)
      with Some have p: "Map_get (players (advanced r)) (Some d) = Some p" by simp
      have "currentDrawer (begun u d (advanced r)) = Some d"
        using d by (simp add: currentDrawer_def begun_fields)
      then show ?thesis
        by (simp add: startTurn_begins [OF False d p] begun_fields)
    qed
  qed
qed














subsection \<open>The score of a correct guess\<close>

lemma fl_ge_one:
  assumes "1 \<le> x"
  shows "1 \<le> fl x"
proof -
  define e where "e = lg_up x"
  define s :: rat where "s = 2 powi (52 - int e)"
  have spos: "0 < s" by (simp add: s_def)
  have x: "x \<noteq> 0" "\<bar>x\<bar> = x" "sgn x = 1" using assms by auto
  have ex: "exponent x = int e" using assms by (simp add: exponent_def e_def)
  have fx: "fl x = of_int (roundTiesToEven (x * s)) / s"
    using x by (simp add: fl_def ex s_def Let_def)
  have pe: "(2::rat) ^ e \<le> x" unfolding e_def by (rule lg_up_lower [OF assms])
  have "(2::rat) powi (int e + (52 - int e)) = 2 powi int e * 2 powi (52 - int e)"
    by (rule power_int_add) simp
  moreover have "int e + (52 - int e) = 52" by simp
  ultimately have "(2::rat) powi 52 = 2 powi int e * s" unfolding s_def by (simp only:)
  then have es: "(2::rat) ^ e * s = 2 ^ 52" by simp
  have "(2::rat) ^ e * s \<le> x * s" using pe spos by (simp add: mult_right_mono)
  then have "(2::rat) ^ 52 \<le> x * s" using es by simp
  then have "(2::int) ^ 52 \<le> \<lfloor>x * s\<rfloor>" by (simp add: le_floor_iff)
  then have "(2::int) ^ 52 \<le> roundTiesToEven (x * s)"
    using roundTiesToEven_ge_floor [of "x * s"] by linarith
  then have "(of_int ((2::int) ^ 52) :: rat) \<le> of_int (roundTiesToEven (x * s))"
    by (simp only: of_int_le_iff)
  then have "(2::rat) ^ e * s \<le> of_int (roundTiesToEven (x * s))" using es by simp
  then have "(2::rat) ^ e \<le> of_int (roundTiesToEven (x * s)) / s"
    using spos by (simp add: pos_le_divide_eq)
  moreover have "(1::rat) \<le> 2 ^ e" by simp
  ultimately show ?thesis unfolding fx by linarith
qed

lemma fl_nonpos:
  assumes "x \<le> 0"
  shows "fl x \<le> 0"
proof (cases "x = 0")
  case True
  then show ?thesis by (simp add: fl_def)
next
  case False
  define s :: rat where "s = 2 powi (52 - exponent \<bar>x\<bar>)"
  have spos: "0 < s" by (simp add: s_def)
  have "0 \<le> \<bar>x\<bar> * s" using spos by simp
  then have "0 \<le> \<lfloor>\<bar>x\<bar> * s\<rfloor>" by simp
  then have "0 \<le> roundTiesToEven (\<bar>x\<bar> * s)"
    using roundTiesToEven_ge_floor [of "\<bar>x\<bar> * s"] by linarith
  then have "0 \<le> (of_int (roundTiesToEven (\<bar>x\<bar> * s)) :: rat) / s" using spos by simp
  moreover have "fl x = - (of_int (roundTiesToEven (\<bar>x\<bar> * s)) / s)"
    using False assms by (simp add: fl_def s_def Let_def)
  ultimately show ?thesis by simp
qed

lemma literal_015: "js_literal (15 / 100) = 5404319552844595 / 36028797018963968"
  by (simp add: js_eval fl_eval)

lemma orderBonus_beyond_seventh:
  assumes "7 < k"
  shows "orderBonus k = 0"
proof -
  have "(7::rat) \<le> of_int (k - 1)" using assms by simp
  then have "7 * (5404319552844595 / 36028797018963968 :: rat)
               \<le> of_int (k - 1) * (5404319552844595 / 36028797018963968)"
    by (rule mult_right_mono) simp
  then have "1 \<le> of_int (k - 1) * js_literal (15 / 100)"
    unfolding literal_015 by simp
  then have "1 \<le> js_mul (of_int (k - 1)) (js_literal (15 / 100))"
    unfolding js_mul_def by (rule fl_ge_one)
  then have "js_sub 1 (js_mul (of_int (k - 1)) (js_literal (15 / 100))) \<le> 0"
    unfolding js_sub_def by (intro fl_nonpos) simp
  then show ?thesis by (simp add: orderBonus_def)
qed

lemma Math_round_zero: "Math_round 0 = 0"
proof -
  have "\<lfloor>(1 / 2 :: rat)\<rfloor> = 0" by (simp add: floor_eq_iff)
  then show ?thesis by (simp add: Math_round_def)
qed

lemma guesserPoints_beyond_seventh: "7 < k \<Longrightarrow> guesserPoints t k = 0"
  by (simp add: guesserPoints_def orderBonus_beyond_seventh js_mul_def fl_def Math_round_zero)

lemma points_examples:
  "guesserPoints (3 / 4) 1 = 425" "drawerPoints (3 / 4) = 125" "guesserPoints (3 / 4) 2 = 361"
  by (simp_all add: guesserPoints_def drawerPoints_def orderBonus_def js_eval fl_eval)

lemma js_div_30_40: "js_div 30 40 = 3 / 4"
  by (simp add: js_eval fl_eval)

text \<open>
  The formula evaluated in the reals differs. At \<open>timeRemaining = 22\<close>, \<open>timePerTurn = 40\<close>
  and rank 3 its value before rounding is \<open>365 * 0.7 = 255.5\<close>, which rounds to 256, a tie
  going up or to the even neighbour; the double product is \<open>255.49999999999997\<close> and the
  program gives 255. At \<open>timeRemaining = 18\<close> the formula gives \<open>round 234.5 = 235\<close> and the
  program 234.
\<close>

lemma js_div_22_40: "js_div 22 40 = 2476979795053773 / 4503599627370496"
  by (simp add: js_eval fl_eval)

lemma points_22_40:
  "guesserPoints (2476979795053773 / 4503599627370496) 1 = 365"
  "guesserPoints (2476979795053773 / 4503599627370496) 2 = 310"
  "guesserPoints (2476979795053773 / 4503599627370496) 3 = 255"
  "drawerPoints (2476979795053773 / 4503599627370496) = 105"
  by (simp_all add: guesserPoints_def drawerPoints_def orderBonus_def js_eval fl_eval)

lemma points_18_40: "guesserPoints (js_div 18 40) 3 = 234"
  by (simp add: guesserPoints_def orderBonus_def js_eval fl_eval)

lemma claimed_points:
  "claimedGuesserPoints (22 / 40) 3 = 256" "claimedGuesserPoints (18 / 40) 3 = 235"
  "claimedDrawerPoints (22 / 40) = 105"
  "(200 + 300 * (22 / 40)) * max 0 (1 - (15 / 100) * of_int (3 - 1)) = (511 / 2 :: rat)"
  by (simp_all add: claimedGuesserPoints_def claimedDrawerPoints_def Math_round_def floor_numeral_div)

lemma Map_get_addScore:
  "Map_get (addScore k n m) (Some k') =
     (if k' = k then map_option (\<lambda>q. q\<lparr>score := score q + n\<rparr>) (Map_get m (Some k))
      else Map_get m (Some k'))"
  by (induction m) (auto simp: Map_get_def addScore_def)

lemma Map_keys_addScore: "Map_keys (addScore k n m) = Map_keys m"
  by (induction m) (auto simp: Map_keys_def addScore_def)

lemma endTurn_fields:
  "players (fst (endTurn r w)) = players r" "correctGuessers (fst (endTurn r w)) = correctGuessers r"
  "playerOrder (fst (endTurn r w)) = playerOrder r"
  "currentDrawerIndex (fst (endTurn r w)) = currentDrawerIndex r"
  "turnActive (fst (endTurn r w)) = False" "timer (fst (endTurn r w)) = False"
  "hintInterval (fst (endTurn r w)) = None" "state (fst (endTurn r w)) = state r"
  by (simp_all add: endTurn_def Let_def)

text \<open>The room a correct guess leaves, up to the end of the turn it may trigger.\<close>

lemma handleGuess_correct:
  assumes "turnActive r" and "currentDrawer r = Some d" and "p \<noteq> d"
    and "p \<notin> set (correctGuessers r)"
    and "Map_get (players r) (Some p) = Some pl"
    and "Map_get (players r) (Some d) = Some dl"
    and "toLowerCase (trim g) = toLowerCase (trim (currentWord r))"
  shows "correctGuessers (fst (handleGuess r p g)) = correctGuessers r @ [p]"
    and "players (fst (handleGuess r p g)) =
           addScore d (drawerPoints (js_div (timeRemaining r) (timePerTurn r)))
             (addScore p (guesserPoints (js_div (timeRemaining r) (timePerTurn r))
                            (int (length (correctGuessers r)) + 1))
                (players r))"
proof -
  have nd: "Some p \<noteq> Some d" using assms(3) by simp
  have dl': "Map_get (addScore p n (players r)) (Some d) = Some dl" for n
    using assms(3,6) by (simp add: Map_get_addScore)
  show "correctGuessers (fst (handleGuess r p g)) = correctGuessers r @ [p]"
    using assms(1,2,4,5,7) nd dl'
    by (simp add: handleGuess_def Let_def Set_add_def endTurn_fields split: prod.splits)
       (simp add: endTurn_def Let_def)
  show "players (fst (handleGuess r p g)) =
           addScore d (drawerPoints (js_div (timeRemaining r) (timePerTurn r)))
             (addScore p (guesserPoints (js_div (timeRemaining r) (timePerTurn r))
                            (int (length (correctGuessers r)) + 1))
                (players r))"
    using assms(1,2,4,5,7) nd dl'
    by (simp add: handleGuess_def Let_def Set_add_def endTurn_fields split: prod.splits)
       (simp add: endTurn_def Let_def add.commute)
qed

text \<open>
  Claim C2, amended. A correct guess handled during an active turn (the guesser \<open>p\<close> a
  roster player other than the drawer \<open>d\<close> and not yet credited, the drawer in the roster)
  appends \<open>p\<close> to \<open>correctGuessers\<close>, so that the rank of \<open>p\<close> is the new size of the set,
  adds \<open>guesserPoints t rank\<close> to the score of \<open>p\<close> and \<open>drawerPoints t\<close> to the score of \<open>d\<close>,
  with \<open>t\<close> the double quotient \<open>timeRemaining / timePerTurn\<close>. The two are the values of the
  expressions \<open>Math.round((200 + 300 * t) * Math.max(0, 1 - (rank - 1) * 0.15))\<close> and
  \<open>Math.round(50 + 100 * t)\<close> in double arithmetic, every operation rounded to the nearest
  double, and so functions of \<open>t\<close> and the rank alone. At \<open>t = 0.75\<close> they give 425 and 125
  for rank 1 and 361 for rank 2; from rank 8 on the guesser gets 0. They are not always
  the values of the formula over the reals: at 22 of 40 seconds and rank 3 the guesser
  gets 255 and at 18 of 40 seconds 234, where the formula gives 256 and 235.
\<close>

theorem correct_guess_points:
  assumes "turnActive r" and "currentDrawer r = Some d" and "p \<noteq> d"
    and "p \<notin> set (correctGuessers r)"
    and "Map_get (players r) (Some p) = Some pl"
    and "Map_get (players r) (Some d) = Some dl"
    and "toLowerCase (trim g) = toLowerCase (trim (currentWord r))"
    and "timePerTurn r \<noteq> 0"
  shows "correctGuessers (fst (handleGuess r p g)) = correctGuessers r @ [p] \<and>
         map_option score (Map_get (players (fst (handleGuess r p g))) (Some p)) =
           Some (score pl +
                 guesserPoints (js_div (timeRemaining r) (timePerTurn r))
                   (int (length (correctGuessers r @ [p])))) \<and>
         map_option score (Map_get (players (fst (handleGuess r p g))) (Some d)) =
           Some (score dl + drawerPoints (js_div (timeRemaining r) (timePerTurn r))) \<and>
         (\<forall>t k. guesserPoints t k =
            Math_round (js_mul (js_add 200 (js_mul 300 t))
                          (max 0 (js_sub 1 (js_mul (of_int (k - 1)) (js_literal (15 / 100))))))) \<and>
         (\<forall>t. drawerPoints t = Math_round (js_add 50 (js_mul 100 t))) \<and>
         guesserPoints (3 / 4) 1 = 425 \<and> drawerPoints (3 / 4) = 125 \<and>
         guesserPoints (3 / 4) 2 = 361 \<and>
         (\<forall>t k. 7 < k \<longrightarrow> guesserPoints t k = 0) \<and>
         guesserPoints (js_div 22 40) 3 = 255 \<and> claimedGuesserPoints (22 / 40) 3 = 256 \<and>
         guesserPoints (js_div 18 40) 3 = 234 \<and> claimedGuesserPoints (18 / 40) 3 = 235"
proof -
  note hg = handleGuess_correct [OF assms(1-7)]
  show ?thesis
    using assms(3,5,6) points_examples guesserPoints_beyond_seventh points_22_40(3) points_18_40
      claimed_points(1,2)
    by (simp add: hg Map_get_addScore js_div_22_40)
       (simp add: guesserPoints_def drawerPoints_def orderBonus_def)
qed

text \<open>
  The example of the amended claim C2: in the first turn of the three-player game, with
  30 of the 40 seconds left, the first correct guesser \<open>A\<close> gets 425 points and the drawer
  \<open>B\<close> 125; a guesser who is second at the same time gets 361.
\<close>

theorem correct_guess_points_witness:
  "map_option score
     (Map_get (players (fst (handleGuess (room5\<lparr>timeRemaining := 30\<rparr>) ''A'' ''queen''))) (Some ''A''))
     = Some 425 \<and>
   map_option score
     (Map_get (players (fst (handleGuess (room5\<lparr>timeRemaining := 30\<rparr>) ''A'' ''queen''))) (Some ''B''))
     = Some 125 \<and>
   map_option score
     (Map_get (players (fst (handleGuess (room5\<lparr>timeRemaining := 30, correctGuessers := [''A'']\<rparr>)
                               ''C'' ''queen''))) (Some ''C''))
     = Some 361"
proof -
  note n = trim_queen
  have f: "turnActive (room5\<lparr>timeRemaining := 30\<rparr>)"
          "currentDrawer (room5\<lparr>timeRemaining := 30\<rparr>) = Some ''B''"
          "''A'' \<noteq> ''B''" "''A'' \<notin> set (correctGuessers (room5\<lparr>timeRemaining := 30\<rparr>))"
          "Map_get (players (room5\<lparr>timeRemaining := 30\<rparr>)) (Some ''A'') = Some \<lparr>name = ''Ann'', score = 0\<rparr>"
          "Map_get (players (room5\<lparr>timeRemaining := 30\<rparr>)) (Some ''B'') = Some \<lparr>name = ''Bob'', score = 0\<rparr>"
          "toLowerCase (trim ''queen'') = toLowerCase (trim (currentWord (room5\<lparr>timeRemaining := 30\<rparr>)))"
    by (simp_all add: room5_def currentDrawer_def at_index_def Map_get_def n trim_Queen)
  have s: "turnActive (room5\<lparr>timeRemaining := 30, correctGuessers := [''A'']\<rparr>)"
          "currentDrawer (room5\<lparr>timeRemaining := 30, correctGuessers := [''A'']\<rparr>) = Some ''B''"
          "''C'' \<noteq> ''B''"
          "''C'' \<notin> set (correctGuessers (room5\<lparr>timeRemaining := 30, correctGuessers := [''A'']\<rparr>))"
          "Map_get (players (room5\<lparr>timeRemaining := 30, correctGuessers := [''A'']\<rparr>)) (Some ''C'')
             = Some \<lparr>name = ''Cy'', score = 0\<rparr>"
          "Map_get (players (room5\<lparr>timeRemaining := 30, correctGuessers := [''A'']\<rparr>)) (Some ''B'')
             = Some \<lparr>name = ''Bob'', score = 0\<rparr>"
          "toLowerCase (trim ''queen'')
             = toLowerCase (trim (currentWord (room5\<lparr>timeRemaining := 30, correctGuessers := [''A'']\<rparr>)))"
    by (simp_all add: room5_def currentDrawer_def at_index_def Map_get_def n trim_Queen)
  have z: "timePerTurn (room5\<lparr>timeRemaining := 30\<rparr>) \<noteq> 0"
          "timePerTurn (room5\<lparr>timeRemaining := 30, correctGuessers := [''A'']\<rparr>) \<noteq> 0"
    by (simp_all add: room5_def)
  have t: "timeRemaining (room5\<lparr>timeRemaining := 30\<rparr>) = 30"
          "timePerTurn (room5\<lparr>timeRemaining := 30\<rparr>) = 40"
          "correctGuessers (room5\<lparr>timeRemaining := 30\<rparr>) = []"
          "timeRemaining (room5\<lparr>timeRemaining := 30, correctGuessers := [''A'']\<rparr>) = 30"
          "timePerTurn (room5\<lparr>timeRemaining := 30, correctGuessers := [''A'']\<rparr>) = 40"
          "correctGuessers (room5\<lparr>timeRemaining := 30, correctGuessers := [''A'']\<rparr>) = [''A'']"
    by (simp_all add: room5_def)
  note first = correct_guess_points [OF f z(1)] and second = correct_guess_points [OF s z(2)]
  from first [THEN conjunct2, THEN conjunct1]
  have a: "map_option score
     (Map_get (players (fst (handleGuess (room5\<lparr>timeRemaining := 30\<rparr>) ''A'' ''queen''))) (Some ''A''))
     = Some 425"
    by (simp add: t js_div_30_40 points_examples)
  from first [THEN conjunct2, THEN conjunct2, THEN conjunct1]
  have b: "map_option score
     (Map_get (players (fst (handleGuess (room5\<lparr>timeRemaining := 30\<rparr>) ''A'' ''queen''))) (Some ''B''))
     = Some 125"
    by (simp add: t js_div_30_40 points_examples)
  from second [THEN conjunct2, THEN conjunct1]
  have c: "map_option score
     (Map_get (players (fst (handleGuess (room5\<lparr>timeRemaining := 30, correctGuessers := [''A'']\<rparr>)
                               ''C'' ''queen''))) (Some ''C''))
     = Some 361"
    by (simp add: t js_div_30_40 points_examples)
  from a b c show ?thesis by (intro conjI)
qed

lemma quadRooms3_eq: "quadRooms3 = [''AAAA'' \<mapsto> quadRoom 40]"
proof -
  have q2: "quadRooms2 = [''AAAA'' \<mapsto> (quadRoom 0)\<lparr>currentDrawerIndex := - 1, currentWord := [],
            roundNumber := 0, timer := False, usedWords := [], turnActive := False,
            hintInterval := None\<rparr>]"
    by (simp add: quadRooms2_def quadRooms1_def rooms3_eq join_room_def toUpperCase_aaaa Let_def
        fresh_def start_game_def player_conn_def applySettings_def shuffle_def randomIndex_zero
        Map_keys_def quadRoom_def eval_nat_numeral)
  have q: "WORD_LIST ! 0 = ''Queen''" "take (Suc 0) WORD_LIST = [''Queen'']"
    by (simp_all add: WORD_LIST_def)
  have st: "fst (startTurn 0 ((quadRoom 0)\<lparr>currentDrawerIndex := - 1, currentWord := [],
            roundNumber := 0, timer := False, usedWords := [], turnActive := False,
            hintInterval := None\<rparr>)) = quadRoom 40"
    by (subst startTurn.simps)
       (simp add: quadRoom_def currentDrawer_def at_index_def Map_get_def Let_def
          draw_in_order [where k = 0] q hintTimes_def wordLen_def threshold_40)
  show ?thesis
    by (simp add: quadRooms3_def q2 onRoom_def firstTurnCallback_def split_beta st)
qed

lemma quad_second:
  assumes "n < 19"
  shows "second [''AAAA'' \<mapsto> quadRoom (40 - of_nat n)] =
           [''AAAA'' \<mapsto> quadRoom (40 - of_nat (Suc n))]"
proof -
  have b: "\<bar>40 - int n\<bar> < 2 ^ 47" "\<bar>1::int\<bar> < 2 ^ 47" "\<bar>40::int\<bar> < 2 ^ 47"
    "\<bar>39 - int n\<bar> < 2 ^ 47" "\<bar>20::int\<bar> < 2 ^ 47"
    using assms by simp_all
  have t: "js_sub (40 - of_nat n) 1 = 40 - of_nat (Suc n)"
    using js_sub_int [OF b(1,2)] by (simp add: algebra_simps)
  have e: "js_sub 40 (40 - of_nat (Suc n)) = of_nat (Suc n)"
    using js_sub_int [OF b(3,4)] by (simp add: algebra_simps)
  have th: "js_sub 40 20 = 20" using js_sub_int [OF b(3,5)] by simp
  have le: "(of_nat (Suc n) :: rat) \<le> of_nat 19" using assms by (simp only: of_nat_le_iff)
  have pos: "\<not> (40 - of_nat (Suc n) :: rat) \<le> 0" using le by simp
  have late: "\<not> (20 :: rat) \<le> of_nat (Suc n)" using le by simp
  have tick: "fst (timerTick (quadRoom (40 - of_nat n))) = quadRoom (40 - of_nat (Suc n))"
    using pos by (simp add: timerTick_def quadRoom_def Let_def t del: of_nat_Suc)
  have hint: "hintTick (quadRoom (40 - of_nat (Suc n))) = (quadRoom (40 - of_nat (Suc n)), [])"
    using late
    by (simp add: hintTick_def quadRoom_def Let_def shouldReveal_def e th del: of_nat_Suc)
  show ?thesis
    by (simp add: second_def onRoom_def split_beta tick hint del: of_nat_Suc)
qed

lemma quad_seconds:
  assumes "n \<le> 19"
  shows "(second ^^ n) quadRooms3 = [''AAAA'' \<mapsto> quadRoom (40 - of_nat n)]"
  using assms
proof (induction n)
  case 0
  then show ?case by (simp add: quadRooms3_eq)
next
  case (Suc n)
  have ih: "(second ^^ n) quadRooms3 = [''AAAA'' \<mapsto> quadRoom (40 - of_nat n)]"
    by (rule Suc.IH) (use Suc.prems in simp)
  have n: "n < 19" using Suc.prems by simp
  show ?case unfolding funpow.simps comp_def ih quad_second [OF n] ..
qed

lemma quadRooms4_eq: "quadRooms4 = [''AAAA'' \<mapsto> quadRoom 22]"
  using quad_seconds [of 18] by (simp add: quadRooms4_def)

lemmas guess_eval =
  guess_event_def handleGuess_def endTurn_def player_conn_def currentDrawer_def at_index_def
  Map_get_def Map_keys_def Set_add_def addScore_def Let_def trim_queen trim_Queen
  js_div_22_40 points_22_40

lemma quadGuessA_eq:
  "fst quadGuessA =
     [''AAAA'' \<mapsto> (quadRoom 22)\<lparr>players := [(''A'', \<lparr>name = ''Ann'', score = 365\<rparr>),
                                              (''B'', \<lparr>name = ''Bob'', score = 105\<rparr>),
                                              (''C'', \<lparr>name = ''Cy'', score = 0\<rparr>),
                                              (''D'', \<lparr>name = ''Dee'', score = 0\<rparr>)],
                                 correctGuessers := [''A'']\<rparr>]"
  by (simp add: quadGuessA_def quadRooms4_eq quadRoom_def guess_eval)

lemma quadGuessC_eq:
  "fst quadGuessC =
     [''AAAA'' \<mapsto> (quadRoom 22)\<lparr>players := [(''A'', \<lparr>name = ''Ann'', score = 365\<rparr>),
                                              (''B'', \<lparr>name = ''Bob'', score = 210\<rparr>),
                                              (''C'', \<lparr>name = ''Cy'', score = 310\<rparr>),
                                              (''D'', \<lparr>name = ''Dee'', score = 0\<rparr>)],
                                 correctGuessers := [''A'', ''C'']\<rparr>]"
  by (simp add: quadGuessC_def quadGuessA_eq quadRoom_def guess_eval)

text \<open>
  Claim C2 fails as stated. In the first turn of a game of four players with 40 seconds
  per turn (drawer \<open>B\<close>, word \<open>Queen\<close>), 18 seconds pass and then \<open>A\<close>, \<open>C\<close> and \<open>D\<close> guess the
  word. \<open>D\<close> is third, with 22 of 40 seconds left: the formula's value is
  \<open>round (365 * 0.7) = round 255.5 = 256\<close>, and the program adds 255 to the score of \<open>D\<close>
  and announces 255 points.
\<close>

theorem third_guesser_gets_255:
  "quadRooms4 = [''AAAA'' \<mapsto> quadRoom 22] \<and>
   timeRemaining (quadRoom 22) = 22 \<and> timePerTurn (quadRoom 22) = 40 \<and>
   quadGuessD =
     ([''AAAA'' \<mapsto> (quadRoom 22)\<lparr>players := [(''A'', \<lparr>name = ''Ann'', score = 365\<rparr>),
                                               (''B'', \<lparr>name = ''Bob'', score = 315\<rparr>),
                                               (''C'', \<lparr>name = ''Cy'', score = 310\<rparr>),
                                               (''D'', \<lparr>name = ''Dee'', score = 255\<rparr>)],
                                  timer := False, correctGuessers := [''A'', ''C'', ''D''],
                                  turnActive := False, hintInterval := None\<rparr>],
      [Emit (ToRoom ''AAAA'') (CorrectGuess ''D'' 255 105),
       Emit (ToSpectators ''AAAA'') (CorrectGuess ''D'' 255 105),
       Emit (ToSocket ''D'') (YouGuessedCorrectly ''Queen''),
       Emit (ToRoom ''AAAA'') (TurnEnd ''Queen'' True 1 10),
       Emit (ToSpectators ''AAAA'') (TurnEnd ''Queen'' True 1 10),
       SetTimeout NextTurn 3000]) \<and>
   (200 + 300 * (22 / 40)) * max 0 (1 - (15 / 100) * of_int (3 - 1)) = (511 / 2 :: rat) \<and>
   claimedGuesserPoints (22 / 40) 3 = 256 \<and>
   claimedDrawerPoints (22 / 40) = 105"
  using claimed_points
  by (simp add: quadRooms4_eq quadGuessD_def quadGuessC_eq)
     (simp add: quadRoom_def guess_eval)

subsection \<open>Settings at game start\<close>

lemma longRooms2_eq: "longRooms2 = [''AAAA'' \<mapsto> longRoom2]"
  by (simp add: longRooms2_def longRooms1_def create_room_def createRoom_def generateRoomCode_zero
      join_room_def toUpperCase_aaaa Let_def fresh_def orDefault_def longRoom2_def)

lemma shuffle_two: "shuffle (\<lambda>_. 0) [a, b] = [b, a]"
  by (simp add: shuffle_def randomIndex_zero)

text \<open>
  Claim C4 fails as stated: the room created with \<open>totalRounds = 100\<close> and
  \<open>timePerTurn = 5\<close> and started without settings plays with exactly these values.
\<close>

theorem start_game_keeps_unbounded_settings:
  "start_game parseInt_of_100 (\<lambda>_. 0) (player_conn ''A'') None longRooms2 =
     ([''AAAA'' \<mapsto> longRoom2\<lparr>state := Playing, playerOrder := [''B'', ''A'']\<rparr>],
      [Emit (ToRoom ''AAAA'') (GameStarted 100), Emit (ToSpectators ''AAAA'') (GameStarted 100),
       SetTimeout FirstTurn 2000]) \<and>
   totalRounds (longRoom2\<lparr>state := Playing, playerOrder := [''B'', ''A'']\<rparr>) = 100 \<and>
   timePerTurn (longRoom2\<lparr>state := Playing, playerOrder := [''B'', ''A'']\<rparr>) = 5"
  by (simp add: start_game_def longRooms2_eq player_conn_def applySettings_def Map_keys_def
      shuffle_two Let_def longRoom2_def)

lemma clampSetting_range:
  assumes "lo \<le> hi"
  shows "lo \<le> clampSetting parseInt v d lo hi \<and> clampSetting parseInt v d lo hi \<le> hi"
  using assms by (simp add: clampSetting_def)

lemma clampSetting_bounds:
  "(3::rat) \<le> of_int (clampSetting parseInt v 10 3 30) \<and>
   (of_int (clampSetting parseInt v 10 3 30) :: rat) \<le> 30"
  "(15::rat) \<le> of_int (clampSetting parseInt v 40 15 90) \<and>
   (of_int (clampSetting parseInt v 40 15 90) :: rat) \<le> 90"
proof -
  have "(of_int 3 :: rat) \<le> of_int (clampSetting parseInt v 10 3 30) \<and>
        (of_int (clampSetting parseInt v 10 3 30) :: rat) \<le> of_int 30"
    using clampSetting_range [of 3 30 parseInt v 10] by (simp only: of_int_le_iff)
  then show "(3::rat) \<le> of_int (clampSetting parseInt v 10 3 30) \<and>
   (of_int (clampSetting parseInt v 10 3 30) :: rat) \<le> 30" by simp
  have "(of_int 15 :: rat) \<le> of_int (clampSetting parseInt v 40 15 90) \<and>
        (of_int (clampSetting parseInt v 40 15 90) :: rat) \<le> of_int 90"
    using clampSetting_range [of 15 90 parseInt v 40] by (simp only: of_int_le_iff)
  then show "(15::rat) \<le> of_int (clampSetting parseInt v 40 15 90) \<and>
   (of_int (clampSetting parseInt v 40 15 90) :: rat) \<le> 90" by simp
qed

lemma applySettings_rounds:
  "totalRounds (applySettings parseInt settings r) =
     (case settings of
        None \<Rightarrow> totalRounds r
      | Some s \<Rightarrow> if truthy (settingsTotalRounds s)
                  then of_int (clampSetting parseInt (settingsTotalRounds s) 10 3 30)
                  else totalRounds r)"
  by (simp add: applySettings_def Let_def split: option.splits)

lemma applySettings_time:
  "timePerTurn (applySettings parseInt settings r) =
     (case settings of
        None \<Rightarrow> timePerTurn r
      | Some s \<Rightarrow> if truthy (settingsTimePerTurn s)
                  then of_int (clampSetting parseInt (settingsTimePerTurn s) 40 15 90)
                  else timePerTurn r)"
  by (simp add: applySettings_def Let_def split: option.splits)

text \<open>
  Claim C4, amended. A successful \<open>start_game\<close> (the requester is the host of its room,
  which has at least 2 players) puts the room in state \<open>playing\<close>; afterwards
  \<open>totalRounds\<close> is within 3..30 when the request carries settings with a truthy
  \<open>totalRounds\<close>, and is otherwise what it was before; \<open>timePerTurn\<close> is within 15..90 when
  the request carries settings with a truthy \<open>timePerTurn\<close>, and is otherwise what it was
  before. This holds whatever \<open>parseInt\<close> returns. A created room has the values of the
  \<open>create_room\<close> request as they are (10 and 40 when missing or 0).
\<close>

theorem start_game_settings:
  assumes "currentRoom sock = Some c" and "rs c = Some r"
    and "socket_id sock = hostId r" and "2 \<le> length (players r)"
  shows "\<exists>r'. fst (start_game parseInt rnd sock settings rs) c = Some r' \<and>
           state r' = Playing \<and>
           (case settings of
              None \<Rightarrow> totalRounds r' = totalRounds r \<and> timePerTurn r' = timePerTurn r
            | Some s \<Rightarrow>
                (if truthy (settingsTotalRounds s)
                 then 3 \<le> totalRounds r' \<and> totalRounds r' \<le> 30
                 else totalRounds r' = totalRounds r) \<and>
                (if truthy (settingsTimePerTurn s)
                 then 15 \<le> timePerTurn r' \<and> timePerTurn r' \<le> 90
                 else timePerTurn r' = timePerTurn r)) \<and>
         totalRounds (fst (createRoom rnd' h hn (Some (orDefault tr 10)) (Some (orDefault tpt 40)) ch rs')) =
           (case tr of None \<Rightarrow> 10 | Some n \<Rightarrow> if n = 0 then 10 else n) \<and>
         timePerTurn (fst (createRoom rnd' h hn (Some (orDefault tr 10)) (Some (orDefault tpt 40)) ch rs')) =
           (case tpt of None \<Rightarrow> 40 | Some n \<Rightarrow> if n = 0 then 40 else n)"
proof -
  let ?r1 = "applySettings parseInt settings r"
  let ?r2 = "?r1\<lparr>state := Playing, playerOrder := shuffle rnd (Map_keys (players ?r1)),
                   currentDrawerIndex := - 1, roundNumber := 0\<rparr>"
  have "fst (start_game parseInt rnd sock settings rs) c = Some ?r2"
    using assms by (simp add: start_game_def Let_def)
  moreover have "state ?r2 = Playing" by simp
  moreover have "case settings of
              None \<Rightarrow> totalRounds ?r2 = totalRounds r \<and> timePerTurn ?r2 = timePerTurn r
            | Some s \<Rightarrow>
                (if truthy (settingsTotalRounds s)
                 then 3 \<le> totalRounds ?r2 \<and> totalRounds ?r2 \<le> 30
                 else totalRounds ?r2 = totalRounds r) \<and>
                (if truthy (settingsTimePerTurn s)
                 then 15 \<le> timePerTurn ?r2 \<and> timePerTurn ?r2 \<le> 90
                 else timePerTurn ?r2 = timePerTurn r)"
    using clampSetting_bounds [of parseInt]
    by (simp add: applySettings_rounds applySettings_time split: option.splits)
  moreover have "totalRounds (fst (createRoom rnd' h hn (Some (orDefault tr 10)) (Some (orDefault tpt 40)) ch rs')) =
           (case tr of None \<Rightarrow> 10 | Some n \<Rightarrow> if n = 0 then 10 else n)"
    by (simp add: createRoom_def Let_def orDefault_def split: option.splits)
  moreover have "timePerTurn (fst (createRoom rnd' h hn (Some (orDefault tr 10)) (Some (orDefault tpt 40)) ch rs')) =
           (case tpt of None \<Rightarrow> 40 | Some n \<Rightarrow> if n = 0 then 40 else n)"
    by (simp add: createRoom_def Let_def orDefault_def split: option.splits)
  ultimately show ?thesis by blast
qed

text \<open>
  The example of the amended claim C4: the same room started with the settings
  \<open>{totalRounds: 100}\<close> plays 30 rounds, with its 5 seconds per turn unchanged.
\<close>

theorem start_game_settings_witness:
  "\<exists>r'. fst (start_game parseInt_of_100 (\<lambda>_. 0) (player_conn ''A'')
              (Some \<lparr>settingsTotalRounds = JNum 100, settingsTimePerTurn = JUndefined,
                      settingsIsChampionship = JUndefined\<rparr>) longRooms2) ''AAAA'' = Some r' \<and>
        state r' = Playing \<and> totalRounds r' = 30 \<and> timePerTurn r' = 5"
proof -
  have h: "currentRoom (player_conn ''A'') = Some ''AAAA''" "longRooms2 ''AAAA'' = Some longRoom2"
          "socket_id (player_conn ''A'') = hostId longRoom2" "2 \<le> length (players longRoom2)"
    by (simp_all add: player_conn_def longRooms2_eq longRoom2_def)
  have e: "fst (start_game parseInt_of_100 (\<lambda>_. 0) (player_conn ''A'')
              (Some \<lparr>settingsTotalRounds = JNum 100, settingsTimePerTurn = JUndefined,
                      settingsIsChampionship = JUndefined\<rparr>) longRooms2) ''AAAA''
           = Some (longRoom2\<lparr>totalRounds := 30, state := Playing, playerOrder := [''B'', ''A'']\<rparr>)"
    by (simp add: start_game_def longRooms2_eq player_conn_def applySettings_def Map_keys_def
        shuffle_two Let_def longRoom2_def clampSetting_def parseInt_of_100_def)
  from start_game_settings
         [where sock = "player_conn ''A''" and c = "''AAAA''" and rs = longRooms2 and r = longRoom2
            and parseInt = parseInt_of_100 and rnd = "\<lambda>_. 0"
            and settings = "Some \<lparr>settingsTotalRounds = JNum 100, settingsTimePerTurn = JUndefined,
                                    settingsIsChampionship = JUndefined\<rparr>",
          OF h]
  show ?thesis by (simp add: e longRoom2_def)
qed

subsection \<open>Disconnects during a game\<close>

lemma points_full_time:
  "js_div 40 40 = 1" "guesserPoints 1 1 = 500" "drawerPoints 1 = 150" "guesserPoints 1 2 = 425"
  by (simp_all add: guesserPoints_def drawerPoints_def orderBonus_def js_eval fl_eval)

lemmas handler_eval =
  guess_event_def handleGuess_def disconnect_def playerLeaves_def endTurn_def endGame_def
  player_conn_def currentDrawer_def at_index_def Map_get_def Map_delete_def Map_keys_def
  Set_add_def addScore_def getPlayerList_def Let_def trim_queen trim_Queen points_full_time

lemma drawerGone_eq:
  "drawerGone =
     ([''AAAA'' \<mapsto> room5\<lparr>players := [(''A'', \<lparr>name = ''Ann'', score = 0\<rparr>),
                                         (''C'', \<lparr>name = ''Cy'', score = 0\<rparr>)],
                           playerOrder := [''C'', ''A'']\<rparr>],
      [Emit (ToRoom ''AAAA'') (PlayerLeft ''Bob'')])"
  by (simp add: drawerGone_def rooms5_eq room5_def handler_eval)

lemma guessedC_eq:
  "guessedC =
     [''AAAA'' \<mapsto> room5\<lparr>players := [(''A'', \<lparr>name = ''Ann'', score = 0\<rparr>),
                                        (''B'', \<lparr>name = ''Bob'', score = 150\<rparr>),
                                        (''C'', \<lparr>name = ''Cy'', score = 500\<rparr>)],
                          correctGuessers := [''C'']\<rparr>]"
  by (simp add: guessedC_def rooms5_eq room5_def handler_eval)

lemma guessedC_drawerGone_eq:
  "guessedC_drawerGone =
     [''AAAA'' \<mapsto> room5\<lparr>players := [(''A'', \<lparr>name = ''Ann'', score = 0\<rparr>),
                                        (''C'', \<lparr>name = ''Cy'', score = 500\<rparr>)],
                          correctGuessers := [''C''], playerOrder := [''C'', ''A'']\<rparr>]"
  by (simp add: guessedC_drawerGone_def guessedC_eq room5_def handler_eval)

lemma guessedA_eq:
  "guessedA =
     [''AAAA'' \<mapsto> room5\<lparr>players := [(''A'', \<lparr>name = ''Ann'', score = 500\<rparr>),
                                        (''B'', \<lparr>name = ''Bob'', score = 150\<rparr>),
                                        (''C'', \<lparr>name = ''Cy'', score = 0\<rparr>)],
                          correctGuessers := [''A'']\<rparr>]"
  by (simp add: guessedA_def rooms5_eq room5_def handler_eval)

lemma guessedA_goneA_eq:
  "guessedA_goneA =
     [''AAAA'' \<mapsto> room5\<lparr>hostId := ''B'',
                          players := [(''B'', \<lparr>name = ''Bob'', score = 150\<rparr>),
                                      (''C'', \<lparr>name = ''Cy'', score = 0\<rparr>)],
                          correctGuessers := [''A''], playerOrder := [''B'', ''C'']\<rparr>]"
  by (simp add: guessedA_goneA_def guessedA_eq room5_def handler_eval)

lemma guessedA_goneA_guessedC_eq:
  "guessedA_goneA_guessedC =
     [''AAAA'' \<mapsto> room5\<lparr>hostId := ''B'',
                          players := [(''B'', \<lparr>name = ''Bob'', score = 300\<rparr>),
                                      (''C'', \<lparr>name = ''Cy'', score = 425\<rparr>)],
                          timer := False, correctGuessers := [''A'', ''C''], turnActive := False,
                          playerOrder := [''B'', ''C''], hintInterval := None\<rparr>]"
  by (simp add: guessedA_goneA_guessedC_def guessedA_goneA_eq room5_def handler_eval)

lemma duo2_eq:
  "duo2 = [''AAAA'' \<mapsto> room4\<lparr>players := [(''A'', \<lparr>name = ''Ann'', score = 0\<rparr>),
                                              (''B'', \<lparr>name = ''Bob'', score = 0\<rparr>)],
                                state := Lobby, playerOrder := []\<rparr>]"
  by (simp add: duo2_def rooms1_eq join_room_def toUpperCase_aaaa Let_def fresh_def room4_def)

lemma duo3_eq:
  "duo3 = ([''AAAA'' \<mapsto> room4\<lparr>players := [(''A'', \<lparr>name = ''Ann'', score = 0\<rparr>),
                                               (''B'', \<lparr>name = ''Bob'', score = 0\<rparr>)],
                                 playerOrder := [''B'', ''A'']\<rparr>],
           [Emit (ToRoom ''AAAA'') (GameStarted 10), Emit (ToSpectators ''AAAA'') (GameStarted 10),
            SetTimeout FirstTurn 2000])"
  by (simp add: duo3_def duo2_eq start_game_def player_conn_def applySettings_def Map_keys_def
      shuffle_two Let_def room4_def)

lemma duo4_eq:
  "duo4 = ([''AAAA'' \<mapsto> room4\<lparr>players := [(''A'', \<lparr>name = ''Ann'', score = 0\<rparr>)],
                                 state := Finished, playerOrder := [''A'']\<rparr>],
           [Emit (ToRoom ''AAAA'') (PlayerLeft ''Bob''),
            Emit (ToRoom ''AAAA'') (GameOver (Some ''A'') False),
            Emit (ToSpectators ''AAAA'') (GameOver (Some ''A'') False)])"
  by (simp add: duo4_def duo3_eq room4_def handler_eval)

lemma duo5_eq:
  "duo5 = ([''AAAA'' \<mapsto> room5\<lparr>players := [(''A'', \<lparr>name = ''Ann'', score = 0\<rparr>)],
                                 playerOrder := [''A''],
                                 hintInterval := Some (Some ''A'', [20])\<rparr>],
           [Emit (ToRoom ''AAAA'') (TurnStart ''A'' ''_ _ _ _ _'' 1 10 40),
            Emit (ToSocket ''A'') (YourWord ''Queen''),
            Emit (ToSpectators ''AAAA'') (TurnStart ''A'' ''_ _ _ _ _'' 1 10 40)])"
  by (simp add: duo5_def duo4_eq onRoom_def firstTurnCallback_def room4_def room5_def
      startTurn.simps currentDrawer_def at_index_def Map_get_def getRandomWord_def
      randomElement_def randomIndex_zero Set_add_def generateHint_def hintTimes_def wordLen_def
      threshold_40 Let_def)
     (simp add: WORD_LIST_def)

lemma watched2_eq:
  "watched2 =
     (spectator_conn ''S'',
      [''AAAA'' \<mapsto> room4\<lparr>players := [(''A'', \<lparr>name = ''Ann'', score = 0\<rparr>)], state := Lobby,
                           playerOrder := [], spectators := [(''S'', ''Sam'')]\<rparr>],
      [Emit (ToSocket ''S'') (JoinedAsSpectator ''AAAA'' Lobby),
       Emit (ToRoom ''AAAA'') (SpectatorJoined ''Sam'')])"
  by (simp add: watched2_def rooms1_eq join_room_def toUpperCase_aaaa Let_def fresh_def room4_def
      spectator_conn_def)

lemma watched3_eq:
  "watched3 =
     ([''AAAA'' \<mapsto> room4\<lparr>players := [], state := Lobby, playerOrder := [],
                           spectators := [(''S'', ''Sam'')]\<rparr>],
      [Emit (ToRoom ''AAAA'') (PlayerLeft ''Ann'')])"
  by (simp add: watched3_def watched2_eq room4_def handler_eval)

lemma watched4_eq:
  "watched4 =
     ([''AAAA'' \<mapsto> room4\<lparr>players := [], state := Lobby, playerOrder := [], spectators := []\<rparr>],
      [Emit (ToRoom ''AAAA'') SpectatorLeft])"
  by (simp add: watched4_def watched3_eq room4_def spectator_conn_def disconnect_def Map_delete_def)

text \<open>
  The test of line 507 never holds: it reads \<open>playerOrder\<close> after line 499 has removed
  the departing player from it. So no player disconnect ends a turn.
\<close>

lemma departed_is_not_drawer:
  "currentDrawer (r\<lparr>players := ps, playerOrder := filter (\<lambda>i. i \<noteq> sid) (playerOrder r)\<rparr>) \<noteq> Some sid"
proof
  let ?order = "filter (\<lambda>i. i \<noteq> sid) (playerOrder r)"
  assume "currentDrawer (r\<lparr>players := ps, playerOrder := ?order\<rparr>) = Some sid"
  then have "nat (currentDrawerIndex r) < length ?order" and "?order ! nat (currentDrawerIndex r) = sid"
    by (auto simp: currentDrawer_def at_index_def split: if_splits)
  then have "sid \<in> set ?order" using nth_mem by metis
  then show False by simp
qed

lemma playerLeaves_keeps_turn: "turnActive (fst (playerLeaves sid p r)) = turnActive r"
  using departed_is_not_drawer [where r = r and ps = "Map_delete sid (players r)" and sid = sid]
  by (simp add: playerLeaves_def Let_def endGame_def split: prod.splits)

lemma playerLeaves_no_turn_end:
  "Emit t (TurnEnd w g a b) \<notin> set (fst (snd (playerLeaves sid p r)))"
  using departed_is_not_drawer [where r = r and ps = "Map_delete sid (players r)" and sid = sid]
  by (simp add: playerLeaves_def Let_def endGame_def split: prod.splits)

text \<open>
  Claim C1 (the program departs from it). In the first turn of the three-player game the
  drawer \<open>B\<close> disconnects: the handler only announces the departure; the turn stays
  active, the countdown and the hint interval stay live, and no \<open>turn_end\<close> is emitted.
\<close>

theorem drawer_disconnect_does_not_end_turn:
  "rooms5 ''AAAA'' = Some room5 \<and> state room5 = Playing \<and> turnActive room5 \<and>
   currentDrawer room5 = Some ''B'' \<and>
   disconnect (player_conn ''B'') rooms5 =
     ([''AAAA'' \<mapsto> room5\<lparr>players := [(''A'', \<lparr>name = ''Ann'', score = 0\<rparr>),
                                         (''C'', \<lparr>name = ''Cy'', score = 0\<rparr>)],
                           playerOrder := [''C'', ''A'']\<rparr>],
      [Emit (ToRoom ''AAAA'') (PlayerLeft ''Bob'')]) \<and>
   turnActive (room5\<lparr>players := [(''A'', \<lparr>name = ''Ann'', score = 0\<rparr>),
                                  (''C'', \<lparr>name = ''Cy'', score = 0\<rparr>)],
                    playerOrder := [''C'', ''A'']\<rparr>) \<and>
   timer (room5\<lparr>players := [(''A'', \<lparr>name = ''Ann'', score = 0\<rparr>),
                             (''C'', \<lparr>name = ''Cy'', score = 0\<rparr>)],
               playerOrder := [''C'', ''A'']\<rparr>) \<and>
   hintInterval (room5\<lparr>players := [(''A'', \<lparr>name = ''Ann'', score = 0\<rparr>),
                                    (''C'', \<lparr>name = ''Cy'', score = 0\<rparr>)],
                      playerOrder := [''C'', ''A'']\<rparr>) = Some (Some ''B'', [20])"
  using drawerGone_eq
  by (simp add: drawerGone_def rooms5_eq) (simp add: room5_def currentDrawer_def at_index_def)

text \<open>The player branch of the handler does remove a room left with nobody (lines 517-521).\<close>

lemma last_player_leaves_room_removed:
  assumes "currentRoom sock = Some c" and "rs c = Some r" and "\<not> isSpectator sock"
    and "Map_get (players r) (Some (socket_id sock)) = Some p"
    and "Map_delete (socket_id sock) (players r) = []" and "spectators r = []"
  shows "fst (disconnect sock rs) c = None"
  using assms
    departed_is_not_drawer [where r = r and ps = "Map_delete (socket_id sock) (players r)"
                              and sid = "socket_id sock"]
  by (simp add: disconnect_def playerLeaves_def Let_def endGame_def split: prod.splits)

text \<open>
  Claim C3 (the program departs from it). \<open>A\<close> creates a room, \<open>S\<close> joins it as a
  spectator, \<open>A\<close> disconnects (the room stays, for its spectator), and \<open>S\<close> disconnects:
  the spectator branch of the handler returns at line 493, before the test of line 517,
  and the registry keeps the room with no player and no spectator.
\<close>

theorem last_spectator_leaves_room_registered:
  "fst (snd watched2) = [''AAAA'' \<mapsto> room4\<lparr>players := [(''A'', \<lparr>name = ''Ann'', score = 0\<rparr>)],
                                            state := Lobby, playerOrder := [],
                                            spectators := [(''S'', ''Sam'')]\<rparr>] \<and>
   fst watched3 = [''AAAA'' \<mapsto> room4\<lparr>players := [], state := Lobby, playerOrder := [],
                                      spectators := [(''S'', ''Sam'')]\<rparr>] \<and>
   disconnect (spectator_conn ''S'') (fst watched3) =
     ([''AAAA'' \<mapsto> room4\<lparr>players := [], state := Lobby, playerOrder := [], spectators := []\<rparr>],
      [Emit (ToRoom ''AAAA'') SpectatorLeft]) \<and>
   players (room4\<lparr>players := [], state := Lobby, playerOrder := [], spectators := []\<rparr>) = [] \<and>
   spectators (room4\<lparr>players := [], state := Lobby, playerOrder := [], spectators := []\<rparr>) = []"
  using watched4_eq by (simp add: watched4_def watched2_eq watched3_eq)

text \<open>The two parts of claim C9 that hold.\<close>

lemma playerLeaves_finishes:
  assumes "state r = Playing" and "length (Map_delete sid (players r)) < 2"
  shows "state (fst (playerLeaves sid p r)) = Finished"
  using assms departed_is_not_drawer [where r = r and ps = "Map_delete sid (players r)" and sid = sid]
  by (simp add: playerLeaves_def Let_def endGame_def split: prod.splits)

lemma nextTurnCallback_finished:
  "state r = Finished \<Longrightarrow> nextTurnCallback u r = (r, [])"
  by (simp add: nextTurnCallback_def)

text \<open>
  Claim C9 (the program departs from it). \<open>A\<close> and \<open>B\<close> are in a room and \<open>A\<close> starts the
  game, which schedules the first turn after the grace delay. \<open>B\<close> disconnects within the
  delay: the room is \<open>finished\<close>. Then the scheduled callback runs; unlike the callback of
  \<open>endTurn\<close> it does not test the state, and it starts a turn with \<open>A\<close> as the drawer and
  puts the room back in \<open>playing\<close>.
\<close>

theorem turn_starts_after_game_finished:
  "snd duo3 = [Emit (ToRoom ''AAAA'') (GameStarted 10), Emit (ToSpectators ''AAAA'') (GameStarted 10),
               SetTimeout FirstTurn 2000] \<and>
   fst duo4 = [''AAAA'' \<mapsto> room4\<lparr>players := [(''A'', \<lparr>name = ''Ann'', score = 0\<rparr>)],
                                   state := Finished, playerOrder := [''A'']\<rparr>] \<and>
   onRoom ''AAAA'' (firstTurnCallback 0) (fst duo4) =
     ([''AAAA'' \<mapsto> room5\<lparr>players := [(''A'', \<lparr>name = ''Ann'', score = 0\<rparr>)],
                           playerOrder := [''A''],
                           hintInterval := Some (Some ''A'', [20])\<rparr>],
      [Emit (ToRoom ''AAAA'') (TurnStart ''A'' ''_ _ _ _ _'' 1 10 40),
       Emit (ToSocket ''A'') (YourWord ''Queen''),
       Emit (ToSpectators ''AAAA'') (TurnStart ''A'' ''_ _ _ _ _'' 1 10 40)]) \<and>
   state (room5\<lparr>players := [(''A'', \<lparr>name = ''Ann'', score = 0\<rparr>)], playerOrder := [''A''],
                hintInterval := Some (Some ''A'', [20])\<rparr>) = Playing \<and>
   turnActive (room5\<lparr>players := [(''A'', \<lparr>name = ''Ann'', score = 0\<rparr>)], playerOrder := [''A''],
                     hintInterval := Some (Some ''A'', [20])\<rparr>)"
  using duo5_eq by (simp add: duo5_def duo3_eq duo4_eq) (simp add: room5_def)

subsection \<open>The set of correct guessers\<close>

text \<open>
  Claim C8 fails as stated. In the first turn of the three-player game (drawer \<open>B\<close>):
  after \<open>C\<close> has guessed the word and \<open>B\<close> has disconnected, the turn is still active and
  \<open>playerOrder[currentDrawerIndex]\<close> is \<open>C\<close>, a member of \<open>correctGuessers\<close>; after \<open>A\<close> has
  guessed the word and disconnected and \<open>C\<close> has guessed the word, \<open>correctGuessers\<close> has 2
  members in a room of 2 players. A disconnect never removes anyone from the set.
\<close>

theorem correctGuessers_invariant_broken:
  "guessedC_drawerGone ''AAAA'' =
     Some (room5\<lparr>players := [(''A'', \<lparr>name = ''Ann'', score = 0\<rparr>),
                               (''C'', \<lparr>name = ''Cy'', score = 500\<rparr>)],
                 correctGuessers := [''C''], playerOrder := [''C'', ''A'']\<rparr>) \<and>
   state (room5\<lparr>players := [(''A'', \<lparr>name = ''Ann'', score = 0\<rparr>),
                             (''C'', \<lparr>name = ''Cy'', score = 500\<rparr>)],
               correctGuessers := [''C''], playerOrder := [''C'', ''A'']\<rparr>) = Playing \<and>
   turnActive (room5\<lparr>players := [(''A'', \<lparr>name = ''Ann'', score = 0\<rparr>),
                                  (''C'', \<lparr>name = ''Cy'', score = 500\<rparr>)],
                    correctGuessers := [''C''], playerOrder := [''C'', ''A'']\<rparr>) \<and>
   currentDrawer (room5\<lparr>players := [(''A'', \<lparr>name = ''Ann'', score = 0\<rparr>),
                                     (''C'', \<lparr>name = ''Cy'', score = 500\<rparr>)],
                       correctGuessers := [''C''], playerOrder := [''C'', ''A'']\<rparr>) = Some ''C'' \<and>
   ''C'' \<in> set (correctGuessers
                  (room5\<lparr>players := [(''A'', \<lparr>name = ''Ann'', score = 0\<rparr>),
                                       (''C'', \<lparr>name = ''Cy'', score = 500\<rparr>)],
                         correctGuessers := [''C''], playerOrder := [''C'', ''A'']\<rparr>)) \<and>
   guessedA_goneA_guessedC ''AAAA'' =
     Some (room5\<lparr>hostId := ''B'',
                 players := [(''B'', \<lparr>name = ''Bob'', score = 300\<rparr>),
                             (''C'', \<lparr>name = ''Cy'', score = 425\<rparr>)],
                 timer := False, correctGuessers := [''A'', ''C''], turnActive := False,
                 playerOrder := [''B'', ''C''], hintInterval := None\<rparr>) \<and>
   state (room5\<lparr>hostId := ''B'',
               players := [(''B'', \<lparr>name = ''Bob'', score = 300\<rparr>),
                           (''C'', \<lparr>name = ''Cy'', score = 425\<rparr>)],
               timer := False, correctGuessers := [''A'', ''C''], turnActive := False,
               playerOrder := [''B'', ''C''], hintInterval := None\<rparr>) = Playing \<and>
   \<not> length (correctGuessers
               (room5\<lparr>hostId := ''B'',
                      players := [(''B'', \<lparr>name = ''Bob'', score = 300\<rparr>),
                                  (''C'', \<lparr>name = ''Cy'', score = 425\<rparr>)],
                      timer := False, correctGuessers := [''A'', ''C''], turnActive := False,
                      playerOrder := [''B'', ''C''], hintInterval := None\<rparr>))
       \<le> length (players
                   (room5\<lparr>hostId := ''B'',
                          players := [(''B'', \<lparr>name = ''Bob'', score = 300\<rparr>),
                                      (''C'', \<lparr>name = ''Cy'', score = 425\<rparr>)],
                          timer := False, correctGuessers := [''A'', ''C''], turnActive := False,
                          playerOrder := [''B'', ''C''], hintInterval := None\<rparr>)) - 1"
  by (simp add: guessedC_drawerGone_eq guessedA_goneA_guessedC_eq)
     (simp add: room5_def currentDrawer_def at_index_def)

lemma Map_get_addScore_None:
  "(Map_get (addScore k n m) (Some i) = None) = (Map_get m (Some i) = None)"
  by (simp add: Map_get_addScore)

lemma handleGuess_drawer: "currentDrawer (fst (handleGuess r p g)) = currentDrawer r"
  by (simp add: handleGuess_def Let_def endTurn_def currentDrawer_def
      split: option.splits prod.splits)

lemma handleGuess_roster:
  "(Map_get (players (fst (handleGuess r p g))) (Some i) = None) = (Map_get (players r) (Some i) = None)"
  by (simp add: handleGuess_def Let_def endTurn_def Map_get_addScore_None
      split: option.splits prod.splits)

lemma handleGuess_guessers:
  "correctGuessers (fst (handleGuess r p g)) = correctGuessers r \<or>
   (correctGuessers (fst (handleGuess r p g)) = correctGuessers r @ [p] \<and>
    p \<notin> set (correctGuessers r) \<and> Some p \<noteq> currentDrawer r \<and>
    Map_get (players r) (Some p) \<noteq> None)"
  by (simp add: handleGuess_def Let_def endTurn_def Set_add_def
      split: option.splits prod.splits)

lemma handleGuess_keeps_guessers_ok:
  assumes "guessers_ok r"
  shows "guessers_ok (fst (handleGuess r p g))"
  using assms handleGuess_guessers [of r p g]
  by (auto simp: guessers_ok_def handleGuess_drawer handleGuess_roster)

lemma callbacks_keep_guessers_ok:
  assumes "guessers_ok r"
  shows "guessers_ok (fst (endTurn r w))" and "guessers_ok (fst (timerTick r))"
    and "guessers_ok (fst (hintTick r))"
  using assms
  by (auto simp: guessers_ok_def endTurn_def timerTick_def hintTick_def Let_def currentDrawer_def
      split: option.splits prod.splits)

lemma guessers_bound:
  assumes ok: "guessers_ok r" and dk: "distinct (Map_keys (players r))"
    and d: "currentDrawer r = Some d" and dp: "Map_get (players r) (Some d) \<noteq> None"
  shows "d \<notin> set (correctGuessers r)"
    and "length (correctGuessers r) \<le> length (players r) - 1"
proof -
  show nd: "d \<notin> set (correctGuessers r)" using ok d by (auto simp: guessers_ok_def)
  have din: "d \<in> set (Map_keys (players r))"
    using dp by (auto simp: Map_get_def Map_keys_def map_of_eq_None_iff)
  have sub: "set (correctGuessers r) \<subseteq> set (Map_keys (players r)) - {d}"
    using ok nd by (auto simp: guessers_ok_def Map_get_def Map_keys_def map_of_eq_None_iff)
  have "length (correctGuessers r) = card (set (correctGuessers r))"
    using ok by (simp add: guessers_ok_def distinct_card)
  also have "\<dots> \<le> card (set (Map_keys (players r)) - {d})"
    using sub by (intro card_mono) auto
  also have "\<dots> = card (set (Map_keys (players r))) - 1" using din by simp
  also have "\<dots> = length (Map_keys (players r)) - 1"
    using distinct_card [OF dk] by simp
  also have "\<dots> = length (players r) - 1" by (simp add: Map_keys_def)
  finally show "length (correctGuessers r) \<le> length (players r) - 1" .
qed

text \<open>
  Claim C8, amended. A started turn has no correct guessers. Handling a guess, ending a
  turn and the two timer callbacks keep the invariant \<open>guessers_ok\<close>: the members of
  \<open>correctGuessers\<close> are distinct roster players other than the current drawer. While it
  holds and the current drawer is in the roster, the drawer is not a member and the set
  has at most (player count - 1) members. (A disconnect is not among these operations.)
\<close>

theorem correctGuessers_invariant:
  "(state (fst (startTurn u r)) \<noteq> Finished \<longrightarrow>
      correctGuessers (fst (startTurn u r)) = [] \<and> guessers_ok (fst (startTurn u r)))
   \<and> (guessers_ok r1 \<longrightarrow> guessers_ok (fst (handleGuess r1 p g)))
   \<and> (guessers_ok r2 \<longrightarrow>
        guessers_ok (fst (endTurn r2 w)) \<and> guessers_ok (fst (timerTick r2)) \<and>
        guessers_ok (fst (hintTick r2)))
   \<and> (guessers_ok r3 \<and> distinct (Map_keys (players r3)) \<and> currentDrawer r3 = Some d \<and>
        Map_get (players r3) (Some d) \<noteq> None \<longrightarrow>
        d \<notin> set (correctGuessers r3) \<and> length (correctGuessers r3) \<le> length (players r3) - 1)"
proof (intro conjI impI)
  assume "state (fst (startTurn u r)) \<noteq> Finished"
  then show e: "correctGuessers (fst (startTurn u r)) = []" using startTurn_started by blast
  then show "guessers_ok (fst (startTurn u r))" by (simp add: guessers_ok_def)
next
  assume "guessers_ok r1"
  then show "guessers_ok (fst (handleGuess r1 p g))" by (rule handleGuess_keeps_guessers_ok)
next
  assume ok: "guessers_ok r2"
  show "guessers_ok (fst (endTurn r2 w))" by (rule callbacks_keep_guessers_ok(1) [OF ok])
  show "guessers_ok (fst (timerTick r2))" by (rule callbacks_keep_guessers_ok(2) [OF ok])
  show "guessers_ok (fst (hintTick r2))" by (rule callbacks_keep_guessers_ok(3) [OF ok])
next
  assume h: "guessers_ok r3 \<and> distinct (Map_keys (players r3)) \<and> currentDrawer r3 = Some d \<and>
        Map_get (players r3) (Some d) \<noteq> None"
  then show "d \<notin> set (correctGuessers r3)" using guessers_bound(1) by blast
  from h show "length (correctGuessers r3) \<le> length (players r3) - 1"
    using guessers_bound(2) by blast
qed

text \<open>
  The example of the amended claim C8: the first turn of the three-player game starts
  with no correct guesser; after the correct guess of \<open>A\<close> the invariant holds, the drawer
  \<open>B\<close> is not a member and the set has 1 member, at most 3 - 1.
\<close>

theorem correctGuessers_invariant_witness:
  "correctGuessers (fst (startTurn 0 room4)) = [] \<and>
   guessers_ok (fst (handleGuess room5 ''A'' ''queen'')) \<and>
   guessers_ok (fst (endTurn room5 False)) \<and>
   ''B'' \<notin> set (correctGuessers (fst (handleGuess room5 ''A'' ''queen''))) \<and>
   length (correctGuessers (fst (handleGuess room5 ''A'' ''queen'')))
     \<le> length (players (fst (handleGuess room5 ''A'' ''queen''))) - 1 \<and>
   length (correctGuessers (fst (handleGuess room5 ''A'' ''queen''))) = 1"
proof -
  have s: "fst (startTurn 0 room4) = room5" by (simp add: startTurn_room4)
  have h1: "state (fst (startTurn 0 room4)) \<noteq> Finished" by (simp add: s room5_def)
  have ok5: "guessers_ok room5" by (simp add: guessers_ok_def room5_def)
  have g: "fst (handleGuess room5 ''A'' ''queen'') =
             room5\<lparr>players := [(''A'', \<lparr>name = ''Ann'', score = 500\<rparr>),
                                (''B'', \<lparr>name = ''Bob'', score = 150\<rparr>),
                                (''C'', \<lparr>name = ''Cy'', score = 0\<rparr>)],
                   correctGuessers := [''A'']\<rparr>"
    by (simp add: room5_def handler_eval)
  note inst = correctGuessers_invariant
               [where u = 0 and r = room4 and ?r1.0 = room5 and p = "''A''" and g = "''queen''"
                  and ?r2.0 = room5 and w = False
                  and ?r3.0 = "fst (handleGuess room5 ''A'' ''queen'')" and d = "''B''"]
  have ok6: "guessers_ok (fst (handleGuess room5 ''A'' ''queen''))"
    using inst ok5 by blast
  have h4: "distinct (Map_keys (players (fst (handleGuess room5 ''A'' ''queen'')))) \<and>
            currentDrawer (fst (handleGuess room5 ''A'' ''queen'')) = Some ''B'' \<and>
            Map_get (players (fst (handleGuess room5 ''A'' ''queen''))) (Some ''B'') \<noteq> None"
    by (simp add: g) (simp add: room5_def Map_keys_def currentDrawer_def at_index_def Map_get_def)
  have l: "length (correctGuessers (fst (handleGuess room5 ''A'' ''queen''))) = 1"
    by (simp add: g)
  from inst h1 ok5 ok6 h4 l show ?thesis by blast
qed

end
